theory Spec2Isabelle
  imports Main
begin

section \<open>Types, kinds and problems\<close>

text \<open>
  The engine keeps a graph of types. Every type has an identifier and a kind. The kinds
  whose code is embedded here are the fixed-parameters kind (\<open>List<T>\<close>, \<open>Map<K, V>\<close>),
  the bottom kind and the function kind; primitive types occur as parameter, input and
  output types. A function type is an object whose reference matters (the initializer
  compares the initial node with the canonical one by reference), so it carries one.
\<close>

datatype TypeCheckStrategy = EQUAL_TYPE | ASSIGNABLE_TYPE | SUB_TYPE

record FixedParameterKind =
  baseName :: string
  parameterSubtypeCheckingStrategy :: TypeCheckStrategy
  parameters :: "string list"

datatype Type =
    PrimitiveType string
  | BottomType string
  | FixedParameterType FixedParameterKind string "Type list"
  | FunctionType nat string string "Type option" "(string \<times> Type) list"

text \<open>
  \<open>PrimitiveType identifier\<close>, \<open>BottomType identifier\<close>,
  \<open>FixedParameterType kind identifier parameterTypes\<close> (the types of the
  \<open>parameterValues\<close>, in order) and
  \<open>FunctionType reference functionName identifier outputType inputParameters\<close>, where
  an input parameter is a name and a type.
\<close>

fun getIdentifier :: "Type \<Rightarrow> string" where
  "getIdentifier (PrimitiveType i) = i"
| "getIdentifier (BottomType i) = i"
| "getIdentifier (FixedParameterType k i ps) = i"
| "getIdentifier (FunctionType r n i out ins) = i"

datatype TypirProblem =
    ValueConflict string string string
  | IndexedTypeConflict "Type option" "Type option" nat "TypirProblem list"
  | KindConflict Type Type
  | TypeEqualityProblem Type Type "TypirProblem list"
  | SubTypeProblem Type Type "TypirProblem list"
  | AssignabilityProblem Type Type "TypirProblem list"

text \<open>
  \<open>SubTypeProblem superType subType subProblems\<close>;
  \<open>TypeEqualityProblem type1 type2 subProblems\<close>;
  \<open>IndexedTypeConflict expected actual index subProblems\<close>;
  \<open>ValueConflict firstValue secondValue location\<close>.
\<close>

datatype error = Error string | TypeError | AssertionError

text \<open>
  The relation services and the printer are reached through \<open>kind.typir\<close>. Their code is
  not part of the embedded files, so they are parameters of the analyses: each relation
  returns a problem or nothing (\<open>undefined\<close>).
\<close>

record Typir =
  getTypeEqualityProblem :: "Type \<Rightarrow> Type \<Rightarrow> TypirProblem option"
  getSubTypeProblem :: "Type \<Rightarrow> Type \<Rightarrow> TypirProblem option"
  getAssignabilityProblem :: "Type \<Rightarrow> Type \<Rightarrow> TypirProblem option"
  printType :: "Type \<Rightarrow> string"

datatype 'a OneOrMany = One 'a | Many "'a list"

fun toArray :: "'a OneOrMany option \<Rightarrow> 'a list" where
  "toArray None = []"
| "toArray (Some (One x)) = [x]"
| "toArray (Some (Many xs)) = xs"

section \<open>Comparison helpers\<close>

text \<open>
  The embedded files import these helpers from \<open>utils-type-comparison\<close>, whose code is
  not among them.
\<close>

text \<open>
  Modelled from the spec: \<open>createKindConflict\<close>, the problem of comparing two types of
  incompatible kinds (section 7); it records the two types.
\<close>

definition createKindConflict :: "Type \<Rightarrow> Type \<Rightarrow> TypirProblem" where
  "createKindConflict first second = KindConflict first second"

text \<open>
  Modelled from the spec: \<open>checkValueForConflict\<close>, used for the base names, which must
  be the same (section 4.B): two values that differ are a conflict at the given
  location.
\<close>

definition checkValueForConflict :: "string \<Rightarrow> string \<Rightarrow> string \<Rightarrow> TypirProblem list" where
  "checkValueForConflict first second location =
     (if first = second then [] else [ValueConflict first second location])"

text \<open>
  Modelled from the spec: the loop of \<open>checkTypes\<close> from a position on. Types are
  compared pair-wise, position by position (section 4.B); a position that only one of
  the two lists has is a conflict.
\<close>

fun checkTypesFrom :: "nat \<Rightarrow> Type list \<Rightarrow> Type list \<Rightarrow> (Type \<Rightarrow> Type \<Rightarrow> TypirProblem option)
    \<Rightarrow> TypirProblem list" where
  "checkTypesFrom i [] [] rel = []"
| "checkTypesFrom i (l # ls) (r # rs) rel =
     (case rel l r of
        None \<Rightarrow> checkTypesFrom (Suc i) ls rs rel
      | Some p \<Rightarrow> IndexedTypeConflict (Some l) (Some r) i [p] # checkTypesFrom (Suc i) ls rs rel)"
| "checkTypesFrom i [] (r # rs) rel =
     IndexedTypeConflict None (Some r) i [] # checkTypesFrom (Suc i) [] rs rel"
| "checkTypesFrom i (l # ls) [] rel =
     IndexedTypeConflict (Some l) None i [] # checkTypesFrom (Suc i) ls [] rel"

text \<open>
  Modelled from the spec: \<open>checkTypes\<close>, the pair-wise comparison of two lists of types
  by a relation that returns a problem or nothing.
\<close>

definition checkTypes :: "Type list \<Rightarrow> Type list \<Rightarrow> (Type \<Rightarrow> Type \<Rightarrow> TypirProblem option)
    \<Rightarrow> TypirProblem list" where
  "checkTypes leftTypes rightTypes relationToCheck = checkTypesFrom 0 leftTypes rightTypes relationToCheck"

text \<open>
  Modelled from the spec: \<open>createTypeCheckStrategy\<close> (section 4.B): equality for
  \<open>EQUAL_TYPE\<close>, the subtype relation for \<open>SUB_TYPE\<close>, assignability for
  \<open>ASSIGNABLE_TYPE\<close>.
\<close>

fun createTypeCheckStrategy :: "TypeCheckStrategy \<Rightarrow> Typir \<Rightarrow> (Type \<Rightarrow> Type \<Rightarrow> TypirProblem option)" where
  "createTypeCheckStrategy ASSIGNABLE_TYPE typir = getAssignabilityProblem typir"
| "createTypeCheckStrategy EQUAL_TYPE typir = getTypeEqualityProblem typir"
| "createTypeCheckStrategy SUB_TYPE typir = getSubTypeProblem typir"

section \<open>Fixed-parameters and bottom types: the analyses of a type\<close>

text \<open>
  \<open>isFixedParameterType\<close> tests that the kind's \<open>$name\<close> starts with
  \<open>FixedParameterKind-\<close>: the kind's constructor sets \<open>$name\<close> to that prefix followed
  by the base name, so the test is the constructor tag of the type. \<open>isBottomType\<close>
  likewise compares \<open>$name\<close> with \<open>BottomKind\<close>.
\<close>

fun isFixedParameterType :: "Type \<Rightarrow> bool" where
  "isFixedParameterType (FixedParameterType k i ps) = True"
| "isFixedParameterType t = False"

fun isBottomType :: "Type \<Rightarrow> bool" where
  "isBottomType (BottomType i) = True"
| "isBottomType t = False"

fun getParameterTypes :: "Type \<Rightarrow> Type list" where
  "getParameterTypes (FixedParameterType k i ps) = ps"

text \<open>
  The analyses are functions of the kind and the parameter types that a type holds.
  The constructor of \<open>FixedParameterType\<close> and \<open>createFixedParameterType\<close> follow the
  graph, in the section on the creation of fixed-parameters types.
\<close>

text \<open>
  The analyses are methods that each class of types overrides; the receiver is the
  second argument. The equations are those of \<open>FixedParameterType\<close> and of
  \<open>BottomType\<close>; the classes of primitive and function types are not embedded, so the
  functions say nothing about such a receiver.
\<close>

fun analyzeTypeEqualityProblems :: "Typir \<Rightarrow> Type \<Rightarrow> Type \<Rightarrow> TypirProblem list" where
  "analyzeTypeEqualityProblems typir (FixedParameterType k i ps) otherType =
     (if isFixedParameterType otherType then
        (case otherType of FixedParameterType k' i' ps' \<Rightarrow>
          (let baseTypeCheck = checkValueForConflict (baseName k) (baseName k') ''base type'' in
           if length baseTypeCheck \<ge> 1 then baseTypeCheck
           else checkTypes ps ps' (getTypeEqualityProblem typir)))
      else [TypeEqualityProblem (FixedParameterType k i ps) otherType
              [createKindConflict (FixedParameterType k i ps) otherType]])"
| "analyzeTypeEqualityProblems typir (BottomType i) otherType =
     (if isBottomType otherType then []
      else [TypeEqualityProblem (BottomType i) otherType
              [createKindConflict (BottomType i) otherType]])"

text \<open>
  \<open>analyzeSubTypeProblems\<close> is a protected method of \<open>FixedParameterType\<close> that takes two
  fixed-parameters types; the strategy is the one of the receiver's kind
  (\<open>this.kind.options\<close>), which is the second argument here.
\<close>

fun analyzeSubTypeProblems :: "Typir \<Rightarrow> FixedParameterKind \<Rightarrow> Type \<Rightarrow> Type \<Rightarrow> TypirProblem list" where
  "analyzeSubTypeProblems typir thisKind (FixedParameterType k i ps) (FixedParameterType k' i' ps') =
     (let baseTypeCheck = checkValueForConflict (baseName k) (baseName k') ''base type'' in
      if length baseTypeCheck \<ge> 1 then baseTypeCheck
      else checkTypes ps ps' (createTypeCheckStrategy (parameterSubtypeCheckingStrategy thisKind) typir))"

fun analyzeIsSubTypeOf :: "Typir \<Rightarrow> Type \<Rightarrow> Type \<Rightarrow> TypirProblem list" where
  "analyzeIsSubTypeOf typir (FixedParameterType k i ps) superType =
     (if isFixedParameterType superType
      then analyzeSubTypeProblems typir k (FixedParameterType k i ps) superType
      else [SubTypeProblem superType (FixedParameterType k i ps)
              [createKindConflict (FixedParameterType k i ps) superType]])"
| "analyzeIsSubTypeOf typir (BottomType i) superType = []"

fun analyzeIsSuperTypeOf :: "Typir \<Rightarrow> Type \<Rightarrow> Type \<Rightarrow> TypirProblem list" where
  "analyzeIsSuperTypeOf typir (FixedParameterType k i ps) subType =
     (if isFixedParameterType subType
      then analyzeSubTypeProblems typir k subType (FixedParameterType k i ps)
      else [SubTypeProblem (FixedParameterType k i ps) subType
              [createKindConflict subType (FixedParameterType k i ps)]])"
| "analyzeIsSuperTypeOf typir (BottomType i) subType =
     (if isBottomType subType then []
      else [SubTypeProblem (BottomType i) subType [createKindConflict (BottomType i) subType]])"

fun join :: "string \<Rightarrow> string list \<Rightarrow> string" where
  "join sep [] = []"
| "join sep [x] = x"
| "join sep (x # y # ys) = x @ sep @ join sep (y # ys)"

definition printSignature :: "Typir \<Rightarrow> string \<Rightarrow> Type list \<Rightarrow> string" where
  "printSignature typir name parameterTypes =
     name @ ''<'' @ join '', '' (map (printType typir) parameterTypes) @ ''>''"

definition calculateIdentifier :: "Typir \<Rightarrow> FixedParameterKind \<Rightarrow> Type OneOrMany \<Rightarrow> string" where
  "calculateIdentifier typir kind parameterTypes =
     printSignature typir (baseName kind) (toArray (Some parameterTypes))"

subsection \<open>The kind-level analysis of \<open>fixed-parameters-kind.ts\<close>\<close>

text \<open>
  In this file the kind itself answers the subtype question. The parameter types of a
  type are the targets of its outgoing \<open>hasField\<close> edges, in order; they are the list
  the type carries here. \<open>getParameterTypes\<close> asserts their number. The comparison
  strategy \<open>createTypeComparisonStrategy(this.options.subtypeParameterChecking, typir)\<close>
  is code that is not embedded: it is the first argument, and returns the conflicts of
  two types.
\<close>

definition FixedParameterKind_getParameterTypes :: "FixedParameterKind \<Rightarrow> Type \<Rightarrow> error + Type list" where
  "FixedParameterKind_getParameterTypes this fixedParameterType =
     (let result = getParameterTypes fixedParameterType in
      if length result = length (parameters this) then Inr result else Inl AssertionError)"

text \<open>
  Modelled from the spec: the loop of \<open>compareTypes\<close> of \<open>utils-type-comparison\<close> from
  a position on: the pair-wise comparison of two lists of types by a relation that
  returns conflicts.
\<close>

fun compareTypesFrom :: "nat \<Rightarrow> Type list \<Rightarrow> Type list \<Rightarrow> (Type \<Rightarrow> Type \<Rightarrow> TypirProblem list)
    \<Rightarrow> TypirProblem list" where
  "compareTypesFrom i [] [] rel = []"
| "compareTypesFrom i (l # ls) (r # rs) rel =
     (case rel l r of
        [] \<Rightarrow> compareTypesFrom (Suc i) ls rs rel
      | p # ps \<Rightarrow> IndexedTypeConflict (Some l) (Some r) i (p # ps) # compareTypesFrom (Suc i) ls rs rel)"
| "compareTypesFrom i [] (r # rs) rel =
     IndexedTypeConflict None (Some r) i [] # compareTypesFrom (Suc i) [] rs rel"
| "compareTypesFrom i (l # ls) [] rel =
     IndexedTypeConflict (Some l) None i [] # compareTypesFrom (Suc i) ls [] rel"

text \<open>
  Modelled from the spec: \<open>compareTypes\<close>, the pair-wise comparison from the first
  position on.
\<close>

definition compareTypes :: "Type list \<Rightarrow> Type list \<Rightarrow> (Type \<Rightarrow> Type \<Rightarrow> TypirProblem list)
    \<Rightarrow> TypirProblem list" where
  "compareTypes leftTypes rightTypes relationToCheck = compareTypesFrom 0 leftTypes rightTypes relationToCheck"

fun FixedParameterKind_isSubType :: "(TypeCheckStrategy \<Rightarrow> Type \<Rightarrow> Type \<Rightarrow> TypirProblem list)
    \<Rightarrow> FixedParameterKind \<Rightarrow> Type \<Rightarrow> Type \<Rightarrow> error + TypirProblem list" where
  "FixedParameterKind_isSubType createTypeComparisonStrategy this
       (FixedParameterType ksuper isuper psuper) (FixedParameterType ksub isub psub) =
     (if baseName ksuper = baseName ksub then
        (let compareStrategy = createTypeComparisonStrategy (parameterSubtypeCheckingStrategy this) in
         case FixedParameterKind_getParameterTypes ksuper (FixedParameterType ksuper isuper psuper) of
           Inl e \<Rightarrow> Inl e
         | Inr superTypes \<Rightarrow>
            (case FixedParameterKind_getParameterTypes ksub (FixedParameterType ksub isub psub) of
               Inl e \<Rightarrow> Inl e
             | Inr subTypes \<Rightarrow> Inr (compareTypes superTypes subTypes compareStrategy)))
      else Inl (Error []))"
| "FixedParameterKind_isSubType createTypeComparisonStrategy this superType subType = Inl (Error [])"

section \<open>The type graph and the relation services\<close>

datatype ConversionMode = IMPLICIT_EXPLICIT | EXPLICIT

datatype TypeEdge = SubTypeEdge Type Type | ConversionEdge Type Type ConversionMode

text \<open>\<open>SubTypeEdge from to\<close> and \<open>ConversionEdge from to mode\<close>.\<close>

fun edgeFrom :: "TypeEdge \<Rightarrow> Type" where
  "edgeFrom (SubTypeEdge a b) = a"
| "edgeFrom (ConversionEdge a b m) = a"

fun edgeTo :: "TypeEdge \<Rightarrow> Type" where
  "edgeTo (SubTypeEdge a b) = b"
| "edgeTo (ConversionEdge a b m) = b"

fun isSubTypeEdge :: "TypeEdge \<Rightarrow> bool" where
  "isSubTypeEdge (SubTypeEdge a b) = True"
| "isSubTypeEdge e = False"

fun isImplicitConversionEdge :: "TypeEdge \<Rightarrow> bool" where
  "isImplicitConversionEdge (ConversionEdge a b IMPLICIT_EXPLICIT) = True"
| "isImplicitConversionEdge e = False"

text \<open>
  The graph holds the registered types in the order of their registration, the edges,
  and the listeners in the order of their registration. The only class of listeners in
  the embedded code is \<open>BottomType\<close>, which registers itself: a listener is a type.
\<close>

record TypeGraph =
  nodes :: "Type list"
  edges :: "TypeEdge list"
  listeners :: "Type list"

definition emptyGraph :: TypeGraph where
  "emptyGraph = \<lparr>nodes = [], edges = [], listeners = []\<rparr>"

text \<open>The code of the graph is not among the embedded files.\<close>

text \<open>
  Modelled from the spec: \<open>getType(id)\<close> of the graph (section 4.A), the registered type
  with that identifier, if any.
\<close>

definition getType :: "TypeGraph \<Rightarrow> string \<Rightarrow> Type option" where
  "getType graph key = find (\<lambda>t. getIdentifier t = key) (nodes graph)"

text \<open>
  Modelled from the spec: \<open>getAllRegisteredTypes\<close>, the \<open>allTypes()\<close> of section 4.A.
\<close>

definition getAllRegisteredTypes :: "TypeGraph \<Rightarrow> Type list" where
  "getAllRegisteredTypes graph = nodes graph"

text \<open>
  Modelled from the spec: \<open>addListener\<close> (section 4.A); listeners are kept in the order
  of their registration.
\<close>

definition addListener :: "Type \<Rightarrow> TypeGraph \<Rightarrow> TypeGraph" where
  "addListener listener graph = graph\<lparr>listeners := listeners graph @ [listener]\<rparr>"

text \<open>
  Modelled from the spec: \<open>addEdge\<close> (section 4.A); an edge is in the graph once.
\<close>

definition addEdge :: "TypeEdge \<Rightarrow> TypeGraph \<Rightarrow> TypeGraph" where
  "addEdge e graph = (if e \<in> set (edges graph) then graph else graph\<lparr>edges := edges graph @ [e]\<rparr>)"

subsection \<open>Path search\<close>

text \<open>
  The breadth-first path search of sections 4.E and 4.G runs over the outgoing edges
  that a predicate admits; the first path that reaches the target wins, so the path is
  a shortest one.
\<close>

text \<open>
  Modelled from the spec: the steps out of a type (section 4.G): the admitted outgoing
  edges, subtype edges before conversion edges.
\<close>

definition outgoingSteps :: "(TypeEdge \<Rightarrow> bool) \<Rightarrow> TypeEdge list \<Rightarrow> Type \<Rightarrow> TypeEdge list" where
  "outgoingSteps admitted es t =
     filter (\<lambda>e. admitted e \<and> isSubTypeEdge e \<and> edgeFrom e = t) es @
     filter (\<lambda>e. admitted e \<and> \<not> isSubTypeEdge e \<and> edgeFrom e = t) es"

text \<open>
  Modelled from the spec: one node of the frontier is expanded by its steps, in order;
  a type that was reached before is not reached again.
\<close>

fun expandNode :: "Type list \<Rightarrow> TypeEdge list \<Rightarrow> TypeEdge list
    \<Rightarrow> Type list \<times> (Type \<times> TypeEdge list) list" where
  "expandNode seen path [] = (seen, [])"
| "expandNode seen path (e # es) =
     (if edgeTo e \<in> set seen then expandNode seen path es
      else (case expandNode (edgeTo e # seen) path es of
              (seen', rest) \<Rightarrow> (seen', (edgeTo e, path @ [e]) # rest)))"

text \<open>
  Modelled from the spec: the frontier is expanded node by node, from left to right.
\<close>

fun expandFrontier :: "(TypeEdge \<Rightarrow> bool) \<Rightarrow> TypeEdge list \<Rightarrow> Type list \<Rightarrow> (Type \<times> TypeEdge list) list
    \<Rightarrow> Type list \<times> (Type \<times> TypeEdge list) list" where
  "expandFrontier admitted es seen [] = (seen, [])"
| "expandFrontier admitted es seen ((t, path) # frontier) =
     (case expandNode seen path (outgoingSteps admitted es t) of
        (seen1, new1) \<Rightarrow>
          (case expandFrontier admitted es seen1 frontier of
             (seen2, new2) \<Rightarrow> (seen2, new1 @ new2)))"

text \<open>
  Modelled from the spec: the search (sections 4.E, 4.G and 5): the first node of the
  frontier that is the target wins; otherwise the frontier is expanded, as long as the
  cap on the length of a path allows.
\<close>

fun searchPath :: "nat \<Rightarrow> (TypeEdge \<Rightarrow> bool) \<Rightarrow> TypeEdge list \<Rightarrow> Type \<Rightarrow> Type list
    \<Rightarrow> (Type \<times> TypeEdge list) list \<Rightarrow> TypeEdge list option" where
  "searchPath 0 admitted es target seen frontier =
     map_option snd (find (\<lambda>entry. fst entry = target) frontier)"
| "searchPath (Suc n) admitted es target seen frontier =
     (case find (\<lambda>entry. fst entry = target) frontier of
        Some entry \<Rightarrow> Some (snd entry)
      | None \<Rightarrow>
          (if frontier = [] then None
           else (case expandFrontier admitted es seen frontier of
                   (seen', next) \<Rightarrow> searchPath n admitted es target seen' next)))"

text \<open>
  Modelled from the spec: the search from a type, with the default cap \<open>maxPathLength\<close>,
  the number of nodes (section 5).
\<close>

definition findPath :: "(TypeEdge \<Rightarrow> bool) \<Rightarrow> TypeGraph \<Rightarrow> Type \<Rightarrow> Type \<Rightarrow> TypeEdge list option" where
  "findPath admitted graph from to =
     searchPath (length (nodes graph)) admitted (edges graph) to [from] [(from, [])]"

subsection \<open>Subtype, conversion, equality, assignability\<close>

text \<open>
  Modelled from the spec: \<open>Subtype.markAsSubType\<close> (section 4.E). The edge is added;
  with the cycle check, an edge that would close a cycle is refused and a problem is
  reported.
\<close>

definition markAsSubType :: "Type \<Rightarrow> Type \<Rightarrow> bool \<Rightarrow> TypeGraph \<Rightarrow> TypirProblem option \<times> TypeGraph" where
  "markAsSubType subType superType checkForCycles graph =
     (if checkForCycles \<and> findPath isSubTypeEdge graph superType subType \<noteq> None
      then (Some (SubTypeProblem superType subType []), graph)
      else (None, addEdge (SubTypeEdge subType superType) graph))"

text \<open>Modelled from the spec: \<open>Conversion.markAsConvertible\<close> (section 4.F) adds an edge.\<close>

definition markAsConvertible :: "Type \<Rightarrow> Type \<Rightarrow> ConversionMode \<Rightarrow> TypeGraph \<Rightarrow> TypeGraph" where
  "markAsConvertible from to mode graph = addEdge (ConversionEdge from to mode) graph"

text \<open>
  Modelled from the spec: the edges of an assignability path (section 4.G): subtype
  edges and implicit conversion edges; conversions that are only explicit are excluded.
\<close>

definition isAssignabilityEdge :: "TypeEdge \<Rightarrow> bool" where
  "isAssignabilityEdge e = (isSubTypeEdge e \<or> isImplicitConversionEdge e)"

text \<open>
  Modelled from the spec: \<open>Assignability.getAssignabilityResult\<close> (section 4.G): the
  empty path for a type and itself, otherwise a shortest path over subtype edges and
  implicit conversion edges, and an \<open>AssignabilityProblem\<close> when there is no path. The
  sub-problems of the failure (the nearest frontier) are not modelled.
\<close>

definition getAssignabilityResult :: "TypeGraph \<Rightarrow> Type \<Rightarrow> Type \<Rightarrow> TypirProblem + TypeEdge list" where
  "getAssignabilityResult graph from to =
     (if from = to then Inr []
      else (case findPath isAssignabilityEdge graph from to of
              Some path \<Rightarrow> Inr path
            | None \<Rightarrow> Inl (AssignabilityProblem from to [])))"

text \<open>
  Modelled from the spec: \<open>Assignability.getAssignabilityProblem\<close>, the problem of
  \<open>getAssignabilityResult\<close>, if any.
\<close>

definition Assignability_getAssignabilityProblem :: "TypeGraph \<Rightarrow> Type \<Rightarrow> Type \<Rightarrow> TypirProblem option" where
  "Assignability_getAssignabilityProblem graph from to =
     (case getAssignabilityResult graph from to of Inl problem \<Rightarrow> Some problem | Inr path \<Rightarrow> None)"

text \<open>
  Modelled from the spec: the subtype service for types without kind-intrinsic rules
  (primitive types): \<open>isSubType\<close> is reflexive and transitive across the explicit
  subtype edges (section 4.E).
\<close>

definition Subtype_getSubTypeProblem :: "TypeGraph \<Rightarrow> Type \<Rightarrow> Type \<Rightarrow> TypirProblem option" where
  "Subtype_getSubTypeProblem graph subType superType =
     (if subType = superType \<or> findPath isSubTypeEdge graph subType superType \<noteq> None then None
      else Some (SubTypeProblem superType subType []))"

text \<open>
  Modelled from the spec: the equality service for primitive types, whose equality is
  identity (section 4.B).
\<close>

definition Equality_getTypeEqualityProblem :: "Type \<Rightarrow> Type \<Rightarrow> TypirProblem option" where
  "Equality_getTypeEqualityProblem type1 type2 =
     (if type1 = type2 then None else Some (TypeEqualityProblem type1 type2 []))"

text \<open>
  Modelled from the spec: the services of an engine with the given graph, for primitive
  types; the printer prints a type by its identifier.
\<close>

definition typirServices :: "TypeGraph \<Rightarrow> Typir" where
  "typirServices graph =
     \<lparr>getTypeEqualityProblem = Equality_getTypeEqualityProblem,
      getSubTypeProblem = Subtype_getSubTypeProblem graph,
      getAssignabilityProblem = Assignability_getAssignabilityProblem graph,
      printType = getIdentifier\<rparr>"

text \<open>
  Modelled from the spec: \<open>Subtype.isSubType\<close> for a pair of types with no declared edge
  between them: the answer is \<open>true\<close> when the analysis of the sub type reports no
  problem, and otherwise a \<open>SubTypeProblem\<close> that holds the reported problems.
\<close>

definition isSubType :: "Typir \<Rightarrow> Type \<Rightarrow> Type \<Rightarrow> TypirProblem + bool" where
  "isSubType typir subType superType =
     (case analyzeIsSubTypeOf typir subType superType of
        [] \<Rightarrow> Inr True
      | p # ps \<Rightarrow> Inl (SubTypeProblem superType subType (p # ps)))"

subsection \<open>The types and relations of the operator test\<close>

text \<open>
  \<open>operator-overloaded.test.ts\<close> creates the primitives in this order and declares:
  boolean converts implicitly to integer, integer is a subtype of double, double
  converts implicitly to string.
\<close>

definition integerType :: Type where "integerType = PrimitiveType ''integer''"
definition doubleType :: Type where "doubleType = PrimitiveType ''double''"
definition stringType :: Type where "stringType = PrimitiveType ''string''"
definition booleanType :: Type where "booleanType = PrimitiveType ''boolean''"

definition testGraph :: TypeGraph where
  "testGraph =
     markAsConvertible doubleType stringType IMPLICIT_EXPLICIT
       (snd (markAsSubType integerType doubleType True
          (markAsConvertible booleanType integerType IMPLICIT_EXPLICIT
             \<lparr>nodes = [integerType, doubleType, stringType, booleanType], edges = [], listeners = []\<rparr>)))"

section \<open>The bottom type as a listener of the graph\<close>

text \<open>
  \<open>BottomType\<close> of the second file in \<open>function-initializer.ts\<close>. \<open>markAsSubType\<close> is
  its protected method: the receiver is the first argument. \<open>type !== this\<close> compares
  references; a bottom type is the value \<open>BottomType identifier\<close> here, so the
  comparison is that of the values. The two differ only for a second bottom object with
  the identifier of the receiver: the code gives it an edge, the model does not. The
  method calls the subtype service with \<open>checkForCycles: false\<close> and drops its result.
\<close>

definition BottomType_markAsSubType :: "Type \<Rightarrow> Type \<Rightarrow> TypeGraph \<Rightarrow> TypeGraph" where
  "BottomType_markAsSubType this type graph =
     (if type \<noteq> this then snd (markAsSubType this type False graph) else graph)"

text \<open>
  \<open>onAddedType\<close> is the method of the listener interface. \<open>BottomType\<close> is the only
  class of the embedded code that implements it; a type of another class is no
  listener and does nothing.
\<close>

fun onAddedType :: "Type \<Rightarrow> Type \<Rightarrow> TypeGraph \<Rightarrow> TypeGraph" where
  "onAddedType (BottomType i) type graph = BottomType_markAsSubType (BottomType i) type graph"
| "onAddedType this type graph = graph"

text \<open>
  The constructor: the new type marks itself as sub type of the already registered
  types, then registers as listener. The initialization process it defines has no
  preconditions and is not part of the model.
\<close>

definition BottomType_new :: "string \<Rightarrow> TypeGraph \<Rightarrow> Type \<times> TypeGraph" where
  "BottomType_new identifier graph =
     (let this = BottomType identifier;
          graph1 = fold (\<lambda>t g. BottomType_markAsSubType this t g) (getAllRegisteredTypes graph) graph;
          graph2 = addListener this graph1
      in (this, graph2))"

text \<open>
  Two types are of the same kind when the \<open>$name\<close>s of their kinds are the same: that
  of a fixed-parameters kind ends in the base name, the other kinds have one name each.
\<close>

fun sameKind :: "Type \<Rightarrow> Type \<Rightarrow> bool" where
  "sameKind (PrimitiveType i) (PrimitiveType i') = True"
| "sameKind (BottomType i) (BottomType i') = True"
| "sameKind (FixedParameterType k i ps) (FixedParameterType k' i' ps') = (baseName k = baseName k')"
| "sameKind (FunctionType r n i out ins) (FunctionType r' n' i' out' ins') = True"
| "sameKind t t' = False"

text \<open>
  Modelled from the spec: \<open>addNode\<close> of the graph (sections 4.A and 7). A type whose
  identifier is registered already is not added again: the existing type is returned
  and no event is emitted; when the two are of different kinds this is a programmer
  mistake and raises. Otherwise the type is added and every listener receives
  \<open>onAddedType\<close>, in the order of registration.
\<close>

definition addNode :: "Type \<Rightarrow> TypeGraph \<Rightarrow> (error + Type) \<times> TypeGraph" where
  "addNode type graph =
     (case getType graph (getIdentifier type) of
        Some existing \<Rightarrow>
          (if sameKind existing type then (Inr existing, graph)
           else (Inl (Error ''duplicate identifier from mismatched kinds''), graph))
      | None \<Rightarrow>
          (Inr type, fold (\<lambda>listener g. onAddedType listener type g) (listeners graph)
                       (graph\<lparr>nodes := nodes graph @ [type]\<rparr>)))"

text \<open>
  Several types are added one after the other; a type that the graph refuses leaves the
  graph as it is.
\<close>

definition addNodes :: "Type list \<Rightarrow> TypeGraph \<Rightarrow> TypeGraph" where
  "addNodes types graph = fold (\<lambda>t g. snd (addNode t g)) types graph"

text \<open>
  The invariant that the bottom type keeps once it is constructed: it listens to the
  graph, and every other registered type has a subtype edge from it.
\<close>

definition bottomInvariant :: "Type \<Rightarrow> TypeGraph \<Rightarrow> bool" where
  "bottomInvariant b g \<longleftrightarrow>
     isBottomType b \<and> b \<in> set (listeners g) \<and>
     (\<forall>t \<in> set (nodes g). t \<noteq> b \<longrightarrow> SubTypeEdge b t \<in> set (edges g))"

section \<open>The creation of fixed-parameters types\<close>

subsection \<open>Kind and type of \<open>part_001\<close>\<close>

text \<open>
  The constructor of the kind. The options are partial: a strategy that is not given is
  \<open>EQUAL_TYPE\<close>. A parameter is a name with its index; the field \<open>parameters\<close> holds the
  names in order. A kind has at least one parameter. \<open>typir.registerKind\<close> belongs to
  the engine, whose registry of kinds is outside the embedded files, and is left out.
  The constructor of \<open>fixed-parameters-kind.ts\<close> is the same, with options that are
  required.
\<close>

definition FixedParameterKind_new :: "string \<Rightarrow> TypeCheckStrategy option \<Rightarrow> string list
    \<Rightarrow> error + FixedParameterKind" where
  "FixedParameterKind_new name options parameterNames =
     (let this = \<lparr>baseName = name,
                  parameterSubtypeCheckingStrategy =
                    (case options of None \<Rightarrow> EQUAL_TYPE | Some strategy \<Rightarrow> strategy),
                  parameters = parameterNames\<rparr>
      in if length (parameters this) \<ge> 1 then Inr this else Inl AssertionError)"

type_synonym Parameter = "string \<times> nat"

type_synonym ParameterValue = "Parameter option \<times> Type"

text \<open>
  The loop of the constructor of \<open>FixedParameterType\<close>, from position \<open>i\<close> on. The class
  declares the field \<open>parameterValues\<close> without an initializer, so the field is
  \<open>undefined\<close> (\<open>None\<close>) when the loop starts, and \<open>push\<close> on it is a \<open>TypeError\<close>.
  \<open>kind.parameters[i]\<close> is \<open>undefined\<close> outside the array.
\<close>

fun pushParameterValues :: "FixedParameterKind \<Rightarrow> nat \<Rightarrow> Type list \<Rightarrow> ParameterValue list option
    \<Rightarrow> error + ParameterValue list option" where
  "pushParameterValues kind i [] parameterValues = Inr parameterValues"
| "pushParameterValues kind i (t # typeValues) None = Inl TypeError"
| "pushParameterValues kind i (t # typeValues) (Some pushed) =
     pushParameterValues kind (Suc i) typeValues
       (Some (pushed @ [(if i < length (parameters kind) then Some (parameters kind ! i, i) else None, t)]))"

text \<open>
  The constructor of \<open>FixedParameterType\<close>: it asserts the number of type values and
  runs the loop. Only for a kind without parameters, which the constructor of the kind
  refuses, the loop does not run: the field of that object stays \<open>undefined\<close>, and the
  object is written here without parameter types.
\<close>

definition FixedParameterType_new :: "FixedParameterKind \<Rightarrow> string \<Rightarrow> Type list \<Rightarrow> error + Type" where
  "FixedParameterType_new kind identifier typeValues =
     (if length (parameters kind) \<noteq> length typeValues then Inl AssertionError
      else (case pushParameterValues kind 0 typeValues None of
              Inl e \<Rightarrow> Inl e
            | Inr None \<Rightarrow> Inr (FixedParameterType kind identifier [])
            | Inr (Some pushed) \<Rightarrow> Inr (FixedParameterType kind identifier (map snd pushed))))"

text \<open>
  \<open>createFixedParameterType\<close> constructs the type and adds it to the graph; it returns
  the type it has constructed, whatever \<open>addNode\<close> returns.
\<close>

definition createFixedParameterType :: "Typir \<Rightarrow> FixedParameterKind \<Rightarrow> Type OneOrMany \<Rightarrow> TypeGraph
    \<Rightarrow> (error + Type) \<times> TypeGraph" where
  "createFixedParameterType typir this parameterTypes graph =
     (case FixedParameterType_new this (calculateIdentifier typir this parameterTypes)
             (toArray (Some parameterTypes)) of
        Inl e \<Rightarrow> (Inl e, graph)
      | Inr typeWithParameters \<Rightarrow>
          (case addNode typeWithParameters graph of
             (Inl e, graph1) \<Rightarrow> (Inl e, graph1)
           | (Inr registered, graph1) \<Rightarrow> (Inr typeWithParameters, graph1)))"

subsection \<open>Kind-level creation of \<open>fixed-parameters-kind.ts\<close>\<close>

text \<open>
  In this file the signature prints a parameter type by its \<open>getUserRepresentation\<close>,
  a method of the type whose code is outside the embedded files: it is the first
  argument.
\<close>

definition FixedParameterKind_printSignature :: "(Type \<Rightarrow> string) \<Rightarrow> string \<Rightarrow> Type list \<Rightarrow> string" where
  "FixedParameterKind_printSignature getUserRepresentation name parameterTypes =
     name @ ''<'' @ join '', '' (map getUserRepresentation parameterTypes) @ ''>''"

text \<open>
  \<open>createFixedParameterType\<close> of this file creates \<open>new Type(this, signature)\<close>, adds it
  to the graph, asserts the number of parameter types and adds one \<open>hasField\<close> edge per
  parameter, in order. The targets of these edges are the list that the type carries
  here, so the type is written with them from the start. When the assertion fails the
  node is in the graph already, without edges.
\<close>

definition FixedParameterKind_createFixedParameterType :: "(Type \<Rightarrow> string) \<Rightarrow> FixedParameterKind
    \<Rightarrow> Type list \<Rightarrow> TypeGraph \<Rightarrow> (error + Type) \<times> TypeGraph" where
  "FixedParameterKind_createFixedParameterType getUserRepresentation this parameterTypes graph =
     (let signature = FixedParameterKind_printSignature getUserRepresentation (baseName this) parameterTypes
      in if length (parameters this) = length parameterTypes then
           (let typeWithParameters = FixedParameterType this signature parameterTypes
            in case addNode typeWithParameters graph of
                 (Inl e, graph1) \<Rightarrow> (Inl e, graph1)
               | (Inr registered, graph1) \<Rightarrow> (Inr typeWithParameters, graph1))
         else
           (case addNode (FixedParameterType this signature []) graph of
              (Inl e, graph1) \<Rightarrow> (Inl e, graph1)
            | (Inr registered, graph1) \<Rightarrow> (Inl AssertionError, graph1)))"

section \<open>The bottom kind of \<open>part_000\<close> and its inference rule\<close>

text \<open>
  In this file the kind reaches the graph and the inference service through \<open>typir\<close>,
  and the constructor of \<open>BottomType\<close> only stores the kind and the identifier. A rule
  of the type details is a predicate of the host on its language nodes; it may raise.
  The state is the kind's own fields (\<open>options.name\<close>, and \<open>instance\<close> under the
  name \<open>instance'\<close>) and the two services the kind changes.
\<close>

datatype InferenceRuleResult = InferenceRuleNotApplicable | Inferred Type

type_synonym 'n InferBottomType = "'n \<Rightarrow> error + bool"

type_synonym 'n TypeInferenceRule = "'n \<Rightarrow> error + InferenceRuleResult"

record 'n BottomKind =
  optionsName :: string
  instance' :: "Type option"
  graph :: TypeGraph
  inference :: "'n TypeInferenceRule list"

text \<open>
  Modelled from the spec: \<open>addInferenceRule\<close> without a bound type (section 4.H)
  registers the rule after the rules registered before.
\<close>

definition addInferenceRule :: "'n TypeInferenceRule \<Rightarrow> 'n BottomKind \<Rightarrow> 'n BottomKind" where
  "addInferenceRule rule s = s\<lparr>inference := inference s @ [rule]\<rparr>"

text \<open>
  Modelled from the spec: the loop of the composite dispatcher of the inference service
  (section 4.H): the rules are tried in the order of their registration; the first rule
  that returns a final answer wins, and no rule is applicable when none does. A rule
  that raises ends the dispatch.
\<close>

fun tryRules :: "'n TypeInferenceRule list \<Rightarrow> 'n \<Rightarrow> error + InferenceRuleResult" where
  "tryRules [] node = Inr InferenceRuleNotApplicable"
| "tryRules (rule # rules) node =
     (case rule node of
        Inl e \<Rightarrow> Inl e
      | Inr (Inferred t) \<Rightarrow> Inr (Inferred t)
      | Inr InferenceRuleNotApplicable \<Rightarrow> tryRules rules node)"

text \<open>
  Modelled from the spec: \<open>inferType(node)\<close> (section 4.H), the dispatch over the
  registered rules.
\<close>

definition inferType :: "'n BottomKind \<Rightarrow> 'n \<Rightarrow> error + InferenceRuleResult" where
  "inferType s node = tryRules (inference s) node"

text \<open>
  The rule that \<open>createBottomType\<close> registers: the loop over the rules of the type
  details.
\<close>

fun bottomInferenceRule :: "'n InferBottomType list \<Rightarrow> Type \<Rightarrow> 'n TypeInferenceRule" where
  "bottomInferenceRule [] bottomType domainElement = Inr InferenceRuleNotApplicable"
| "bottomInferenceRule (inferenceRule # rules) bottomType domainElement =
     (case inferenceRule domainElement of
        Inl e \<Rightarrow> Inl e
      | Inr matched \<Rightarrow>
          (if matched then Inr (Inferred bottomType)
           else bottomInferenceRule rules bottomType domainElement))"

definition BottomKind_calculateIdentifier :: "'n BottomKind \<Rightarrow> string" where
  "BottomKind_calculateIdentifier this = optionsName this"

definition getBottomType :: "'n BottomKind \<Rightarrow> Type option" where
  "getBottomType this = getType (graph this) (BottomKind_calculateIdentifier this)"

text \<open>
  \<open>createBottomType\<close> returns the result (or the error raised by the graph) and the
  state it leaves; \<open>inferenceRules\<close> is the field of the type details.
\<close>

definition createBottomType :: "'n InferBottomType OneOrMany option \<Rightarrow> 'n BottomKind
    \<Rightarrow> (error + Type) \<times> 'n BottomKind" where
  "createBottomType inferenceRules this =
     (case instance' this of
        Some existing \<Rightarrow> (Inr existing, this)
      | None \<Rightarrow>
          (let bottomType = BottomType (BottomKind_calculateIdentifier this);
               this1 = this\<lparr>instance' := Some bottomType\<rparr>
           in case addNode bottomType (graph this1) of
                (Inl e, g) \<Rightarrow> (Inl e, this1\<lparr>graph := g\<rparr>)
              | (Inr added, g) \<Rightarrow>
                  (let this2 = this1\<lparr>graph := g\<rparr>;
                       rules = toArray inferenceRules
                   in (Inr bottomType,
                       if length rules \<ge> 1
                       then addInferenceRule (bottomInferenceRule rules bottomType) this2
                       else this2))))"

definition getOrCreateBottomType :: "'n InferBottomType OneOrMany option \<Rightarrow> 'n BottomKind
    \<Rightarrow> (error + Type) \<times> 'n BottomKind" where
  "getOrCreateBottomType inferenceRules this =
     (case getBottomType this of
        Some result \<Rightarrow> (Inr result, this)
      | None \<Rightarrow> createBottomType inferenceRules this)"

subsection \<open>Scenarios of the kinds and helpers of the statements\<close>

text \<open>
  The kind \<open>List<T>\<close> of scenario S4, with the strategy it is configured with, and a
  graph in which the only registered type is declared a sub type of the type that the
  bottom kind is about to create.
\<close>

definition listKind :: "TypeCheckStrategy \<Rightarrow> FixedParameterKind" where
  "listKind strategy =
     \<lparr>baseName = ''List'', parameterSubtypeCheckingStrategy = strategy, parameters = [''T'']\<rparr>"

definition cyclicGraph :: TypeGraph where
  "cyclicGraph =
     \<lparr>nodes = [integerType], edges = [SubTypeEdge integerType (BottomType ''never'')], listeners = []\<rparr>"

text \<open>
  Modelled from the spec: \<open>createTypeComparisonStrategy\<close>, which
  \<open>fixed-parameters-kind.ts\<close> imports: the relation that a strategy selects, as a
  function of two types that returns the conflicts. The kind passes the parameter of the
  super type first.
\<close>

fun createTypeComparisonStrategy :: "Typir \<Rightarrow> TypeCheckStrategy \<Rightarrow> Type \<Rightarrow> Type \<Rightarrow> TypirProblem list" where
  "createTypeComparisonStrategy typir EQUAL_TYPE t1 t2 =
     (case getTypeEqualityProblem typir t1 t2 of None \<Rightarrow> [] | Some p \<Rightarrow> [p])"
| "createTypeComparisonStrategy typir SUB_TYPE t1 t2 =
     (case getSubTypeProblem typir t2 t1 of None \<Rightarrow> [] | Some p \<Rightarrow> [p])"
| "createTypeComparisonStrategy typir ASSIGNABLE_TYPE t1 t2 =
     (case getAssignabilityProblem typir t2 t1 of None \<Rightarrow> [] | Some p \<Rightarrow> [p])"

text \<open>
  Scenario S4 on the code of \<open>fixed-parameters-kind.ts\<close>: the kind \<open>List<T>\<close> is
  constructed with a strategy, creates \<open>List<integer>\<close> and \<open>List<double>\<close> in the graph
  of the operator test, where a primitive type is represented by its name, and is
  asked whether the first is a sub type of the second.
\<close>

definition listSubTypeScenario :: "TypeCheckStrategy \<Rightarrow> error + TypirProblem list" where
  "listSubTypeScenario strategy =
     (case FixedParameterKind_new ''List'' (Some strategy) [''T''] of
        Inl e \<Rightarrow> Inl e
      | Inr kindOfList \<Rightarrow>
          (case FixedParameterKind_createFixedParameterType getIdentifier kindOfList [integerType] testGraph of
             (Inl e, g1) \<Rightarrow> Inl e
           | (Inr listOfInteger, g1) \<Rightarrow>
               (case FixedParameterKind_createFixedParameterType getIdentifier kindOfList [doubleType] g1 of
                  (Inl e, g2) \<Rightarrow> Inl e
                | (Inr listOfDouble, g2) \<Rightarrow>
                    FixedParameterKind_isSubType (createTypeComparisonStrategy (typirServices g2))
                      kindOfList listOfDouble listOfInteger)))"

text \<open>
  A list of edges is a path from one type to another when its edges are connected end
  to end.
\<close>

fun isPath :: "Type \<Rightarrow> Type \<Rightarrow> TypeEdge list \<Rightarrow> bool" where
  "isPath a b [] = (a = b)"
| "isPath a b (e # es) = (edgeFrom e = a \<and> isPath (edgeTo e) b es)"

subsection \<open>The language nodes of the operator test\<close>

text \<open>
  The test builds its language nodes from the classes it imports: literals, binary
  expressions and variables with an initial value. The inference rule of a primitive
  asks for the class of a node.
\<close>

datatype TestExpressionNode =
    IntegerLiteral int
  | DoubleLiteral string
  | StringLiteral string
  | BooleanLiteral bool
  | BinaryExpression TestExpressionNode string TestExpressionNode
  | Variable string TestExpressionNode

fun isIntegerLiteral :: "TestExpressionNode \<Rightarrow> bool" where
  "isIntegerLiteral (IntegerLiteral v) = True"
| "isIntegerLiteral node = False"

fun isDoubleLiteral :: "TestExpressionNode \<Rightarrow> bool" where
  "isDoubleLiteral (DoubleLiteral v) = True"
| "isDoubleLiteral node = False"

fun isStringLiteral :: "TestExpressionNode \<Rightarrow> bool" where
  "isStringLiteral (StringLiteral v) = True"
| "isStringLiteral node = False"

fun isBooleanLiteral :: "TestExpressionNode \<Rightarrow> bool" where
  "isBooleanLiteral (BooleanLiteral v) = True"
| "isBooleanLiteral node = False"

text \<open>A bottom kind as its constructor leaves it, with the default name, in an engine without types.\<close>

definition newBottomKind :: "TestExpressionNode BottomKind" where
  "newBottomKind = \<lparr>optionsName = ''never'', instance' = None, graph = emptyGraph, inference = []\<rparr>"

section \<open>The initializer of function types\<close>

text \<open>
  The details from which a function type is created. The three rules are callbacks of
  the host on its language nodes; the initializer only asks whether they are given and
  stores them, so their type is a parameter.
\<close>

record 'c CreateFunctionTypeDetails =
  functionName :: string
  outputParameter :: "Type option"
  inputParameters :: "(string \<times> Type) list"
  inferenceRuleForDeclaration :: "'c option"
  inferenceRuleForCalls :: "'c option"
  validationForCall :: "'c option"

text \<open>
  The rules that \<open>createInferenceRules\<close> creates are closures over the details and the
  function type; a closure is the name of its code together with what it captures.
  \<open>OverloadedFunctionsTypeInferenceRule\<close> is the composite rule of the overload group
  of a function name; the rules registered in it are the field \<open>inference\<close> of the
  group, named \<open>inference'\<close> here.
\<close>

datatype 'c InferenceRule =
    FunctionCallInferenceRule "'c CreateFunctionTypeDetails" Type
  | InferenceForDeclaration "'c CreateFunctionTypeDetails" Type
  | OverloadedFunctionsTypeInferenceRule string

datatype 'c ValidationRule = ValidationForCall "'c CreateFunctionTypeDetails" Type

record 'c FunctionInferenceRules =
  inferenceForCall :: "'c InferenceRule option"
  validationRuleForCall :: "'c ValidationRule option"
  inferenceForDeclaration :: "'c InferenceRule option"

record 'c OverloadedFunctionDetails =
  overloadedFunctions :: "(Type \<times> 'c option) list"
  inference' :: "('c InferenceRule \<times> Type option) list"
  sameOutputType :: "Type option"

text \<open>
  The state that the initializer changes: \<open>kind.mapNameTypes\<close>, the rules of the
  inference service and of the validation collector, and the graph. A registered
  inference rule is stored with the type it is bound to.
\<close>

record 'c Services =
  mapNameTypes :: "string \<rightharpoonup> 'c OverloadedFunctionDetails"
  Inference :: "('c InferenceRule \<times> Type option) list"
  validationCollector :: "'c ValidationRule list"
  Graph :: TypeGraph

record 'c FunctionTypeInitializer =
  typeDetails :: "'c CreateFunctionTypeDetails"
  inferenceRules :: "'c FunctionInferenceRules"
  initialFunctionType :: Type

fun isFunctionType :: "Type \<Rightarrow> bool" where
  "isFunctionType (FunctionType r n i out ins) = True"
| "isFunctionType t = False"

text \<open>
  Modelled from the spec: \<open>addInferenceRule(rule, boundTo)\<close> (section 4.H) registers a
  rule, with the type it is bound to, after the rules registered before.
\<close>

definition addBoundRule :: "'r \<Rightarrow> Type option \<Rightarrow> ('r \<times> Type option) list \<Rightarrow> ('r \<times> Type option) list" where
  "addBoundRule rule boundToType rules = rules @ [(rule, boundToType)]"

text \<open>
  Modelled from the spec: \<open>removeInferenceRule(rule, boundTo)\<close> (section 4.H) removes
  that registration.
\<close>

definition removeBoundRule :: "'r \<Rightarrow> Type option \<Rightarrow> ('r \<times> Type option) list \<Rightarrow> ('r \<times> Type option) list" where
  "removeBoundRule rule boundToType rules = remove1 (rule, boundToType) rules"

text \<open>
  Modelled from the spec: \<open>addValidationRule\<close> of the validation collector (section 4.J),
  which holds an ordered list of rules.
\<close>

definition addValidationRule :: "'r \<Rightarrow> 'r list \<Rightarrow> 'r list" where
  "addValidationRule rule rules = rules @ [rule]"

text \<open>
  Modelled from the spec: \<open>removeValidationRule\<close> of the validation collector removes
  that registration.
\<close>

definition removeValidationRule :: "'r \<Rightarrow> 'r list \<Rightarrow> 'r list" where
  "removeValidationRule rule rules = remove1 rule rules"

text \<open>
  Modelled from the spec: the identifier of a function type (section 4.B), derived from
  \<open>name(p1:T1, p2:T2, ...) -> R\<close>.
\<close>

definition calculateFunctionIdentifier :: "'c CreateFunctionTypeDetails \<Rightarrow> string" where
  "calculateFunctionIdentifier details =
     functionName details @ ''('' @
     join '', '' (map (\<lambda>p. fst p @ '':'' @ getIdentifier (snd p)) (inputParameters details)) @ '')'' @
     (case outputParameter details of None \<Rightarrow> [] | Some t \<Rightarrow> '' -> '' @ getIdentifier t)"

text \<open>
  Modelled from the spec: \<open>getOutputTypeForFunctionCalls\<close> of the function kind: the
  type of the output parameter of a function, if it has one (sections 3 and 4.H).
\<close>

fun getOutputTypeForFunctionCalls :: "Type \<Rightarrow> Type option" where
  "getOutputTypeForFunctionCalls (FunctionType r n i out ins) = out"
| "getOutputTypeForFunctionCalls t = None"

text \<open>
  Modelled from the spec: \<open>producedType\<close> of the base class of the initializers (section
  4.C): the canonical type is the node that the graph holds under the identifier of
  the new type; when there is none it is the new type, which is added to the graph.
\<close>

definition producedType :: "Type \<Rightarrow> 'c Services \<Rightarrow> Type \<times> 'c Services" where
  "producedType newType s =
     (case getType (Graph s) (getIdentifier newType) of
        Some existingType \<Rightarrow> (existingType, s)
      | None \<Rightarrow> (newType, s\<lparr>Graph := snd (addNode newType (Graph s))\<rparr>))"

subsection \<open>The methods of \<open>FunctionTypeInitializer\<close>\<close>

definition createInferenceRules :: "'c CreateFunctionTypeDetails \<Rightarrow> Type \<Rightarrow> 'c FunctionInferenceRules" where
  "createInferenceRules details functionType =
     \<lparr>inferenceForCall =
        (if inferenceRuleForCalls details \<noteq> None
         then Some (FunctionCallInferenceRule details functionType) else None),
      validationRuleForCall =
        (if validationForCall details \<noteq> None
         then Some (ValidationForCall details functionType) else None),
      inferenceForDeclaration =
        (if inferenceRuleForDeclaration details \<noteq> None
         then Some (InferenceForDeclaration details functionType) else None)\<rparr>"

text \<open>
  \<open>registerInferenceRules\<close> reads the group with \<open>mapNameTypes.get(functionName)!\<close>: a
  missing group is a \<open>TypeError\<close> at the call on it. \<open>deregisterInferenceRules\<close> reads it
  with \<open>?.\<close> and skips a missing group.
\<close>

definition registerInferenceRules :: "'c FunctionInferenceRules \<Rightarrow> string \<Rightarrow> Type option \<Rightarrow> 'c Services
    \<Rightarrow> error + 'c Services" where
  "registerInferenceRules rules name functionType s =
     (case (case inferenceForCall rules of
              None \<Rightarrow> Inr s
            | Some rule \<Rightarrow>
                (case mapNameTypes s name of
                   None \<Rightarrow> Inl TypeError
                 | Some overloaded \<Rightarrow>
                     Inr (s\<lparr>mapNameTypes := (mapNameTypes s)(name \<mapsto>
                            overloaded\<lparr>inference' := addBoundRule rule functionType (inference' overloaded)\<rparr>)\<rparr>)))
      of Inl e \<Rightarrow> Inl e
       | Inr s1 \<Rightarrow>
           (let s2 = (case validationRuleForCall rules of
                        None \<Rightarrow> s1
                      | Some rule \<Rightarrow> s1\<lparr>validationCollector := addValidationRule rule (validationCollector s1)\<rparr>);
                s3 = (case inferenceForDeclaration rules of
                        None \<Rightarrow> s2
                      | Some rule \<Rightarrow> s2\<lparr>Inference := addBoundRule rule functionType (Inference s2)\<rparr>)
            in Inr s3))"

definition deregisterInferenceRules :: "'c FunctionInferenceRules \<Rightarrow> string \<Rightarrow> Type option \<Rightarrow> 'c Services
    \<Rightarrow> 'c Services" where
  "deregisterInferenceRules rules name functionType s =
     (let s1 = (case inferenceForCall rules of
                  None \<Rightarrow> s
                | Some rule \<Rightarrow>
                    (case mapNameTypes s name of
                       None \<Rightarrow> s
                     | Some overloaded \<Rightarrow>
                         s\<lparr>mapNameTypes := (mapNameTypes s)(name \<mapsto>
                            overloaded\<lparr>inference' := removeBoundRule rule functionType (inference' overloaded)\<rparr>)\<rparr>));
          s2 = (case validationRuleForCall rules of
                  None \<Rightarrow> s1
                | Some rule \<Rightarrow> s1\<lparr>validationCollector := removeValidationRule rule (validationCollector s1)\<rparr>);
          s3 = (case inferenceForDeclaration rules of
                  None \<Rightarrow> s2
                | Some rule \<Rightarrow> s2\<lparr>Inference := removeBoundRule rule functionType (Inference s2)\<rparr>)
      in s3)"

text \<open>
  The constructor. \<open>reference\<close> is the reference of the function type it creates;
  \<open>enforceFunctionName\<close> is the check of the kind on the name, which is not embedded and
  may raise. The listener that the constructor adds to the new type belongs to the
  state machine of the type, which is outside the model: the model starts at the call of
  \<open>onSwitchedToIdentifiable\<close>.
\<close>

definition FunctionTypeInitializer_new :: "(string \<Rightarrow> error option) \<Rightarrow> nat \<Rightarrow> 'c CreateFunctionTypeDetails
    \<Rightarrow> 'c Services \<Rightarrow> error + ('c FunctionTypeInitializer \<times> 'c Services)" where
  "FunctionTypeInitializer_new enforceFunctionName reference details s =
     (let name = functionName details in
      if outputParameter details = None \<and> inferenceRuleForCalls details \<noteq> None
      then Inl (Error (''A function '' @ [CHR 0x27] @ name @ [CHR 0x27] @
                  '' without output parameter cannot have an inferred type, when this function is called!''))
      else (case enforceFunctionName name of
              Some e \<Rightarrow> Inl e
            | None \<Rightarrow>
               if validationForCall details \<noteq> None \<and> inferenceRuleForCalls details = None
               then Inl (Error (''A function '' @ [CHR 0x27] @ name @ [CHR 0x27] @
                         '' with validation of its calls need an inference rule which defines these inference calls!''))
               else
                 (let s1 = (if mapNameTypes s name \<noteq> None then s
                            else s\<lparr>mapNameTypes := (mapNameTypes s)(name \<mapsto>
                                      \<lparr>overloadedFunctions = [], inference' = [], sameOutputType = None\<rparr>),
                                   Inference := addBoundRule (OverloadedFunctionsTypeInferenceRule name) None (Inference s)\<rparr>);
                      initial = FunctionType reference name (calculateFunctionIdentifier details)
                                  (outputParameter details) (inputParameters details);
                      rules = createInferenceRules details initial
                  in (case registerInferenceRules rules name None s1 of
                        Inl e \<Rightarrow> Inl e
                      | Inr s2 \<Rightarrow>
                          Inr (\<lparr>typeDetails = details, inferenceRules = rules, initialFunctionType = initial\<rparr>, s2)))))"

text \<open>
  \<open>onSwitchedToIdentifiable\<close>. \<open>areTypesEqual\<close> is the test
  \<open>Equality.areTypesEqual(...) === true\<close> of the equality service. The second half of
  the method, which remembers the function in its overload group, is \<open>rememberFunction\<close>.
  The initial type's \<open>removeListener\<close> belongs to the state machine of the type and is
  not part of the model.
\<close>

definition rememberFunction :: "(Type \<Rightarrow> Type \<Rightarrow> bool) \<Rightarrow> Type \<Rightarrow> 'c option \<Rightarrow> 'c OverloadedFunctionDetails
    \<Rightarrow> 'c OverloadedFunctionDetails" where
  "rememberFunction areTypesEqual readyFunctionType callRule overloaded =
     (let outputTypeForFunctionCalls = getOutputTypeForFunctionCalls readyFunctionType;
          overloaded1 =
            (if length (overloadedFunctions overloaded) \<le> 0
             then overloaded\<lparr>sameOutputType := outputTypeForFunctionCalls\<rparr>
             else (case (sameOutputType overloaded, outputTypeForFunctionCalls) of
                     (Some same, Some out) \<Rightarrow>
                       if areTypesEqual same out then overloaded
                       else overloaded\<lparr>sameOutputType := None\<rparr>
                   | _ \<Rightarrow> overloaded\<lparr>sameOutputType := None\<rparr>))
      in overloaded1\<lparr>overloadedFunctions := overloadedFunctions overloaded1 @ [(readyFunctionType, callRule)]\<rparr>)"

definition onSwitchedToIdentifiable :: "(Type \<Rightarrow> Type \<Rightarrow> bool) \<Rightarrow> 'c FunctionTypeInitializer \<Rightarrow> Type
    \<Rightarrow> 'c Services \<Rightarrow> error + ('c FunctionTypeInitializer \<times> 'c Services)" where
  "onSwitchedToIdentifiable areTypesEqual this functionType s =
     (let name = functionName (typeDetails this) in
      if \<not> isFunctionType functionType then Inl AssertionError
      else (case producedType functionType s of
              (readyFunctionType, s1) \<Rightarrow>
                (let s2 = deregisterInferenceRules (inferenceRules this) name None s1;
                     this1 = (if readyFunctionType \<noteq> functionType
                              then this\<lparr>inferenceRules := createInferenceRules (typeDetails this) readyFunctionType\<rparr>
                              else this)
                 in (case registerInferenceRules (inferenceRules this1) name (Some readyFunctionType) s2 of
                       Inl e \<Rightarrow> Inl e
                     | Inr s3 \<Rightarrow>
                         (case mapNameTypes s3 name of
                            None \<Rightarrow> Inl TypeError
                          | Some overloaded \<Rightarrow>
                              Inr (this1,
                                   s3\<lparr>mapNameTypes := (mapNameTypes s3)(name \<mapsto>
                                        rememberFunction areTypesEqual readyFunctionType
                                          (inferenceRuleForCalls (typeDetails this)) overloaded)\<rparr>))))))"

text \<open>
  The property of an overload group that claim C10 states, in the claim's words: when
  functions are registered, \<open>sameOutputType\<close> is defined exactly when every registered
  function has an output type and these output types are pair-wise equal, and it is
  then the output type of the function registered first.
\<close>

fun bothEqual :: "(Type \<Rightarrow> Type \<Rightarrow> bool) \<Rightarrow> Type option \<Rightarrow> Type option \<Rightarrow> bool" where
  "bothEqual areTypesEqual (Some x) (Some y) = areTypesEqual x y"
| "bothEqual areTypesEqual a b = False"

definition outputsPairwiseEqual :: "(Type \<Rightarrow> Type \<Rightarrow> bool) \<Rightarrow> Type option list \<Rightarrow> bool" where
  "outputsPairwiseEqual areTypesEqual outs = list_all (\<lambda>a. list_all (bothEqual areTypesEqual a) outs) outs"

definition registeredOutputs :: "'c OverloadedFunctionDetails \<Rightarrow> Type option list" where
  "registeredOutputs overloaded =
     map (\<lambda>entry. getOutputTypeForFunctionCalls (fst entry)) (overloadedFunctions overloaded)"

definition sameOutputTypeInvariant :: "(Type \<Rightarrow> Type \<Rightarrow> bool) \<Rightarrow> 'c OverloadedFunctionDetails \<Rightarrow> bool" where
  "sameOutputTypeInvariant areTypesEqual overloaded =
     (overloadedFunctions overloaded = [] \<or>
      sameOutputType overloaded =
        (if outputsPairwiseEqual areTypesEqual (registeredOutputs overloaded)
         then hd (registeredOutputs overloaded) else None))"

subsection \<open>Function types of the operator test\<close>

text \<open>
  The details of the binary operator \<open>+\<close> on one type, as the operator manager passes
  them to the function kind: two inputs \<open>left\<close> and \<open>right\<close> and an output of that type,
  an inference rule for calls and no declaration. The callback is opaque here. A kind
  that accepts every name, and the services before any function is created.
\<close>

definition plusDetails :: "Type \<Rightarrow> nat CreateFunctionTypeDetails" where
  "plusDetails t =
     \<lparr>functionName = ''+'', outputParameter = Some t,
      inputParameters = [(''left'', t), (''right'', t)],
      inferenceRuleForDeclaration = None, inferenceRuleForCalls = Some 0, validationForCall = None\<rparr>"

definition acceptEveryName :: "string \<Rightarrow> error option" where
  "acceptEveryName name = None"

definition newServices :: "nat Services" where
  "newServices = \<lparr>mapNameTypes = Map.empty, Inference = [], validationCollector = [], Graph = testGraph\<rparr>"

text \<open>
  A function type whose parameter types exist is identifiable when it is created: the
  initializer is constructed and \<open>onSwitchedToIdentifiable\<close> is called with the initial
  type.
\<close>

definition createFunction :: "(Type \<Rightarrow> Type \<Rightarrow> bool) \<Rightarrow> (string \<Rightarrow> error option) \<Rightarrow> nat
    \<Rightarrow> 'c CreateFunctionTypeDetails \<Rightarrow> 'c Services \<Rightarrow> error + ('c FunctionTypeInitializer \<times> 'c Services)" where
  "createFunction areTypesEqual enforceFunctionName reference details s =
     (case FunctionTypeInitializer_new enforceFunctionName reference details s of
        Inl e \<Rightarrow> Inl e
      | Inr (initializer, s1) \<Rightarrow>
          onSwitchedToIdentifiable areTypesEqual initializer (initialFunctionType initializer) s1)"

text \<open>
  The function type that the initializer creates for \<open>+\<close> on a primitive type, the
  services after \<open>+\<close> on integer has been created with reference 1, and the services
  after the constructor of a second initializer has run on them.
\<close>

definition plusType :: "nat \<Rightarrow> Type \<Rightarrow> Type" where
  "plusType reference t =
     FunctionType reference ''+'' (calculateFunctionIdentifier (plusDetails t)) (Some t)
       [(''left'', t), (''right'', t)]"

definition servicesAfterPlusInteger :: "nat Services" where
  "servicesAfterPlusInteger =
     \<lparr>mapNameTypes = [''+'' \<mapsto>
        \<lparr>overloadedFunctions = [(plusType 1 integerType, Some 0)],
         inference' = [(FunctionCallInferenceRule (plusDetails integerType) (plusType 1 integerType),
                        Some (plusType 1 integerType))],
         sameOutputType = Some integerType\<rparr>],
      Inference = [(OverloadedFunctionsTypeInferenceRule ''+'', None)],
      validationCollector = [],
      Graph = testGraph\<lparr>nodes := nodes testGraph @ [plusType 1 integerType]\<rparr>\<rparr>"

definition secondInitializer :: "Type \<Rightarrow> nat FunctionTypeInitializer" where
  "secondInitializer t =
     \<lparr>typeDetails = plusDetails t,
      inferenceRules = createInferenceRules (plusDetails t) (plusType 2 t),
      initialFunctionType = plusType 2 t\<rparr>"

definition servicesWithSecondInitializer :: "Type \<Rightarrow> nat Services" where
  "servicesWithSecondInitializer t =
     servicesAfterPlusInteger\<lparr>mapNameTypes := [''+'' \<mapsto>
        \<lparr>overloadedFunctions = [(plusType 1 integerType, Some 0)],
         inference' = [(FunctionCallInferenceRule (plusDetails integerType) (plusType 1 integerType),
                        Some (plusType 1 integerType)),
                       (FunctionCallInferenceRule (plusDetails t) (plusType 2 t), None)],
         sameOutputType = Some integerType\<rparr>]\<rparr>"

section \<open>Operators and the resolution of overloads\<close>

text \<open>
  \<open>operator.ts\<close> realizes an operator as a function type. The engine it works on holds
  the graph, the function kind once it is registered (\<open>typir.getKind\<close>), with the
  function types created so far and their inference rules for calls, and the inference
  rules in the order of their registration. A rule is the rule of a primitive type (a
  predicate on nodes and the type it stands for) or the composite rule of the overload
  group of a function name.
\<close>

datatype 'n CallRuleResult = Operands "'n list" | Matched bool

type_synonym 'n InferConcreteOperator = "'n \<Rightarrow> string \<Rightarrow> bool"

type_synonym 'n DeriveOperands = "'n \<Rightarrow> string \<Rightarrow> 'n OneOrMany"

type_synonym 'n InferenceRuleForCalls = "'n \<Rightarrow> 'n CallRuleResult"

datatype 'n EngineRule = PrimitiveRule "'n \<Rightarrow> bool" Type | OverloadRule string

record 'n Engine =
  engineGraph :: TypeGraph
  functionKind :: "(Type \<times> 'n InferenceRuleForCalls option) list option"
  engineRules :: "'n EngineRule list"

definition newEngine :: "'n Engine" where
  "newEngine = \<lparr>engineGraph = emptyGraph, functionKind = None, engineRules = []\<rparr>"

text \<open>
  Modelled from the spec: the factory of primitive types (sections 4.B and 6). A
  primitive type is identified by its name and registered with its inference rule; an
  existing node with the same identifier is returned instead.
\<close>

definition createPrimitive :: "string \<Rightarrow> ('n \<Rightarrow> bool) \<Rightarrow> 'n Engine \<Rightarrow> Type \<times> 'n Engine" where
  "createPrimitive name inferenceRule engine =
     (case getType (engineGraph engine) name of
        Some existing \<Rightarrow> (existing, engine)
      | None \<Rightarrow>
          (PrimitiveType name,
           engine\<lparr>engineGraph := snd (addNode (PrimitiveType name) (engineGraph engine)),
                  engineRules := engineRules engine @ [PrimitiveRule inferenceRule (PrimitiveType name)]\<rparr>))"

text \<open>The name and the types of the input parameters of a function type.\<close>

fun functionNameOf :: "Type \<Rightarrow> string" where
  "functionNameOf (FunctionType r n i out ins) = n"
| "functionNameOf t = []"

fun inputTypesOf :: "Type \<Rightarrow> Type list" where
  "inputTypesOf (FunctionType r n i out ins) = map snd ins"
| "inputTypesOf t = []"

text \<open>
  Modelled from the spec: \<open>createFunctionType\<close> of the function kind (sections 4.B, 4.H
  and 6). A function type gets its identifier from its signature and a new reference,
  is added to the graph and to the function kind, and the first function of a name
  registers the composite rule of the overload group; an existing node with the same
  identifier is returned instead.
\<close>

definition createFunctionType :: "string \<Rightarrow> Type option \<Rightarrow> (string \<times> Type) list
    \<Rightarrow> 'n InferenceRuleForCalls option \<Rightarrow> 'n Engine \<Rightarrow> Type \<times> 'n Engine" where
  "createFunctionType name outputType inputParameter inferenceRuleForCall engine =
     (let functions = (case functionKind engine of None \<Rightarrow> [] | Some fs \<Rightarrow> fs);
          identifier = name @ ''('' @
            join '', '' (map (\<lambda>p. fst p @ '':'' @ getIdentifier (snd p)) inputParameter) @ '')'' @
            (case outputType of None \<Rightarrow> [] | Some t \<Rightarrow> '' -> '' @ getIdentifier t)
      in case getType (engineGraph engine) identifier of
           Some existing \<Rightarrow> (existing, engine)
         | None \<Rightarrow>
             (let newType = FunctionType (length functions) name identifier outputType inputParameter
              in (newType,
                  engine\<lparr>engineGraph := snd (addNode newType (engineGraph engine)),
                         functionKind := Some (functions @ [(newType, inferenceRuleForCall)]),
                         engineRules :=
                           (if \<exists>entry \<in> set functions. functionNameOf (fst entry) = name
                            then engineRules engine
                            else engineRules engine @ [OverloadRule name])\<rparr>)))"

subsection \<open>The operator manager\<close>

text \<open>
  \<open>createGenericOperator\<close> makes sure that the function kind exists and creates the
  function type. The inference rule for calls that it passes on is the closure over
  the operator's rule and the derivation of the operands; the name of the output
  parameter (\<open>FUNCTION_MISSING_NAME\<close>) is not kept in the function type.
\<close>

definition operatorCallRule :: "string \<Rightarrow> 'n InferConcreteOperator \<Rightarrow> 'n DeriveOperands option
    \<Rightarrow> 'n InferenceRuleForCalls" where
  "operatorCallRule name inferenceRule domainElementsForInputValues domainElement =
     (if inferenceRule domainElement name then
        (case domainElementsForInputValues of
           Some derive \<Rightarrow> Operands (toArray (Some (derive domainElement name)))
         | None \<Rightarrow> Matched True)
      else Matched False)"

definition createGenericOperator :: "string \<Rightarrow> Type \<Rightarrow> 'n InferConcreteOperator option
    \<Rightarrow> 'n DeriveOperands option \<Rightarrow> (string \<times> Type) list \<Rightarrow> 'n Engine \<Rightarrow> Type \<times> 'n Engine" where
  "createGenericOperator name outputType inferenceRule domainElementsForInputValues inputParameter engine =
     (let engine1 = (case functionKind engine of
                       Some kind \<Rightarrow> engine
                     | None \<Rightarrow> engine\<lparr>functionKind := Some []\<rparr>)
      in createFunctionType name (Some outputType) inputParameter
           (case inferenceRule of
              Some rule \<Rightarrow> Some (operatorCallRule name rule domainElementsForInputValues)
            | None \<Rightarrow> None)
           engine1)"

fun createForTypes :: "(string \<Rightarrow> Type \<Rightarrow> 'n Engine \<Rightarrow> Type \<times> 'n Engine) \<Rightarrow> string \<Rightarrow> Type list
    \<Rightarrow> 'n Engine \<Rightarrow> Type list \<times> 'n Engine" where
  "createForTypes typeCreator singleName [] engine = ([], engine)"
| "createForTypes typeCreator singleName (singleType # allTypes) engine =
     (case typeCreator singleName singleType engine of
        (created, engine1) \<Rightarrow>
          (case createForTypes typeCreator singleName allTypes engine1 of
             (result, engine2) \<Rightarrow> (created # result, engine2)))"

fun createForNames :: "(string \<Rightarrow> Type \<Rightarrow> 'n Engine \<Rightarrow> Type \<times> 'n Engine) \<Rightarrow> string list \<Rightarrow> Type list
    \<Rightarrow> 'n Engine \<Rightarrow> Type list \<times> 'n Engine" where
  "createForNames typeCreator [] allTypes engine = ([], engine)"
| "createForNames typeCreator (singleName # allNames) allTypes engine =
     (case createForTypes typeCreator singleName allTypes engine of
        (created, engine1) \<Rightarrow>
          (case createForNames typeCreator allNames allTypes engine1 of
             (result, engine2) \<Rightarrow> (created @ result, engine2)))"

text \<open>
  \<open>handleOperatorVariants\<close>: the two nested loops are \<open>createForNames\<close> and
  \<open>createForTypes\<close>; a single result is returned as it is, several as an array.
\<close>

definition handleOperatorVariants :: "string OneOrMany \<Rightarrow> Type OneOrMany
    \<Rightarrow> (string \<Rightarrow> Type \<Rightarrow> 'n Engine \<Rightarrow> Type \<times> 'n Engine) \<Rightarrow> 'n Engine
    \<Rightarrow> error + (Type OneOrMany \<times> 'n Engine)" where
  "handleOperatorVariants nameVariants typeVariants typeCreator engine =
     (let allNames = toArray (Some nameVariants);
          allTypes = toArray (Some typeVariants)
      in if \<not> length allTypes \<ge> 1 then Inl AssertionError
         else (case createForNames typeCreator allNames allTypes engine of
                 (result, engine1) \<Rightarrow>
                   Inr (case result of [single] \<Rightarrow> One single | _ \<Rightarrow> Many result, engine1)))"

definition createUnaryOperator :: "string OneOrMany \<Rightarrow> Type OneOrMany \<Rightarrow> 'n InferConcreteOperator option
    \<Rightarrow> 'n DeriveOperands option \<Rightarrow> 'n Engine \<Rightarrow> error + (Type OneOrMany \<times> 'n Engine)" where
  "createUnaryOperator name operandType inferenceRule domainElementsForInputValues engine =
     handleOperatorVariants name operandType
       (\<lambda>singleName singleType. createGenericOperator singleName singleType inferenceRule
            domainElementsForInputValues [(''operand'', singleType)])
       engine"

definition createBinaryOperator :: "string OneOrMany \<Rightarrow> Type OneOrMany \<Rightarrow> Type option
    \<Rightarrow> 'n InferConcreteOperator option \<Rightarrow> 'n DeriveOperands option \<Rightarrow> 'n Engine
    \<Rightarrow> error + (Type OneOrMany \<times> 'n Engine)" where
  "createBinaryOperator name inputType outputType inferenceRule domainElementsForInputValues engine =
     handleOperatorVariants name inputType
       (\<lambda>singleName singleType. createGenericOperator singleName
            (case outputType of Some t \<Rightarrow> t | None \<Rightarrow> singleType) inferenceRule
            domainElementsForInputValues [(''left'', singleType), (''right'', singleType)])
       engine"

definition createTernaryOperator :: "string OneOrMany \<Rightarrow> Type \<Rightarrow> Type OneOrMany
    \<Rightarrow> 'n InferConcreteOperator option \<Rightarrow> 'n DeriveOperands option \<Rightarrow> 'n Engine
    \<Rightarrow> error + (Type OneOrMany \<times> 'n Engine)" where
  "createTernaryOperator name firstType secondAndThirdType inferenceRule domainElementsForInputValues engine =
     handleOperatorVariants name secondAndThirdType
       (\<lambda>singleName singleType. createGenericOperator singleName singleType inferenceRule
            domainElementsForInputValues
            [(''first'', firstType), (''second'', singleType), (''third'', singleType)])
       engine"

subsection \<open>Overload resolution and inference\<close>

text \<open>
  The problems that inference reports: no rule applied, the inference of operands
  failed, no candidate is applicable (with the assignability problems), the overloads
  are ambiguous (with the tied candidates), the selected function has no output type.
\<close>

datatype InferenceProblem =
    NoRuleApplied
  | OperandProblems "InferenceProblem list"
  | NotAssignable "TypirProblem list"
  | AmbiguousOverload "Type list"
  | NoOutputType Type

text \<open>
  Modelled from the spec: applicability and cost of a candidate (section 4.I, steps 1
  and 2): every argument must be assignable to its parameter, and its cost is the
  length of the assignability path.
\<close>

fun argumentCosts :: "TypeGraph \<Rightarrow> Type list \<Rightarrow> Type list \<Rightarrow> TypirProblem + nat list" where
  "argumentCosts typeGraph [] [] = Inr []"
| "argumentCosts typeGraph (a # arguments) (p # parameterTypes) =
     (case getAssignabilityResult typeGraph a p of
        Inl problem \<Rightarrow> Inl problem
      | Inr path \<Rightarrow>
          (case argumentCosts typeGraph arguments parameterTypes of
             Inl problem \<Rightarrow> Inl problem
           | Inr costs \<Rightarrow> Inr (length path # costs)))"
| "argumentCosts typeGraph (a # arguments) [] = Inl (AssignabilityProblem a a [])"
| "argumentCosts typeGraph [] (p # parameterTypes) = Inl (AssignabilityProblem p p [])"

text \<open>
  Modelled from the spec: dominance (section 4.I, step 3): no cost is higher and one is
  lower.
\<close>

definition dominates :: "nat list \<Rightarrow> nat list \<Rightarrow> bool" where
  "dominates costsF costsG =
     (list_all2 (\<le>) costsF costsG \<and> list_ex (\<lambda>pair. fst pair < snd pair) (zip costsF costsG))"

text \<open>
  Modelled from the spec: the applicable candidates with their costs (section 4.I): the
  candidates of the arity of the call to which the arguments are assignable.
\<close>

definition applicableCandidates :: "TypeGraph \<Rightarrow> Type list \<Rightarrow> Type list \<Rightarrow> (Type \<times> nat list) list" where
  "applicableCandidates typeGraph candidates arguments =
     concat (map (\<lambda>f. case argumentCosts typeGraph arguments (inputTypesOf f) of
                         Inl problem \<Rightarrow> []
                       | Inr costs \<Rightarrow> [(f, costs)])
                 (filter (\<lambda>f. length (inputTypesOf f) = length arguments) candidates))"

text \<open>
  Modelled from the spec: the best match (section 4.I, step 4): the one applicable
  candidate that dominates all others. Without a unique dominator the result is
  \<open>AmbiguousOverload\<close> with the applicable candidates that no other candidate dominates;
  without an applicable candidate it holds the assignability problems.
\<close>

definition bestMatch :: "TypeGraph \<Rightarrow> Type list \<Rightarrow> Type list \<Rightarrow> InferenceProblem + Type" where
  "bestMatch typeGraph candidates arguments =
     (let applicable = applicableCandidates typeGraph candidates arguments
      in if applicable = [] then
           Inl (NotAssignable
                  (concat (map (\<lambda>f. case argumentCosts typeGraph arguments (inputTypesOf f) of
                                       Inl problem \<Rightarrow> [problem]
                                     | Inr costs \<Rightarrow> [])
                               candidates)))
         else (case filter (\<lambda>f. list_all (\<lambda>g. fst g = fst f \<or> dominates (snd f) (snd g)) applicable)
                      applicable of
                 [best] \<Rightarrow> Inr (fst best)
               | _ \<Rightarrow>
                   Inl (AmbiguousOverload
                          (map fst (filter (\<lambda>f. \<not> list_ex (\<lambda>g. dominates (snd g) (snd f)) applicable)
                                      applicable)))))"

text \<open>
  Modelled from the spec: the output of the resulting function becomes the inferred
  type of the node (section 4.H).
\<close>

definition outputOf :: "Type \<Rightarrow> InferenceProblem + Type" where
  "outputOf f = (case getOutputTypeForFunctionCalls f of None \<Rightarrow> Inl (NoOutputType f) | Some t \<Rightarrow> Inr t)"

text \<open>
  Modelled from the spec: the inferred types of the operands (section 4.H), or their
  problems; \<open>None\<close> when the inference of an operand did not end within the depth.
\<close>

fun collectTypes :: "(InferenceProblem + Type) option list \<Rightarrow> (InferenceProblem list + Type list) option" where
  "collectTypes [] = Some (Inr [])"
| "collectTypes (None # results) = None"
| "collectTypes (Some r # results) =
     (case collectTypes results of
        None \<Rightarrow> None
      | Some (Inl problems) \<Rightarrow> Some (Inl (case r of Inl p \<Rightarrow> p # problems | Inr t \<Rightarrow> problems))
      | Some (Inr types) \<Rightarrow> Some (case r of Inl p \<Rightarrow> Inl [p] | Inr t \<Rightarrow> Inr (t # types)))"

text \<open>
  Modelled from the spec: the composite rule of an overload group (section 4.H). It
  asks the rules for calls of the functions of the group; the first rule that matches
  the node either decides for its function or yields the operands, whose types are
  inferred before the best signature of the group is selected. The outer \<open>None\<close> means
  that no rule of the group matches.
\<close>

fun inferCall :: "('n \<Rightarrow> (InferenceProblem + Type) option) \<Rightarrow> TypeGraph \<Rightarrow> Type list
    \<Rightarrow> (Type \<times> 'n InferenceRuleForCalls option) list \<Rightarrow> 'n \<Rightarrow> (InferenceProblem + Type) option option" where
  "inferCall infer typeGraph candidates [] node = None"
| "inferCall infer typeGraph candidates ((f, None) # functions) node =
     inferCall infer typeGraph candidates functions node"
| "inferCall infer typeGraph candidates ((f, Some rule) # functions) node =
     (case rule node of
        Matched False \<Rightarrow> inferCall infer typeGraph candidates functions node
      | Matched True \<Rightarrow> Some (Some (outputOf f))
      | Operands operands \<Rightarrow>
          Some (case collectTypes (map infer operands) of
                  None \<Rightarrow> None
                | Some (Inl problems) \<Rightarrow> Some (Inl (OperandProblems problems))
                | Some (Inr arguments) \<Rightarrow>
                    Some (case bestMatch typeGraph candidates arguments of
                            Inl problem \<Rightarrow> Inl problem
                          | Inr best \<Rightarrow> outputOf best)))"

text \<open>
  Modelled from the spec: the overload group of a name (section 4.B): the functions
  registered under that name.
\<close>

definition overloadGroup :: "'n Engine \<Rightarrow> string \<Rightarrow> (Type \<times> 'n InferenceRuleForCalls option) list" where
  "overloadGroup engine name =
     filter (\<lambda>entry. functionNameOf (fst entry) = name)
       (case functionKind engine of None \<Rightarrow> [] | Some functions \<Rightarrow> functions)"

text \<open>
  Modelled from the spec: the dispatch of the inference service (section 4.H): the rules
  are tried in the order of their registration and the first final answer wins.
\<close>

fun firstAnswer :: "('n \<Rightarrow> (InferenceProblem + Type) option) \<Rightarrow> 'n Engine \<Rightarrow> 'n EngineRule list \<Rightarrow> 'n
    \<Rightarrow> (InferenceProblem + Type) option" where
  "firstAnswer infer engine [] node = Some (Inl NoRuleApplied)"
| "firstAnswer infer engine (PrimitiveRule inferenceRule t # rules) node =
     (if inferenceRule node then Some (Inr t) else firstAnswer infer engine rules node)"
| "firstAnswer infer engine (OverloadRule name # rules) node =
     (case inferCall infer (engineGraph engine) (map fst (overloadGroup engine name))
             (overloadGroup engine name) node of
        None \<Rightarrow> firstAnswer infer engine rules node
      | Some answer \<Rightarrow> answer)"

text \<open>
  Modelled from the spec: \<open>inferType\<close> (section 4.H). The types of children are inferred
  before the type of a node, to a depth: \<open>None\<close> means that the depth did not suffice.
\<close>

primrec inferTypeOf :: "nat \<Rightarrow> 'n Engine \<Rightarrow> 'n \<Rightarrow> (InferenceProblem + Type) option" where
  "inferTypeOf 0 engine node = None"
| "inferTypeOf (Suc depth) engine node =
     firstAnswer (inferTypeOf depth engine) engine (engineRules engine) node"

subsection \<open>The engine of the operator test\<close>

text \<open>
  The rule of the test for binary expressions and its operands, the engine after the
  set-up of the test (the primitives with their rules, the four overloads of \<open>+\<close>, the
  three relations), and two overloads on which no candidate dominates.
\<close>

fun inferBinaryExpression :: "TestExpressionNode InferConcreteOperator" where
  "inferBinaryExpression (BinaryExpression left operator right) name = (operator = name)"
| "inferBinaryExpression node name = False"

fun operandsOfBinaryExpression :: "TestExpressionNode DeriveOperands" where
  "operandsOfBinaryExpression (BinaryExpression left operator right) name = Many [left, right]"
| "operandsOfBinaryExpression node name = Many []"

definition withRelations :: "'n Engine \<Rightarrow> 'n Engine" where
  "withRelations engine =
     engine\<lparr>engineGraph :=
       markAsConvertible doubleType stringType IMPLICIT_EXPLICIT
         (snd (markAsSubType integerType doubleType True
            (markAsConvertible booleanType integerType IMPLICIT_EXPLICIT (engineGraph engine))))\<rparr>"

definition withPrimitives :: "TestExpressionNode Engine" where
  "withPrimitives =
     snd (createPrimitive ''boolean'' isBooleanLiteral
       (snd (createPrimitive ''string'' isStringLiteral
          (snd (createPrimitive ''double'' isDoubleLiteral
             (snd (createPrimitive ''integer'' isIntegerLiteral newEngine)))))))"

definition testEngine :: "TestExpressionNode Engine" where
  "testEngine =
     (case createBinaryOperator (One ''+'') (Many [integerType, doubleType, stringType, booleanType]) None
             (Some inferBinaryExpression) (Some operandsOfBinaryExpression) withPrimitives of
        Inl e \<Rightarrow> withPrimitives
      | Inr (created, engine) \<Rightarrow> withRelations engine)"

definition mixedPlus :: "Type list" where
  "mixedPlus =
     [FunctionType 0 ''+'' ''+(left:integer, right:double) -> integer'' (Some integerType)
        [(''left'', integerType), (''right'', doubleType)],
      FunctionType 1 ''+'' ''+(left:double, right:integer) -> double'' (Some doubleType)
        [(''left'', doubleType), (''right'', integerType)]]"

section \<open>Verified properties\<close>

subsection \<open>Pair-wise comparison\<close>

lemma checkTypesFrom_empty_iff:
  "checkTypesFrom i ls rs rel = [] \<longleftrightarrow> list_all2 (\<lambda>l r. rel l r = None) ls rs"
  by (induction i ls rs rel rule: checkTypesFrom.induct) (auto split: option.splits)

lemma checkTypes_empty_iff:
  "checkTypes ls rs rel = [] \<longleftrightarrow> list_all2 (\<lambda>l r. rel l r = None) ls rs"
  by (simp add: checkTypes_def checkTypesFrom_empty_iff)

lemma compareTypesFrom_empty_iff:
  "compareTypesFrom i ls rs rel = [] \<longleftrightarrow> list_all2 (\<lambda>l r. rel l r = []) ls rs"
  by (induction i ls rs rel rule: compareTypesFrom.induct) (auto split: list.splits)

lemma compareTypes_empty_iff:
  "compareTypes ls rs rel = [] \<longleftrightarrow> list_all2 (\<lambda>l r. rel l r = []) ls rs"
  by (simp add: compareTypes_def compareTypesFrom_empty_iff)

lemma analyzeSubTypeProblems_empty_iff:
  "analyzeSubTypeProblems typir this (FixedParameterType k i ps) (FixedParameterType k' i' ps') = [] \<longleftrightarrow>
     baseName k = baseName k' \<and>
     list_all2 (\<lambda>s t. createTypeCheckStrategy (parameterSubtypeCheckingStrategy this) typir s t = None) ps ps'"
  by (auto simp: checkValueForConflict_def checkTypes_empty_iff Let_def)

lemma test_integer_subtype_of_double:
  "getSubTypeProblem (typirServices testGraph) integerType doubleType = None"
  by code_simp

lemma test_integer_not_equal_double:
  "getTypeEqualityProblem (typirServices testGraph) integerType doubleType
     = Some (TypeEqualityProblem integerType doubleType [])"
  by code_simp

subsection \<open>Fixed-parameters types: sub types\<close>

lemma FixedParameterKind_isSubType_same_base:
  assumes "baseName ksuper = baseName ksub"
    and "length psuper = length (parameters ksuper)"
    and "length psub = length (parameters ksub)"
  shows "FixedParameterKind_isSubType cs this
           (FixedParameterType ksuper isuper psuper) (FixedParameterType ksub isub psub)
         = Inr (compareTypes psuper psub (cs (parameterSubtypeCheckingStrategy this)))"
  using assms by (simp add: FixedParameterKind_getParameterTypes_def)

lemma listSubTypeScenario_EQUAL_TYPE:
  "listSubTypeScenario EQUAL_TYPE
     = Inr [IndexedTypeConflict (Some doubleType) (Some integerType) 0
              [TypeEqualityProblem doubleType integerType []]]"
  by code_simp

lemma listSubTypeScenario_SUB_TYPE:
  "listSubTypeScenario SUB_TYPE = Inr []"
  by code_simp

lemma test_compare_double_integer:
  "compareTypes [doubleType] [integerType]
     (createTypeComparisonStrategy (typirServices testGraph) SUB_TYPE) = []"
  by code_simp

text \<open>
  Claim C5. The subtype analysis of two fixed-parameters types reports no problem
  exactly when the base names are the same and the parameter types are related position
  by position by the relation that the strategy of the kind selects. With one
  parameter, a sub type \<open>i1\<close> of \<open>d1\<close> that is not equal to \<open>d1\<close>: under \<open>EQUAL_TYPE\<close> the
  query \<open>isSubType(List<i1>, List<d1>)\<close> is a \<open>SubTypeProblem\<close>, under \<open>SUB_TYPE\<close> it is
  \<open>true\<close>. The kind-level \<open>isSubType\<close> of \<open>fixed-parameters-kind.ts\<close> does the same: for
  two types of one base name that have the number of parameter types their kinds
  declare, it returns the conflicts of the position-wise comparison by the strategy of
  the kind, and there is none exactly when every position is related. On
  \<open>List<integer>\<close> and \<open>List<double>\<close>, created by that kind in the graph of the operator
  test where integer is a sub type of double, it returns a conflict at position 0 under
  \<open>EQUAL_TYPE\<close> and no conflict under \<open>SUB_TYPE\<close>.
\<close>

theorem fixed_parameters_subtype_uses_strategy:
  "(analyzeIsSubTypeOf typir (FixedParameterType k i ps) (FixedParameterType k' i' ps') = [] \<longleftrightarrow>
      baseName k = baseName k' \<and>
      list_all2 (\<lambda>s t. createTypeCheckStrategy (parameterSubtypeCheckingStrategy k) typir s t = None) ps ps')
   \<and> (getSubTypeProblem typir i1 d1 = None \<and> getTypeEqualityProblem typir i1 d1 = Some p \<longrightarrow>
        isSubType typir
          (FixedParameterType (kind\<lparr>parameterSubtypeCheckingStrategy := EQUAL_TYPE\<rparr>) n [i1])
          (FixedParameterType (kind\<lparr>parameterSubtypeCheckingStrategy := EQUAL_TYPE\<rparr>) n' [d1])
          = Inl (SubTypeProblem
               (FixedParameterType (kind\<lparr>parameterSubtypeCheckingStrategy := EQUAL_TYPE\<rparr>) n' [d1])
               (FixedParameterType (kind\<lparr>parameterSubtypeCheckingStrategy := EQUAL_TYPE\<rparr>) n [i1])
               [IndexedTypeConflict (Some i1) (Some d1) 0 [p]])
        \<and> isSubType typir
          (FixedParameterType (kind\<lparr>parameterSubtypeCheckingStrategy := SUB_TYPE\<rparr>) n [i1])
          (FixedParameterType (kind\<lparr>parameterSubtypeCheckingStrategy := SUB_TYPE\<rparr>) n' [d1])
          = Inr True)
   \<and> (baseName ksuper = baseName ksub \<and> length psuper = length (parameters ksuper) \<and>
        length psub = length (parameters ksub) \<longrightarrow>
        FixedParameterKind_isSubType cs this
            (FixedParameterType ksuper isuper psuper) (FixedParameterType ksub isub psub)
          = Inr (compareTypes psuper psub (cs (parameterSubtypeCheckingStrategy this)))
        \<and> (FixedParameterKind_isSubType cs this
              (FixedParameterType ksuper isuper psuper) (FixedParameterType ksub isub psub) = Inr [] \<longleftrightarrow>
            list_all2 (\<lambda>l r. cs (parameterSubtypeCheckingStrategy this) l r = []) psuper psub))
   \<and> listSubTypeScenario EQUAL_TYPE
        = Inr [IndexedTypeConflict (Some doubleType) (Some integerType) 0
                 [TypeEqualityProblem doubleType integerType []]]
   \<and> listSubTypeScenario SUB_TYPE = Inr []"
proof (intro conjI impI)
  show "analyzeIsSubTypeOf typir (FixedParameterType k i ps) (FixedParameterType k' i' ps') = [] \<longleftrightarrow>
      baseName k = baseName k' \<and>
      list_all2 (\<lambda>s t. createTypeCheckStrategy (parameterSubtypeCheckingStrategy k) typir s t = None) ps ps'"
    by (simp add: analyzeSubTypeProblems_empty_iff del: analyzeSubTypeProblems.simps)
next
  assume "getSubTypeProblem typir i1 d1 = None \<and> getTypeEqualityProblem typir i1 d1 = Some p"
  then show "isSubType typir
          (FixedParameterType (kind\<lparr>parameterSubtypeCheckingStrategy := EQUAL_TYPE\<rparr>) n [i1])
          (FixedParameterType (kind\<lparr>parameterSubtypeCheckingStrategy := EQUAL_TYPE\<rparr>) n' [d1])
          = Inl (SubTypeProblem
               (FixedParameterType (kind\<lparr>parameterSubtypeCheckingStrategy := EQUAL_TYPE\<rparr>) n' [d1])
               (FixedParameterType (kind\<lparr>parameterSubtypeCheckingStrategy := EQUAL_TYPE\<rparr>) n [i1])
               [IndexedTypeConflict (Some i1) (Some d1) 0 [p]])"
    by (simp add: isSubType_def checkValueForConflict_def checkTypes_def)
next
  assume "getSubTypeProblem typir i1 d1 = None \<and> getTypeEqualityProblem typir i1 d1 = Some p"
  then show "isSubType typir
          (FixedParameterType (kind\<lparr>parameterSubtypeCheckingStrategy := SUB_TYPE\<rparr>) n [i1])
          (FixedParameterType (kind\<lparr>parameterSubtypeCheckingStrategy := SUB_TYPE\<rparr>) n' [d1])
          = Inr True"
    by (simp add: isSubType_def checkValueForConflict_def checkTypes_def)
next
  assume h: "baseName ksuper = baseName ksub \<and> length psuper = length (parameters ksuper) \<and>
        length psub = length (parameters ksub)"
  then show "FixedParameterKind_isSubType cs this
            (FixedParameterType ksuper isuper psuper) (FixedParameterType ksub isub psub)
          = Inr (compareTypes psuper psub (cs (parameterSubtypeCheckingStrategy this)))"
    by (simp only: FixedParameterKind_isSubType_same_base)
next
  assume h: "baseName ksuper = baseName ksub \<and> length psuper = length (parameters ksuper) \<and>
        length psub = length (parameters ksub)"
  then have "FixedParameterKind_isSubType cs this
            (FixedParameterType ksuper isuper psuper) (FixedParameterType ksub isub psub)
          = Inr (compareTypes psuper psub (cs (parameterSubtypeCheckingStrategy this)))"
    by (simp only: FixedParameterKind_isSubType_same_base)
  then show "FixedParameterKind_isSubType cs this
              (FixedParameterType ksuper isuper psuper) (FixedParameterType ksub isub psub) = Inr [] \<longleftrightarrow>
            list_all2 (\<lambda>l r. cs (parameterSubtypeCheckingStrategy this) l r = []) psuper psub"
    by (simp add: compareTypes_empty_iff del: FixedParameterKind_isSubType.simps)
next
  show "listSubTypeScenario EQUAL_TYPE
        = Inr [IndexedTypeConflict (Some doubleType) (Some integerType) 0
                 [TypeEqualityProblem doubleType integerType []]]"
    by (rule listSubTypeScenario_EQUAL_TYPE)
next
  show "listSubTypeScenario SUB_TYPE = Inr []"
    by (rule listSubTypeScenario_SUB_TYPE)
qed

theorem fixed_parameters_subtype_uses_strategy_witness:
  "getSubTypeProblem (typirServices testGraph) integerType doubleType = None \<and>
   getTypeEqualityProblem (typirServices testGraph) integerType doubleType
     = Some (TypeEqualityProblem integerType doubleType []) \<and>
   isSubType (typirServices testGraph)
     (FixedParameterType (listKind EQUAL_TYPE) ''List<integer>'' [integerType])
     (FixedParameterType (listKind EQUAL_TYPE) ''List<double>'' [doubleType])
   = Inl (SubTypeProblem
       (FixedParameterType (listKind EQUAL_TYPE) ''List<double>'' [doubleType])
       (FixedParameterType (listKind EQUAL_TYPE) ''List<integer>'' [integerType])
       [IndexedTypeConflict (Some integerType) (Some doubleType) 0
          [TypeEqualityProblem integerType doubleType []]]) \<and>
   isSubType (typirServices testGraph)
     (FixedParameterType (listKind SUB_TYPE) ''List<integer>'' [integerType])
     (FixedParameterType (listKind SUB_TYPE) ''List<double>'' [doubleType])
   = Inr True \<and>
   baseName (listKind SUB_TYPE) = ''List'' \<and>
   length [doubleType] = length (parameters (listKind SUB_TYPE)) \<and>
   length [integerType] = length (parameters (listKind SUB_TYPE)) \<and>
   FixedParameterKind_isSubType (createTypeComparisonStrategy (typirServices testGraph)) (listKind SUB_TYPE)
     (FixedParameterType (listKind SUB_TYPE) ''List<double>'' [doubleType])
     (FixedParameterType (listKind SUB_TYPE) ''List<integer>'' [integerType])
   = Inr []"
proof -
  have h: "getSubTypeProblem (typirServices testGraph) integerType doubleType = None \<and>
   getTypeEqualityProblem (typirServices testGraph) integerType doubleType
     = Some (TypeEqualityProblem integerType doubleType [])"
    using test_integer_subtype_of_double test_integer_not_equal_double by simp
  have e: "listKind EQUAL_TYPE = (listKind EQUAL_TYPE)\<lparr>parameterSubtypeCheckingStrategy := EQUAL_TYPE\<rparr>"
    and s: "listKind SUB_TYPE = (listKind EQUAL_TYPE)\<lparr>parameterSubtypeCheckingStrategy := SUB_TYPE\<rparr>"
    by (simp_all add: listKind_def)
  have l: "baseName (listKind SUB_TYPE) = ''List''"
    "length [doubleType] = length (parameters (listKind SUB_TYPE))"
    "length [integerType] = length (parameters (listKind SUB_TYPE))"
    "parameterSubtypeCheckingStrategy (listKind SUB_TYPE) = SUB_TYPE"
    by (simp_all add: listKind_def)
  note th = fixed_parameters_subtype_uses_strategy
    [where typir = "typirServices testGraph" and ?i1.0 = integerType and ?d1.0 = doubleType
       and p = "TypeEqualityProblem integerType doubleType []" and kind = "listKind EQUAL_TYPE"
       and n = "''List<integer>''" and n' = "''List<double>''"
       and ksuper = "listKind SUB_TYPE" and ksub = "listKind SUB_TYPE"
       and psuper = "[doubleType]" and psub = "[integerType]"
       and isuper = "''List<double>''" and isub = "''List<integer>''"
       and cs = "createTypeComparisonStrategy (typirServices testGraph)"
       and this = "listKind SUB_TYPE"]
  have a: "isSubType (typirServices testGraph)
     (FixedParameterType (listKind EQUAL_TYPE) ''List<integer>'' [integerType])
     (FixedParameterType (listKind EQUAL_TYPE) ''List<double>'' [doubleType])
   = Inl (SubTypeProblem
       (FixedParameterType (listKind EQUAL_TYPE) ''List<double>'' [doubleType])
       (FixedParameterType (listKind EQUAL_TYPE) ''List<integer>'' [integerType])
       [IndexedTypeConflict (Some integerType) (Some doubleType) 0
          [TypeEqualityProblem integerType doubleType []]])"
    "isSubType (typirServices testGraph)
     (FixedParameterType (listKind SUB_TYPE) ''List<integer>'' [integerType])
     (FixedParameterType (listKind SUB_TYPE) ''List<double>'' [doubleType])
   = Inr True"
    using th h e s by simp_all
  have "FixedParameterKind_isSubType (createTypeComparisonStrategy (typirServices testGraph)) (listKind SUB_TYPE)
     (FixedParameterType (listKind SUB_TYPE) ''List<double>'' [doubleType])
     (FixedParameterType (listKind SUB_TYPE) ''List<integer>'' [integerType])
   = Inr (compareTypes [doubleType] [integerType]
            (createTypeComparisonStrategy (typirServices testGraph)
               (parameterSubtypeCheckingStrategy (listKind SUB_TYPE))))"
    using th l(2) l(3) by blast
  then have b: "FixedParameterKind_isSubType (createTypeComparisonStrategy (typirServices testGraph)) (listKind SUB_TYPE)
     (FixedParameterType (listKind SUB_TYPE) ''List<double>'' [doubleType])
     (FixedParameterType (listKind SUB_TYPE) ''List<integer>'' [integerType])
   = Inr []"
    by (simp only: l(4) test_compare_double_integer)
  show ?thesis
    using h a b l(1) l(2) l(3) by blast
qed

subsection \<open>The bottom type is a sub type of every type\<close>


lemma addEdge_fields [simp]:
  "set (edges (addEdge e g)) = insert e (set (edges g))"
  "nodes (addEdge e g) = nodes g"
  "listeners (addEdge e g) = listeners g"
  by (auto simp: addEdge_def)

lemma BottomType_markAsSubType_fields [simp]:
  "set (edges (BottomType_markAsSubType this t g)) =
     (if t \<noteq> this then insert (SubTypeEdge this t) (set (edges g)) else set (edges g))"
  "nodes (BottomType_markAsSubType this t g) = nodes g"
  "listeners (BottomType_markAsSubType this t g) = listeners g"
  by (auto simp: BottomType_markAsSubType_def markAsSubType_def)

lemma fold_markAsSubType_fields:
  "set (edges (fold (\<lambda>t g. BottomType_markAsSubType this t g) ts g)) =
     set (edges g) \<union> {SubTypeEdge this t | t. t \<in> set ts \<and> t \<noteq> this}"
  "nodes (fold (\<lambda>t g. BottomType_markAsSubType this t g) ts g) = nodes g"
  "listeners (fold (\<lambda>t g. BottomType_markAsSubType this t g) ts g) = listeners g"
  by (induction ts arbitrary: g) auto

lemma onAddedType_fields [simp]:
  "set (edges (onAddedType l t g)) =
     (if isBottomType l \<and> t \<noteq> l then insert (SubTypeEdge l t) (set (edges g)) else set (edges g))"
  "nodes (onAddedType l t g) = nodes g"
  "listeners (onAddedType l t g) = listeners g"
  by (cases l; simp)+

lemma fold_onAddedType_fields:
  "set (edges (fold (\<lambda>listener g. onAddedType listener t g) ls g)) =
     set (edges g) \<union> {SubTypeEdge l t | l. l \<in> set ls \<and> isBottomType l \<and> t \<noteq> l}"
  "nodes (fold (\<lambda>listener g. onAddedType listener t g) ls g) = nodes g"
  "listeners (fold (\<lambda>listener g. onAddedType listener t g) ls g) = listeners g"
  by (induction ls arbitrary: g) (auto simp del: onAddedType.simps)

lemma BottomType_new_fields:
  "fst (BottomType_new identifier g) = BottomType identifier"
  "set (edges (snd (BottomType_new identifier g))) =
     set (edges g) \<union> {SubTypeEdge (BottomType identifier) t | t. t \<in> set (nodes g) \<and> t \<noteq> BottomType identifier}"
  "nodes (snd (BottomType_new identifier g)) = nodes g"
  "listeners (snd (BottomType_new identifier g)) = listeners g @ [BottomType identifier]"
  by (simp_all add: BottomType_new_def Let_def addListener_def getAllRegisteredTypes_def
        fold_markAsSubType_fields)

lemma addNode_fields:
  "listeners (snd (addNode t g)) = listeners g"
  "set (edges (snd (addNode t g))) =
     (if getType g (getIdentifier t) = None
      then set (edges g) \<union> {SubTypeEdge l t | l. l \<in> set (listeners g) \<and> isBottomType l \<and> t \<noteq> l}
      else set (edges g))"
  "nodes (snd (addNode t g)) =
     (if getType g (getIdentifier t) = None then nodes g @ [t] else nodes g)"
  by (auto simp: addNode_def fold_onAddedType_fields split: option.splits)

lemma bottomInvariant_new:
  "bottomInvariant (BottomType identifier) (snd (BottomType_new identifier g))"
  by (auto simp: bottomInvariant_def BottomType_new_fields)

lemma bottomInvariant_addNode:
  "bottomInvariant b g \<Longrightarrow> bottomInvariant b (snd (addNode t g))"
  by (auto simp: bottomInvariant_def addNode_fields)

lemma bottomInvariant_addNodes:
  "bottomInvariant b g \<Longrightarrow> bottomInvariant b (addNodes ts g)"
  unfolding addNodes_def
  by (induction ts arbitrary: g) (auto simp: bottomInvariant_addNode)

lemma no_self_edge_addNode:
  "SubTypeEdge b b \<notin> set (edges g) \<Longrightarrow> SubTypeEdge b b \<notin> set (edges (snd (addNode t g)))"
  by (auto simp: addNode_fields)

lemma no_self_edge_addNodes:
  "SubTypeEdge b b \<notin> set (edges g) \<Longrightarrow> SubTypeEdge b b \<notin> set (edges (addNodes ts g))"
  unfolding addNodes_def
  by (induction ts arbitrary: g) (auto simp: no_self_edge_addNode)

text \<open>
  Claim C1. The constructor returns the bottom type. After the construction and after
  any further types have been added to the graph, every registered type other than the
  bottom type has a subtype edge from the bottom type; this holds for every graph the
  construction starts from, also where such an edge closes a cycle, since the edges are
  added without the cycle check. The bottom type adds no edge from itself to itself.
\<close>

theorem bottom_is_subtype_of_every_type:
  "fst (BottomType_new identifier g) = BottomType identifier \<and>
   (\<forall>t \<in> set (nodes (addNodes ts (snd (BottomType_new identifier g)))).
      t \<noteq> BottomType identifier \<longrightarrow>
      SubTypeEdge (BottomType identifier) t
        \<in> set (edges (addNodes ts (snd (BottomType_new identifier g))))) \<and>
   (SubTypeEdge (BottomType identifier) (BottomType identifier) \<notin> set (edges g) \<longrightarrow>
    SubTypeEdge (BottomType identifier) (BottomType identifier)
      \<notin> set (edges (addNodes ts (snd (BottomType_new identifier g)))))"
proof (intro conjI)
  show "fst (BottomType_new identifier g) = BottomType identifier"
    by (simp add: BottomType_new_fields)
next
  have "bottomInvariant (BottomType identifier) (addNodes ts (snd (BottomType_new identifier g)))"
    by (rule bottomInvariant_addNodes [OF bottomInvariant_new])
  then show "\<forall>t \<in> set (nodes (addNodes ts (snd (BottomType_new identifier g)))).
      t \<noteq> BottomType identifier \<longrightarrow>
      SubTypeEdge (BottomType identifier) t
        \<in> set (edges (addNodes ts (snd (BottomType_new identifier g))))"
    by (simp add: bottomInvariant_def)
next
  show "SubTypeEdge (BottomType identifier) (BottomType identifier) \<notin> set (edges g) \<longrightarrow>
    SubTypeEdge (BottomType identifier) (BottomType identifier)
      \<notin> set (edges (addNodes ts (snd (BottomType_new identifier g))))"
  proof
    assume "SubTypeEdge (BottomType identifier) (BottomType identifier) \<notin> set (edges g)"
    then have "SubTypeEdge (BottomType identifier) (BottomType identifier)
        \<notin> set (edges (snd (BottomType_new identifier g)))"
      by (auto simp: BottomType_new_fields)
    then show "SubTypeEdge (BottomType identifier) (BottomType identifier)
      \<notin> set (edges (addNodes ts (snd (BottomType_new identifier g))))"
      by (rule no_self_edge_addNodes)
  qed
qed


lemma cyclicGraph_after_bottom:
  "addNodes [BottomType ''never'', doubleType] (snd (BottomType_new ''never'' cyclicGraph))
   = \<lparr>nodes = [integerType, BottomType ''never'', doubleType],
      edges = [SubTypeEdge integerType (BottomType ''never''),
               SubTypeEdge (BottomType ''never'') integerType,
               SubTypeEdge (BottomType ''never'') doubleType],
      listeners = [BottomType ''never'']\<rparr>"
  by code_simp

lemma cyclicGraph_refuses_with_check:
  "markAsSubType (BottomType ''never'') integerType True cyclicGraph
   = (Some (SubTypeProblem integerType (BottomType ''never'') []), cyclicGraph)"
  by code_simp

theorem bottom_is_subtype_of_every_type_witness:
  "integerType \<in> set (nodes (addNodes [BottomType ''never'', doubleType] (snd (BottomType_new ''never'' cyclicGraph)))) \<and>
   doubleType \<in> set (nodes (addNodes [BottomType ''never'', doubleType] (snd (BottomType_new ''never'' cyclicGraph)))) \<and>
   integerType \<noteq> BottomType ''never'' \<and> doubleType \<noteq> BottomType ''never'' \<and>
   SubTypeEdge (BottomType ''never'') (BottomType ''never'') \<notin> set (edges cyclicGraph) \<and>
   SubTypeEdge (BottomType ''never'') integerType
     \<in> set (edges (addNodes [BottomType ''never'', doubleType] (snd (BottomType_new ''never'' cyclicGraph)))) \<and>
   SubTypeEdge (BottomType ''never'') doubleType
     \<in> set (edges (addNodes [BottomType ''never'', doubleType] (snd (BottomType_new ''never'' cyclicGraph)))) \<and>
   SubTypeEdge (BottomType ''never'') (BottomType ''never'')
     \<notin> set (edges (addNodes [BottomType ''never'', doubleType] (snd (BottomType_new ''never'' cyclicGraph))))"
proof -
  have n: "integerType \<in> set (nodes (addNodes [BottomType ''never'', doubleType] (snd (BottomType_new ''never'' cyclicGraph))))"
    "doubleType \<in> set (nodes (addNodes [BottomType ''never'', doubleType] (snd (BottomType_new ''never'' cyclicGraph))))"
    by (simp_all add: cyclicGraph_after_bottom)
  have d: "integerType \<noteq> BottomType ''never''" "doubleType \<noteq> BottomType ''never''"
    by (simp_all add: integerType_def doubleType_def)
  have c: "SubTypeEdge (BottomType ''never'') (BottomType ''never'') \<notin> set (edges cyclicGraph)"
    by (simp add: cyclicGraph_def integerType_def)
  from bottom_is_subtype_of_every_type [of "''never''" cyclicGraph "[BottomType ''never'', doubleType]"]
  show ?thesis using n d c by blast
qed

subsection \<open>Idempotent creation of the bottom type\<close>

lemma find_append_new:
  "find P xs = None \<Longrightarrow> P x \<Longrightarrow> find P (xs @ [x]) = Some x"
  by (induction xs) (auto split: if_splits)

lemma getType_append_new:
  "getType g (getIdentifier t) = None \<Longrightarrow>
   find (\<lambda>x. getIdentifier x = getIdentifier t) (nodes g @ [t]) = Some t"
  by (simp add: getType_def find_append_new)

lemma addNode_bottom_registered:
  assumes "addNode (BottomType name) g = (Inr added, g')"
  shows "getType g' name = Some (BottomType name)"
proof (cases "getType g name")
  case None
  then have "nodes g' = nodes g @ [BottomType name]"
    using assms addNode_fields(3) [of "BottomType name" g] by simp
  then show ?thesis
    using None getType_append_new [of g "BottomType name"] by (simp add: getType_def)
next
  case (Some existing)
  then have k: "sameKind existing (BottomType name)" and g: "g' = g"
    using assms by (auto simp: addNode_def split: if_splits)
  from Some have "getIdentifier existing = name"
    by (auto simp: getType_def dest: find_Some_iff [THEN iffD1])
  with k have "existing = BottomType name"
    by (cases existing) auto
  then show ?thesis using Some g by simp
qed

text \<open>
  Claim C9. Once the kind holds an instance, \<open>createBottomType\<close> returns that
  instance and leaves the state as it is: the graph gets no second node and the
  inference rules of the later call are not registered. \<open>getOrCreateBottomType\<close> does
  the same when the type that the graph holds under the kind's identifier, if any, is
  that instance; this is the state that the first, successful \<open>createBottomType\<close>
  leaves.
\<close>

theorem createBottomType_idempotent:
  "(instance' this = Some b \<longrightarrow> createBottomType rules this = (Inr b, this)) \<and>
   (instance' this = Some b \<and> (getBottomType this = None \<or> getBottomType this = Some b) \<longrightarrow>
      getOrCreateBottomType rules this = (Inr b, this)) \<and>
   (instance' this = None \<and> createBottomType rules0 this = (Inr b, this') \<longrightarrow>
      instance' this' = Some b \<and> getBottomType this' = Some b)"
proof (intro conjI impI)
  assume "instance' this = Some b"
  then show "createBottomType rules this = (Inr b, this)"
    by (simp add: createBottomType_def)
next
  assume "instance' this = Some b \<and> (getBottomType this = None \<or> getBottomType this = Some b)"
  then show "getOrCreateBottomType rules this = (Inr b, this)"
    by (auto simp: getOrCreateBottomType_def createBottomType_def)
next
  assume h: "instance' this = None \<and> createBottomType rules0 this = (Inr b, this')"
  then show "instance' this' = Some b"
    by (auto simp: createBottomType_def Let_def addInferenceRule_def split: prod.splits sum.splits if_splits)
next
  assume h: "instance' this = None \<and> createBottomType rules0 this = (Inr b, this')"
  then obtain added g where a: "addNode (BottomType (optionsName this)) (graph this) = (Inr added, g)"
    and g: "graph this' = g" and n: "optionsName this' = optionsName this" and b: "b = BottomType (optionsName this)"
    by (auto simp: createBottomType_def Let_def addInferenceRule_def BottomKind_calculateIdentifier_def
          split: prod.splits sum.splits if_splits)
  from addNode_bottom_registered [OF a] show "getBottomType this' = Some b"
    by (simp add: getBottomType_def BottomKind_calculateIdentifier_def g n b)
qed


lemma newBottomKind_created:
  "createBottomType None newBottomKind =
     (Inr (BottomType ''never''),
      \<lparr>optionsName = ''never'', instance' = Some (BottomType ''never''),
       graph = \<lparr>nodes = [BottomType ''never''], edges = [], listeners = []\<rparr>, inference = []\<rparr>)"
  by (simp add: createBottomType_def newBottomKind_def emptyGraph_def addNode_def getType_def
        BottomKind_calculateIdentifier_def Let_def)

theorem createBottomType_idempotent_witness:
  "instance' newBottomKind = None \<and>
   createBottomType None newBottomKind =
     (Inr (BottomType ''never''),
      \<lparr>optionsName = ''never'', instance' = Some (BottomType ''never''),
       graph = \<lparr>nodes = [BottomType ''never''], edges = [], listeners = []\<rparr>, inference = []\<rparr>) \<and>
   getBottomType \<lparr>optionsName = ''never'', instance' = Some (BottomType ''never''),
       graph = \<lparr>nodes = [BottomType ''never''], edges = [], listeners = []\<rparr>,
       inference = ([] :: TestExpressionNode TypeInferenceRule list)\<rparr> = Some (BottomType ''never'') \<and>
   createBottomType (Some (One (\<lambda>node. Inr (isStringLiteral node))))
     \<lparr>optionsName = ''never'', instance' = Some (BottomType ''never''),
       graph = \<lparr>nodes = [BottomType ''never''], edges = [], listeners = []\<rparr>, inference = []\<rparr>
   = (Inr (BottomType ''never''),
      \<lparr>optionsName = ''never'', instance' = Some (BottomType ''never''),
       graph = \<lparr>nodes = [BottomType ''never''], edges = [], listeners = []\<rparr>, inference = []\<rparr>) \<and>
   getOrCreateBottomType (Some (One (\<lambda>node. Inr (isStringLiteral node))))
     \<lparr>optionsName = ''never'', instance' = Some (BottomType ''never''),
       graph = \<lparr>nodes = [BottomType ''never''], edges = [], listeners = []\<rparr>, inference = []\<rparr>
   = (Inr (BottomType ''never''),
      \<lparr>optionsName = ''never'', instance' = Some (BottomType ''never''),
       graph = \<lparr>nodes = [BottomType ''never''], edges = [], listeners = []\<rparr>, inference = []\<rparr>)"
proof -
  have i: "instance' newBottomKind = None"
    by (simp add: newBottomKind_def)
  from createBottomType_idempotent
    [of "\<lparr>optionsName = ''never'', instance' = Some (BottomType ''never''),
       graph = \<lparr>nodes = [BottomType ''never''], edges = [], listeners = []\<rparr>,
       inference = ([] :: TestExpressionNode TypeInferenceRule list)\<rparr>"
      "BottomType ''never''" "Some (One (\<lambda>node. Inr (isStringLiteral node)))"]
    createBottomType_idempotent
    [of newBottomKind "BottomType ''never''" _ None
      "\<lparr>optionsName = ''never'', instance' = Some (BottomType ''never''),
       graph = \<lparr>nodes = [BottomType ''never''], edges = [], listeners = []\<rparr>,
       inference = ([] :: TestExpressionNode TypeInferenceRule list)\<rparr>"]
  show ?thesis using i newBottomKind_created by simp
qed

subsection \<open>Rules in registration order\<close>

lemma tryRules_first_answer:
  "\<forall>r \<in> set earlier. r node = Inr InferenceRuleNotApplicable \<Longrightarrow> rule node = Inr (Inferred t) \<Longrightarrow>
   tryRules (earlier @ rule # later) node = Inr (Inferred t)"
  by (induction earlier) auto

lemma bottomInferenceRule_first_match:
  "\<forall>r \<in> set earlier. r node = Inr False \<Longrightarrow> rule node = Inr True \<Longrightarrow>
   bottomInferenceRule (earlier @ rule # later) bottomType node = Inr (Inferred bottomType)"
  by (induction earlier) auto

text \<open>
  Claim C8. Rules are registered one after the other. When the rules registered before
  a rule do not apply to a node and the rule returns a type, the dispatcher returns
  that type, whatever the rules registered later would do: answer with another type or
  raise. The loop of the rule that \<open>createBottomType\<close> registers does the same with
  the predicates of the type details: the first predicate that holds decides, and the
  predicates after it play no part.
\<close>

theorem inference_rules_in_registration_order:
  "inference (addInferenceRule r2 (addInferenceRule r1 s)) = inference s @ [r1, r2] \<and>
   ((\<forall>r \<in> set earlier. r node = Inr InferenceRuleNotApplicable) \<and> rule node = Inr (Inferred t) \<and>
       inference s = earlier @ rule # later \<longrightarrow>
      inferType s node = Inr (Inferred t)) \<and>
   ((\<forall>r \<in> set earlierB. r node = Inr False) \<and> ruleB node = Inr True \<longrightarrow>
      bottomInferenceRule (earlierB @ ruleB # laterB) bottomType node = Inr (Inferred bottomType))"
proof (intro conjI impI)
  show "inference (addInferenceRule r2 (addInferenceRule r1 s)) = inference s @ [r1, r2]"
    by (simp add: addInferenceRule_def)
next
  assume h: "(\<forall>r \<in> set earlier. r node = Inr InferenceRuleNotApplicable) \<and> rule node = Inr (Inferred t) \<and>
       inference s = earlier @ rule # later"
  then have "tryRules (earlier @ rule # later) node = Inr (Inferred t)"
    using tryRules_first_answer [of earlier node rule t later] by blast
  with h show "inferType s node = Inr (Inferred t)"
    by (simp only: inferType_def)
next
  assume "(\<forall>r \<in> set earlierB. r node = Inr False) \<and> ruleB node = Inr True"
  then show "bottomInferenceRule (earlierB @ ruleB # laterB) bottomType node = Inr (Inferred bottomType)"
    using bottomInferenceRule_first_match [of earlierB node ruleB laterB bottomType] by blast
qed

theorem inference_rules_in_registration_order_witness:
  "bottomInferenceRule [\<lambda>node. Inr (isStringLiteral node)] (BottomType ''never'') (IntegerLiteral 2)
     = Inr InferenceRuleNotApplicable \<and>
   \<not> isStringLiteral (IntegerLiteral 2) \<and> isIntegerLiteral (IntegerLiteral 2) \<and>
   inferType
     (newBottomKind\<lparr>inference :=
        [bottomInferenceRule [\<lambda>node. Inr (isStringLiteral node)] (BottomType ''never''),
         \<lambda>node. Inr (Inferred integerType),
         \<lambda>node. Inr (Inferred doubleType),
         \<lambda>node. Inl (Error ''later rule'')]\<rparr>)
     (IntegerLiteral 2) = Inr (Inferred integerType) \<and>
   bottomInferenceRule
     [\<lambda>node. Inr (isStringLiteral node), \<lambda>node. Inr (isIntegerLiteral node),
      \<lambda>node. Inl (Error ''later rule'')]
     (BottomType ''never'') (IntegerLiteral 2) = Inr (Inferred (BottomType ''never''))"
proof -
  have a: "\<forall>r \<in> set [bottomInferenceRule [\<lambda>node. Inr (isStringLiteral node)] (BottomType ''never'')].
       r (IntegerLiteral 2) = Inr InferenceRuleNotApplicable"
    and b: "\<forall>r \<in> set [\<lambda>node. Inr (isStringLiteral node)]. r (IntegerLiteral 2) = Inr False"
    by simp_all
  have c: "inference (newBottomKind\<lparr>inference :=
        [bottomInferenceRule [\<lambda>node. Inr (isStringLiteral node)] (BottomType ''never''),
         \<lambda>node. Inr (Inferred integerType),
         \<lambda>node. Inr (Inferred doubleType),
         \<lambda>node. Inl (Error ''later rule'')]\<rparr>)
      = [bottomInferenceRule [\<lambda>node. Inr (isStringLiteral node)] (BottomType ''never'')]
        @ (\<lambda>node. Inr (Inferred integerType))
        # [\<lambda>node. Inr (Inferred doubleType), \<lambda>node. Inl (Error ''later rule'')]"
    by simp
  have d: "[\<lambda>node. Inr (isStringLiteral node)] @ (\<lambda>node. Inr (isIntegerLiteral node)) # [\<lambda>node. Inl (Error ''later rule'')]
      = [\<lambda>node. Inr (isStringLiteral node), \<lambda>node. Inr (isIntegerLiteral node),
         \<lambda>node. Inl (Error ''later rule'') :: error + bool]"
    by simp
  have e: "(\<lambda>node. Inr (Inferred integerType)) (IntegerLiteral 2) = (Inr (Inferred integerType) :: error + InferenceRuleResult)"
    "(\<lambda>node. Inr (isIntegerLiteral node)) (IntegerLiteral 2) = (Inr True :: error + bool)"
    by simp_all
  note th = inference_rules_in_registration_order
    [where earlier = "[bottomInferenceRule [\<lambda>node. Inr (isStringLiteral node)] (BottomType ''never'')]"
       and node = "IntegerLiteral 2" and rule = "\<lambda>node. Inr (Inferred integerType)" and t = integerType
       and s = "newBottomKind\<lparr>inference :=
        [bottomInferenceRule [\<lambda>node. Inr (isStringLiteral node)] (BottomType ''never''),
         \<lambda>node. Inr (Inferred integerType),
         \<lambda>node. Inr (Inferred doubleType),
         \<lambda>node. Inl (Error ''later rule'')]\<rparr>"
       and later = "[\<lambda>node. Inr (Inferred doubleType), \<lambda>node. Inl (Error ''later rule'')]"
       and earlierB = "[\<lambda>node. Inr (isStringLiteral node)]"
       and ruleB = "\<lambda>node. Inr (isIntegerLiteral node)"
       and laterB = "[\<lambda>node. Inl (Error ''later rule'')]" and bottomType = "BottomType ''never''"]
  have f: "inferType
     (newBottomKind\<lparr>inference :=
        [bottomInferenceRule [\<lambda>node. Inr (isStringLiteral node)] (BottomType ''never''),
         \<lambda>node. Inr (Inferred integerType),
         \<lambda>node. Inr (Inferred doubleType),
         \<lambda>node. Inl (Error ''later rule'')]\<rparr>)
     (IntegerLiteral 2) = Inr (Inferred integerType)"
    using th a c e(1) by blast
  have g: "bottomInferenceRule
     ([\<lambda>node. Inr (isStringLiteral node)] @ (\<lambda>node. Inr (isIntegerLiteral node)) # [\<lambda>node. Inl (Error ''later rule'')])
     (BottomType ''never'') (IntegerLiteral 2) = Inr (Inferred (BottomType ''never''))"
    using th b e(2) by blast
  have h: "bottomInferenceRule [\<lambda>node. Inr (isStringLiteral node)] (BottomType ''never'') (IntegerLiteral 2)
     = Inr InferenceRuleNotApplicable"
    "\<not> isStringLiteral (IntegerLiteral 2)" "isIntegerLiteral (IntegerLiteral 2)"
    by simp_all
  from g d have g': "bottomInferenceRule
     [\<lambda>node. Inr (isStringLiteral node), \<lambda>node. Inr (isIntegerLiteral node),
      \<lambda>node. Inl (Error ''later rule'')]
     (BottomType ''never'') (IntegerLiteral 2) = Inr (Inferred (BottomType ''never''))"
    by (simp only:)
  show ?thesis using h f g' by (intro conjI)
qed

subsection \<open>Assignability\<close>

text \<open>
  Claim C3. A type is assignable to itself with the empty path. With the relations of
  the test, boolean is assignable to string by the path conversion, subtype,
  conversion, whose edges are connected end to end from boolean to string; string is
  not assignable to boolean.
\<close>

theorem assignability_paths_of_the_test:
  "getAssignabilityResult g t t = Inr [] \<and>
   getAssignabilityResult testGraph booleanType stringType =
     Inr [ConversionEdge booleanType integerType IMPLICIT_EXPLICIT,
          SubTypeEdge integerType doubleType,
          ConversionEdge doubleType stringType IMPLICIT_EXPLICIT] \<and>
   isPath booleanType stringType
     [ConversionEdge booleanType integerType IMPLICIT_EXPLICIT,
      SubTypeEdge integerType doubleType,
      ConversionEdge doubleType stringType IMPLICIT_EXPLICIT] \<and>
   getAssignabilityResult testGraph stringType booleanType =
     Inl (AssignabilityProblem stringType booleanType [])"
proof (intro conjI)
  show "getAssignabilityResult g t t = Inr []"
    by (simp add: getAssignabilityResult_def)
  show "getAssignabilityResult testGraph booleanType stringType =
     Inr [ConversionEdge booleanType integerType IMPLICIT_EXPLICIT,
          SubTypeEdge integerType doubleType,
          ConversionEdge doubleType stringType IMPLICIT_EXPLICIT]"
    by code_simp
  show "isPath booleanType stringType
     [ConversionEdge booleanType integerType IMPLICIT_EXPLICIT,
      SubTypeEdge integerType doubleType,
      ConversionEdge doubleType stringType IMPLICIT_EXPLICIT]"
    by simp
  show "getAssignabilityResult testGraph stringType booleanType =
     Inl (AssignabilityProblem stringType booleanType [])"
    by code_simp
qed

subsection \<open>Fixed-parameters types: equality, identifier and creation\<close>

lemma analyzeTypeEqualityProblems_empty_iff:
  "analyzeTypeEqualityProblems typir (FixedParameterType k i ps) (FixedParameterType k' i' ps') = [] \<longleftrightarrow>
     baseName k = baseName k' \<and> list_all2 (\<lambda>s t. getTypeEqualityProblem typir s t = None) ps ps'"
  by (auto simp: checkValueForConflict_def checkTypes_empty_iff Let_def)

lemma analyzeTypeEqualityProblems_base_name:
  "baseName k \<noteq> baseName k' \<Longrightarrow>
   analyzeTypeEqualityProblems typir (FixedParameterType k i ps) (FixedParameterType k' i' ps')
     = [ValueConflict (baseName k) (baseName k') ''base type'']"
  by (simp add: checkValueForConflict_def)

lemma calculateIdentifier_printed:
  "calculateIdentifier typir k (Many ps)
     = baseName k @ ''<'' @ join '', '' (map (printType typir) ps) @ ''>''"
  by (simp add: calculateIdentifier_def printSignature_def)

text \<open>
  The constructor of \<open>FixedParameterType\<close> raises for every kind that the constructor of
  the kind accepts: either the assertion on the number of type values fails, or the
  first \<open>push\<close> meets the field without a value.
\<close>

lemma FixedParameterKind_new_parameters:
  "FixedParameterKind_new name options parameterNames = Inr kind \<Longrightarrow> parameters kind \<noteq> []"
  by (auto simp: FixedParameterKind_new_def Let_def split: if_splits)

lemma FixedParameterType_new_raises:
  "parameters kind \<noteq> [] \<Longrightarrow>
   FixedParameterType_new kind identifier typeValues
     = Inl (if length (parameters kind) \<noteq> length typeValues then AssertionError else TypeError)"
  by (cases typeValues) (auto simp: FixedParameterType_new_def)

lemma createFixedParameterType_raises:
  assumes "parameters this \<noteq> []"
  shows "\<exists>e. createFixedParameterType typir this parameterTypes g = (Inl e, g)"
proof -
  have "FixedParameterType_new this (calculateIdentifier typir this parameterTypes)
          (toArray (Some parameterTypes))
        = Inl (if length (parameters this) \<noteq> length (toArray (Some parameterTypes))
               then AssertionError else TypeError)"
    using assms by (rule FixedParameterType_new_raises)
  then show ?thesis
    by (simp add: createFixedParameterType_def)
qed

text \<open>
  Claim C6. In \<open>part_001\<close> no fixed-parameters type is instantiated. The kind \<open>List<T>\<close>
  is what the constructor of the kind returns. For the parameter type integer the
  identifier is \<open>List<integer>\<close>, the constructor of \<open>FixedParameterType\<close> raises a
  \<open>TypeError\<close> at its first \<open>push\<close>, and \<open>createFixedParameterType\<close> raises it before
  \<open>addNode\<close>: the graph is as before and holds no node \<open>List<integer>\<close>. A second
  instantiation starts from the same graph and raises again, so there is no node that
  two instantiations share.
\<close>

theorem fixed_parameter_type_creation_raises:
  "FixedParameterKind_new ''List'' (Some EQUAL_TYPE) [''T''] = Inr (listKind EQUAL_TYPE) \<and>
   calculateIdentifier (typirServices testGraph) (listKind EQUAL_TYPE) (One integerType)
     = ''List<integer>'' \<and>
   FixedParameterType_new (listKind EQUAL_TYPE) ''List<integer>'' [integerType] = Inl TypeError \<and>
   createFixedParameterType (typirServices testGraph) (listKind EQUAL_TYPE) (One integerType) testGraph
     = (Inl TypeError, testGraph) \<and>
   createFixedParameterType (typirServices testGraph) (listKind EQUAL_TYPE) (One integerType)
       (snd (createFixedParameterType (typirServices testGraph) (listKind EQUAL_TYPE)
               (One integerType) testGraph))
     = (Inl TypeError, testGraph) \<and>
   getType testGraph ''List<integer>'' = None"
proof (intro conjI)
  show "FixedParameterKind_new ''List'' (Some EQUAL_TYPE) [''T''] = Inr (listKind EQUAL_TYPE)"
    by (simp add: FixedParameterKind_new_def listKind_def)
  show "calculateIdentifier (typirServices testGraph) (listKind EQUAL_TYPE) (One integerType)
     = ''List<integer>''"
    by (simp add: calculateIdentifier_def printSignature_def typirServices_def listKind_def
        integerType_def)
  show "FixedParameterType_new (listKind EQUAL_TYPE) ''List<integer>'' [integerType] = Inl TypeError"
    by (simp add: FixedParameterType_new_def listKind_def)
  show c: "createFixedParameterType (typirServices testGraph) (listKind EQUAL_TYPE) (One integerType)
       testGraph = (Inl TypeError, testGraph)"
    by (simp add: createFixedParameterType_def FixedParameterType_new_def listKind_def)
  show "createFixedParameterType (typirServices testGraph) (listKind EQUAL_TYPE) (One integerType)
       (snd (createFixedParameterType (typirServices testGraph) (listKind EQUAL_TYPE)
               (One integerType) testGraph))
     = (Inl TypeError, testGraph)"
    by (simp add: c)
  show "getType testGraph ''List<integer>'' = None"
    by code_simp
qed

subsection \<open>Incompatible kinds\<close>

text \<open>
  The kind-level analysis of \<open>fixed-parameters-kind.ts\<close> raises when the super type is
  a primitive type.
\<close>

theorem kind_level_isSubType_raises:
  "FixedParameterKind_isSubType (createTypeComparisonStrategy (typirServices testGraph))
     (listKind EQUAL_TYPE) integerType
     (FixedParameterType (listKind EQUAL_TYPE) ''List<integer>'' [integerType])
   = Inl (Error [])"
  by (simp add: integerType_def)

lemma FixedParameterKind_isSubType_not_fixed:
  "\<not> isFixedParameterType superType \<or> \<not> isFixedParameterType subType \<Longrightarrow>
   FixedParameterKind_isSubType strategy this superType subType = Inl (Error [])"
  by (cases superType; cases subType) auto

text \<open>
  Claim C2, amended. The analyses of a fixed-parameters type return one
  \<open>SubTypeProblem\<close> that holds a kind conflict when the other type is not a
  fixed-parameters type, and so does the bottom type asked whether it is a super type
  of a type that is not a bottom type; the analyses are total, so nothing is raised.
  The bottom type is a sub type of every type, of whatever kind, without a problem. The
  kind-level \<open>isSubType\<close> raises when one of the two types is not a fixed-parameters
  type.
\<close>

theorem fixed_parameter_type_kind_conflict_is_a_value:
  "(\<not> isFixedParameterType otherType \<longrightarrow>
      analyzeIsSubTypeOf typir (FixedParameterType k i ps) otherType
        = [SubTypeProblem otherType (FixedParameterType k i ps)
             [KindConflict (FixedParameterType k i ps) otherType]] \<and>
      analyzeIsSuperTypeOf typir (FixedParameterType k i ps) otherType
        = [SubTypeProblem (FixedParameterType k i ps) otherType
             [KindConflict otherType (FixedParameterType k i ps)]]) \<and>
   (\<not> isBottomType otherType \<longrightarrow>
      analyzeIsSuperTypeOf typir (BottomType b) otherType
        = [SubTypeProblem (BottomType b) otherType [KindConflict (BottomType b) otherType]] \<and>
      analyzeIsSubTypeOf typir (BottomType b) otherType = []) \<and>
   (\<not> isFixedParameterType superType \<or> \<not> isFixedParameterType subType \<longrightarrow>
      FixedParameterKind_isSubType strategy this superType subType = Inl (Error []))"
  by (simp add: createKindConflict_def FixedParameterKind_isSubType_not_fixed)

theorem fixed_parameter_type_kind_conflict_is_a_value_witness:
  "\<not> isFixedParameterType integerType \<and>
   analyzeIsSubTypeOf (typirServices testGraph)
       (FixedParameterType (listKind EQUAL_TYPE) ''List<integer>'' [integerType]) integerType
     = [SubTypeProblem integerType (FixedParameterType (listKind EQUAL_TYPE) ''List<integer>'' [integerType])
          [KindConflict (FixedParameterType (listKind EQUAL_TYPE) ''List<integer>'' [integerType]) integerType]] \<and>
   analyzeIsSuperTypeOf (typirServices testGraph)
       (FixedParameterType (listKind EQUAL_TYPE) ''List<integer>'' [integerType]) integerType
     = [SubTypeProblem (FixedParameterType (listKind EQUAL_TYPE) ''List<integer>'' [integerType]) integerType
          [KindConflict integerType (FixedParameterType (listKind EQUAL_TYPE) ''List<integer>'' [integerType])]] \<and>
   \<not> isBottomType integerType \<and>
   analyzeIsSuperTypeOf (typirServices testGraph) (BottomType ''never'') integerType
     = [SubTypeProblem (BottomType ''never'') integerType [KindConflict (BottomType ''never'') integerType]] \<and>
   analyzeIsSubTypeOf (typirServices testGraph) (BottomType ''never'') integerType = [] \<and>
   FixedParameterKind_isSubType (createTypeComparisonStrategy (typirServices testGraph))
       (listKind SUB_TYPE) (FixedParameterType (listKind SUB_TYPE) ''List<integer>'' [integerType]) integerType
     = Inl (Error [])"
proof -
  have a: "\<not> isFixedParameterType integerType" "\<not> isBottomType integerType"
    by (simp_all add: integerType_def)
  from fixed_parameter_type_kind_conflict_is_a_value
    [where otherType = integerType and typir = "typirServices testGraph"
       and k = "listKind EQUAL_TYPE" and i = "''List<integer>''" and ps = "[integerType]"
       and superType = "FixedParameterType (listKind SUB_TYPE) ''List<integer>'' [integerType]"
       and subType = integerType
       and strategy = "createTypeComparisonStrategy (typirServices testGraph)"
       and this = "listKind SUB_TYPE" and b = "''never''"]
  show ?thesis using a by blast
qed

subsection \<open>The initializer of function types: the overload group\<close>

lemma producedType_mapNameTypes:
  "producedType f s = (ready, s1) \<Longrightarrow> mapNameTypes s1 = mapNameTypes s"
  by (auto simp: producedType_def split: option.splits)

lemma deregister_group:
  "mapNameTypes s name = Some g \<Longrightarrow>
   \<exists>g1. mapNameTypes (deregisterInferenceRules rules name bound s) name = Some g1 \<and>
        overloadedFunctions g1 = overloadedFunctions g \<and> sameOutputType g1 = sameOutputType g"
  by (auto simp: deregisterInferenceRules_def Let_def split: option.splits)

lemma register_group:
  "mapNameTypes s name = Some g \<Longrightarrow> registerInferenceRules rules name bound s = Inr s' \<Longrightarrow>
   \<exists>g1. mapNameTypes s' name = Some g1 \<and>
        overloadedFunctions g1 = overloadedFunctions g \<and> sameOutputType g1 = sameOutputType g"
  by (auto simp: registerInferenceRules_def Let_def split: option.splits)

lemma onSwitchedToIdentifiable_group:
  assumes "onSwitchedToIdentifiable eq this f s = Inr (this', s')"
    and "mapNameTypes s (functionName (typeDetails this)) = Some g"
  shows "\<exists>g1. mapNameTypes s' (functionName (typeDetails this)) =
            Some (rememberFunction eq (fst (producedType f s)) (inferenceRuleForCalls (typeDetails this)) g1) \<and>
          overloadedFunctions g1 = overloadedFunctions g \<and> sameOutputType g1 = sameOutputType g"
proof -
  let ?name = "functionName (typeDetails this)"
  obtain ready s1 where p: "producedType f s = (ready, s1)"
    by (cases "producedType f s")
  define s2 where "s2 = deregisterInferenceRules (inferenceRules this) ?name None s1"
  define this1 where "this1 = (if ready \<noteq> f
      then this\<lparr>inferenceRules := createInferenceRules (typeDetails this) ready\<rparr> else this)"
  from assms(1) p obtain s3 where r: "registerInferenceRules (inferenceRules this1) ?name (Some ready) s2 = Inr s3"
    by (auto simp: onSwitchedToIdentifiable_def Let_def s2_def this1_def split: if_splits sum.splits)
  from assms(2) producedType_mapNameTypes [OF p] have "mapNameTypes s1 ?name = Some g"
    by simp
  from deregister_group [OF this, of "inferenceRules this" None]
  obtain g2 where g2: "mapNameTypes s2 ?name = Some g2"
      "overloadedFunctions g2 = overloadedFunctions g" "sameOutputType g2 = sameOutputType g"
    by (auto simp: s2_def)
  from register_group [OF g2(1) r]
  obtain g3 where g3: "mapNameTypes s3 ?name = Some g3"
      "overloadedFunctions g3 = overloadedFunctions g2" "sameOutputType g3 = sameOutputType g2"
    by auto
  from assms(1) p r g3(1)
  have "s' = s3\<lparr>mapNameTypes := (mapNameTypes s3)(?name \<mapsto>
            rememberFunction eq ready (inferenceRuleForCalls (typeDetails this)) g3)\<rparr>"
    by (auto simp: onSwitchedToIdentifiable_def Let_def s2_def this1_def split: if_splits)
  then show ?thesis using g2 g3 p by auto
qed

lemma outputsPairwiseEqual_snoc:
  assumes "\<forall>x. eq x x" "\<forall>x y. eq x y \<longrightarrow> eq y x" "\<forall>x y z. eq x y \<and> eq y z \<longrightarrow> eq x z"
    and "outs \<noteq> []"
  shows "outputsPairwiseEqual eq (outs @ [out]) \<longleftrightarrow>
           outputsPairwiseEqual eq outs \<and> bothEqual eq (hd outs) out"
proof
  assume l: "outputsPairwiseEqual eq (outs @ [out])"
  then have "outputsPairwiseEqual eq outs"
    by (auto simp: outputsPairwiseEqual_def list_all_iff)
  moreover from assms(4) have "hd outs \<in> set outs" by simp
  with l have "bothEqual eq (hd outs) out"
    by (auto simp: outputsPairwiseEqual_def list_all_iff)
  ultimately show "outputsPairwiseEqual eq outs \<and> bothEqual eq (hd outs) out" by simp
next
  assume r: "outputsPairwiseEqual eq outs \<and> bothEqual eq (hd outs) out"
  from assms(4) have h: "hd outs \<in> set outs" by simp
  from r obtain t u where t: "hd outs = Some t" and u: "out = Some u" and tu: "eq t u"
    by (cases "hd outs"; cases out) auto
  have all: "\<And>a. a \<in> set outs \<Longrightarrow> \<exists>x. a = Some x \<and> eq x t \<and> eq t x"
  proof -
    fix a assume "a \<in> set outs"
    with r h have "bothEqual eq a (hd outs)" "bothEqual eq (hd outs) a"
      by (auto simp: outputsPairwiseEqual_def list_all_iff)
    then show "\<exists>x. a = Some x \<and> eq x t \<and> eq t x"
      using t by (cases a) auto
  qed
  have "\<And>a. a \<in> set outs \<Longrightarrow> bothEqual eq a out \<and> bothEqual eq out a"
  proof -
    fix a assume "a \<in> set outs"
    from all [OF this] obtain x where "a = Some x" "eq x t" "eq t x" by blast
    then show "bothEqual eq a out \<and> bothEqual eq out a"
      using u tu assms(2,3) by (metis bothEqual.simps(1))
  qed
  moreover have "bothEqual eq out out" using u assms(1) by simp
  ultimately show "outputsPairwiseEqual eq (outs @ [out])"
    using r by (auto simp: outputsPairwiseEqual_def list_all_iff)
qed

lemma rememberFunction_invariant:
  assumes "\<forall>x. eq x x" "\<forall>x y. eq x y \<longrightarrow> eq y x" "\<forall>x y z. eq x y \<and> eq y z \<longrightarrow> eq x z"
    and "sameOutputTypeInvariant eq g"
  shows "sameOutputTypeInvariant eq (rememberFunction eq ready rule g)"
proof (cases "overloadedFunctions g = []")
  case True
  then show ?thesis
    using assms(1)
    by (cases "getOutputTypeForFunctionCalls ready")
       (auto simp: sameOutputTypeInvariant_def rememberFunction_def registeredOutputs_def
          outputsPairwiseEqual_def Let_def)
next
  case False
  let ?outs = "registeredOutputs g"
  let ?out = "getOutputTypeForFunctionCalls ready"
  from False have ne: "?outs \<noteq> []" by (simp add: registeredOutputs_def)
  have outs': "registeredOutputs (rememberFunction eq ready rule g) = ?outs @ [?out]"
    by (auto simp: rememberFunction_def registeredOutputs_def Let_def split: option.splits)
  have hd': "hd (?outs @ [?out]) = hd ?outs" using ne by simp
  from False assms(4) have inv: "sameOutputType g = (if outputsPairwiseEqual eq ?outs then hd ?outs else None)"
    by (simp add: sameOutputTypeInvariant_def)
  have same': "sameOutputType (rememberFunction eq ready rule g) =
      (if bothEqual eq (sameOutputType g) ?out then sameOutputType g else None)"
    using False
    by (cases "sameOutputType g"; cases ?out)
       (auto simp: rememberFunction_def Let_def)
  have pw: "outputsPairwiseEqual eq ?outs \<Longrightarrow> \<exists>t. hd ?outs = Some t"
  proof -
    assume "outputsPairwiseEqual eq ?outs"
    moreover have "hd ?outs \<in> set ?outs" using ne by simp
    ultimately have "bothEqual eq (hd ?outs) (hd ?outs)"
      by (auto simp: outputsPairwiseEqual_def list_all_iff)
    then show ?thesis by (cases "hd ?outs") auto
  qed
  show ?thesis
    unfolding sameOutputTypeInvariant_def outs' hd' same' inv
      outputsPairwiseEqual_snoc [OF assms(1,2,3) ne]
    using pw by auto
qed

subsection \<open>The initializer of function types: the registries\<close>

lemma remove1_registered_once:
  "count_list xs x \<le> 1 \<Longrightarrow> x \<notin> set (remove1 x xs)"
  by (induction xs) (auto simp: count_list_0_iff)

lemma deregister_fields:
  "Inference (deregisterInferenceRules rules name b s) =
     (case inferenceForDeclaration rules of None \<Rightarrow> Inference s | Some r \<Rightarrow> remove1 (r, b) (Inference s))"
  "validationCollector (deregisterInferenceRules rules name b s) =
     (case validationRuleForCall rules of None \<Rightarrow> validationCollector s
      | Some r \<Rightarrow> remove1 r (validationCollector s))"
  "Graph (deregisterInferenceRules rules name b s) = Graph s"
  "mapNameTypes s name = Some g \<Longrightarrow>
   mapNameTypes (deregisterInferenceRules rules name b s) name =
     Some (g\<lparr>inference' := (case inferenceForCall rules of None \<Rightarrow> inference' g
                             | Some r \<Rightarrow> remove1 (r, b) (inference' g))\<rparr>)"
  by (auto simp: deregisterInferenceRules_def Let_def removeBoundRule_def removeValidationRule_def
        split: option.splits)

lemma register_fields:
  assumes "mapNameTypes s name = Some g"
  shows "\<exists>s'. registerInferenceRules rules name b s = Inr s' \<and>
      Inference s' = (case inferenceForDeclaration rules of None \<Rightarrow> Inference s
                      | Some r \<Rightarrow> Inference s @ [(r, b)]) \<and>
      validationCollector s' = (case validationRuleForCall rules of None \<Rightarrow> validationCollector s
                      | Some r \<Rightarrow> validationCollector s @ [r]) \<and>
      Graph s' = Graph s \<and>
      mapNameTypes s' name =
        Some (g\<lparr>inference' := (case inferenceForCall rules of None \<Rightarrow> inference' g
                                | Some r \<Rightarrow> inference' g @ [(r, b)])\<rparr>)"
  using assms
  by (auto simp: registerInferenceRules_def Let_def addBoundRule_def addValidationRule_def
        split: option.splits)

lemma producedType_fields:
  "producedType f s = (ready, s1) \<Longrightarrow>
     Inference s1 = Inference s \<and> validationCollector s1 = validationCollector s \<and>
     mapNameTypes s1 = mapNameTypes s \<and>
     (case getType (Graph s) (getIdentifier f) of
        Some e \<Rightarrow> ready = e \<and> Graph s1 = Graph s
      | None \<Rightarrow> ready = f \<and> nodes (Graph s1) = nodes (Graph s) @ [f])"
  by (auto simp: producedType_def addNode_fields split: option.splits)

lemma rememberFunction_fields:
  "inference' (rememberFunction eq ready rule g) = inference' g"
  "overloadedFunctions (rememberFunction eq ready rule g) = overloadedFunctions g @ [(ready, rule)]"
  by (auto simp: rememberFunction_def Let_def split: option.splits)

lemma onSwitchedToIdentifiable_result:
  assumes "isFunctionType f" and "mapNameTypes s (functionName (typeDetails this)) = Some g"
    and "producedType f s = (ready, s1)"
    and "this1 = (if ready \<noteq> f
      then this\<lparr>inferenceRules := createInferenceRules (typeDetails this) ready\<rparr> else this)"
  shows "\<exists>s' g'. onSwitchedToIdentifiable eq this f s = Inr (this1, s') \<and>
      Graph s' = Graph s1 \<and>
      mapNameTypes s' (functionName (typeDetails this)) = Some g' \<and>
      overloadedFunctions g' = overloadedFunctions g @ [(ready, inferenceRuleForCalls (typeDetails this))] \<and>
      inference' g' =
        (case inferenceForCall (inferenceRules this1) of
           None \<Rightarrow> (case inferenceForCall (inferenceRules this) of None \<Rightarrow> inference' g
                      | Some r \<Rightarrow> remove1 (r, None) (inference' g))
         | Some r1 \<Rightarrow> (case inferenceForCall (inferenceRules this) of None \<Rightarrow> inference' g
                      | Some r \<Rightarrow> remove1 (r, None) (inference' g)) @ [(r1, Some ready)]) \<and>
      Inference s' =
        (case inferenceForDeclaration (inferenceRules this1) of
           None \<Rightarrow> (case inferenceForDeclaration (inferenceRules this) of None \<Rightarrow> Inference s
                      | Some r \<Rightarrow> remove1 (r, None) (Inference s))
         | Some r1 \<Rightarrow> (case inferenceForDeclaration (inferenceRules this) of None \<Rightarrow> Inference s
                      | Some r \<Rightarrow> remove1 (r, None) (Inference s)) @ [(r1, Some ready)]) \<and>
      validationCollector s' =
        (case validationRuleForCall (inferenceRules this1) of
           None \<Rightarrow> (case validationRuleForCall (inferenceRules this) of None \<Rightarrow> validationCollector s
                      | Some r \<Rightarrow> remove1 r (validationCollector s))
         | Some r1 \<Rightarrow> (case validationRuleForCall (inferenceRules this) of None \<Rightarrow> validationCollector s
                      | Some r \<Rightarrow> remove1 r (validationCollector s)) @ [r1])"
proof -
  let ?name = "functionName (typeDetails this)"
  let ?s2 = "deregisterInferenceRules (inferenceRules this) ?name None s1"
  from producedType_fields [OF assms(3)]
  have p: "Inference s1 = Inference s" "validationCollector s1 = validationCollector s"
      "mapNameTypes s1 = mapNameTypes s" by auto
  with assms(2) have g1: "mapNameTypes s1 ?name = Some g" by simp
  note d = deregister_fields(1,2,3) [of "inferenceRules this" ?name None s1]
    deregister_fields(4) [OF g1, of "inferenceRules this" None]
  from register_fields [OF d(4), of "inferenceRules this1" "Some ready"]
  obtain s3 where r: "registerInferenceRules (inferenceRules this1) ?name (Some ready) ?s2 = Inr s3"
    and s3: "Inference s3 = (case inferenceForDeclaration (inferenceRules this1) of None \<Rightarrow> Inference ?s2
                      | Some r \<Rightarrow> Inference ?s2 @ [(r, Some ready)])"
      "validationCollector s3 = (case validationRuleForCall (inferenceRules this1) of None \<Rightarrow> validationCollector ?s2
                      | Some r \<Rightarrow> validationCollector ?s2 @ [r])"
      "Graph s3 = Graph ?s2"
      "mapNameTypes s3 ?name =
        Some (g\<lparr>inference' := (case inferenceForCall (inferenceRules this) of None \<Rightarrow> inference' g
                             | Some r \<Rightarrow> remove1 (r, None) (inference' g))\<rparr>
               \<lparr>inference' := (case inferenceForCall (inferenceRules this1) of
                   None \<Rightarrow> inference' (g\<lparr>inference' := (case inferenceForCall (inferenceRules this) of None \<Rightarrow> inference' g
                             | Some r \<Rightarrow> remove1 (r, None) (inference' g))\<rparr>)
                 | Some r \<Rightarrow> inference' (g\<lparr>inference' := (case inferenceForCall (inferenceRules this) of None \<Rightarrow> inference' g
                             | Some r \<Rightarrow> remove1 (r, None) (inference' g))\<rparr>) @ [(r, Some ready)])\<rparr>)"
    by blast
  let ?g3 = "g\<lparr>inference' := (case inferenceForCall (inferenceRules this) of None \<Rightarrow> inference' g
                             | Some r \<Rightarrow> remove1 (r, None) (inference' g))\<rparr>
               \<lparr>inference' := (case inferenceForCall (inferenceRules this1) of
                   None \<Rightarrow> inference' (g\<lparr>inference' := (case inferenceForCall (inferenceRules this) of None \<Rightarrow> inference' g
                             | Some r \<Rightarrow> remove1 (r, None) (inference' g))\<rparr>)
                 | Some r \<Rightarrow> inference' (g\<lparr>inference' := (case inferenceForCall (inferenceRules this) of None \<Rightarrow> inference' g
                             | Some r \<Rightarrow> remove1 (r, None) (inference' g))\<rparr>) @ [(r, Some ready)])\<rparr>"
  let ?s' = "s3\<lparr>mapNameTypes := (mapNameTypes s3)(?name \<mapsto>
              rememberFunction eq ready (inferenceRuleForCalls (typeDetails this)) ?g3)\<rparr>"
  have run: "onSwitchedToIdentifiable eq this f s = Inr (this1, ?s')"
    using assms(1,3,4) r s3(4)
    by (simp add: onSwitchedToIdentifiable_def Let_def)
  show ?thesis
    apply (rule exI [of _ ?s'])
    apply (rule exI [of _ "rememberFunction eq ready (inferenceRuleForCalls (typeDetails this)) ?g3"])
    using run s3 d p
    by (auto simp: rememberFunction_fields split: option.splits)
qed

subsection \<open>The initializer of function types: the states of the test\<close>

lemma plusType_integer_created:
  "createFunction (=) acceptEveryName 1 (plusDetails integerType) newServices =
     Inr (\<lparr>typeDetails = plusDetails integerType,
           inferenceRules = createInferenceRules (plusDetails integerType) (plusType 1 integerType),
           initialFunctionType = plusType 1 integerType\<rparr>,
          servicesAfterPlusInteger)"
  by (simp add: createFunction_def FunctionTypeInitializer_new_def onSwitchedToIdentifiable_def
        producedType_def registerInferenceRules_def deregisterInferenceRules_def
        createInferenceRules_def rememberFunction_def plusDetails_def plusType_def
        acceptEveryName_def newServices_def servicesAfterPlusInteger_def
        addBoundRule_def removeBoundRule_def addValidationRule_def removeValidationRule_def
        calculateFunctionIdentifier_def integerType_def doubleType_def stringType_def booleanType_def
        getType_def addNode_def testGraph_def Let_def markAsConvertible_def markAsSubType_def addEdge_def
        findPath_def outgoingSteps_def)

lemma second_initializer_constructed:
  "FunctionTypeInitializer_new acceptEveryName 2 (plusDetails t) servicesAfterPlusInteger =
     Inr (secondInitializer t, servicesWithSecondInitializer t)"
  by (simp add: FunctionTypeInitializer_new_def registerInferenceRules_def
        createInferenceRules_def plusDetails_def plusType_def secondInitializer_def
        acceptEveryName_def servicesAfterPlusInteger_def servicesWithSecondInitializer_def
        addBoundRule_def addValidationRule_def Let_def)

lemma second_initializer_facts:
  "isFunctionType (plusType 2 t)"
  "functionName (typeDetails (secondInitializer t)) = ''+''"
  "typeDetails (secondInitializer t) = plusDetails t"
  "inferenceRules (secondInitializer t) = createInferenceRules (typeDetails (secondInitializer t)) (plusType 2 t)"
  "mapNameTypes (servicesWithSecondInitializer t) ''+'' = Some
        \<lparr>overloadedFunctions = [(plusType 1 integerType, Some 0)],
         inference' = [(FunctionCallInferenceRule (plusDetails integerType) (plusType 1 integerType),
                        Some (plusType 1 integerType)),
                       (FunctionCallInferenceRule (plusDetails t) (plusType 2 t), None)],
         sameOutputType = Some integerType\<rparr>"
  "Inference (servicesWithSecondInitializer t) = [(OverloadedFunctionsTypeInferenceRule ''+'', None)]"
  "validationCollector (servicesWithSecondInitializer t) = []"
  "Graph (servicesWithSecondInitializer t) = testGraph\<lparr>nodes := nodes testGraph @ [plusType 1 integerType]\<rparr>"
  by (simp_all add: secondInitializer_def servicesWithSecondInitializer_def servicesAfterPlusInteger_def
        plusType_def plusDetails_def)

lemma plusType_identifier:
  "getIdentifier (plusType r integerType) = ''+(left:integer, right:integer) -> integer''"
  "getIdentifier (plusType r doubleType) = ''+(left:double, right:double) -> double''"
  by (simp_all add: plusType_def plusDetails_def calculateFunctionIdentifier_def integerType_def doubleType_def)

lemma test_nodes: "nodes testGraph = [integerType, doubleType, stringType, booleanType]"
  by (simp add: testGraph_def markAsConvertible_def markAsSubType_def addEdge_def findPath_def
      integerType_def doubleType_def stringType_def booleanType_def outgoingSteps_def)

lemma second_initializer_lookup:
  "getType (Graph (servicesWithSecondInitializer t)) (getIdentifier (plusType 2 integerType))
     = Some (plusType 1 integerType)"
  "getType (Graph (servicesWithSecondInitializer t)) (getIdentifier (plusType 2 doubleType)) = None"
  "plusType 1 integerType \<noteq> plusType 2 integerType"
  by (simp_all add: second_initializer_facts getType_def test_nodes plusType_identifier)
     (simp_all add: plusType_def plusDetails_def calculateFunctionIdentifier_def
        integerType_def doubleType_def stringType_def booleanType_def)

lemma second_initializer_group:
  "mapNameTypes (servicesWithSecondInitializer t) (functionName (typeDetails (secondInitializer t))) = Some
        \<lparr>overloadedFunctions = [(plusType 1 integerType, Some 0)],
         inference' = [(FunctionCallInferenceRule (plusDetails integerType) (plusType 1 integerType),
                        Some (plusType 1 integerType)),
                       (FunctionCallInferenceRule (plusDetails t) (plusType 2 t), None)],
         sameOutputType = Some integerType\<rparr>"
  by (simp only: second_initializer_facts(2) second_initializer_facts(5))

lemma second_initializer_produced:
  "fst (producedType (plusType 2 doubleType) (servicesWithSecondInitializer doubleType)) = plusType 2 doubleType"
  using second_initializer_lookup(2) [of doubleType] by (simp add: producedType_def)

lemma second_initializer_switched:
  "\<exists>s'. onSwitchedToIdentifiable (=) (secondInitializer doubleType) (plusType 2 doubleType)
          (servicesWithSecondInitializer doubleType) = Inr (secondInitializer doubleType, s')"
proof -
  obtain s1 where p: "producedType (plusType 2 doubleType) (servicesWithSecondInitializer doubleType)
      = (plusType 2 doubleType, s1)"
    using second_initializer_lookup(2) [of doubleType] by (simp add: producedType_def)
  have t: "secondInitializer doubleType = (if plusType 2 doubleType \<noteq> plusType 2 doubleType
      then (secondInitializer doubleType)\<lparr>inferenceRules :=
             createInferenceRules (typeDetails (secondInitializer doubleType)) (plusType 2 doubleType)\<rparr>
      else secondInitializer doubleType)"
    by simp
  from onSwitchedToIdentifiable_result [OF second_initializer_facts(1) second_initializer_group p t, of "(=)"]
  show ?thesis by blast
qed

lemma rememberFunction_differs:
  "overloadedFunctions g \<noteq> [] \<Longrightarrow>
   \<not> bothEqual eq (sameOutputType g) (getOutputTypeForFunctionCalls ready) \<Longrightarrow>
   sameOutputType (rememberFunction eq ready rule g) = None"
  by (cases "sameOutputType g"; cases "getOutputTypeForFunctionCalls ready")
     (auto simp: rememberFunction_def Let_def)

subsection \<open>The canonical function type gets the rules\<close>

text \<open>
  Claim C7. The initializer holds the rules created for the initial function type, each
  registered at most once without a bound type. When the graph holds another node under
  the identifier of the initial type, \<open>onSwitchedToIdentifiable\<close> leaves the graph as it
  is, remembers the existing node in the overload group, holds rules created for the
  existing node, and the registries no longer hold the rules of the initial node but
  hold the new rules bound to the existing node. When the graph holds no node under the
  identifier, the initial type is added to the graph and remembered, and its rules are
  registered bound to it and no longer without a bound type.
\<close>

theorem canonical_function_type_gets_the_rules:
  assumes "isFunctionType f"
    and "mapNameTypes s (functionName (typeDetails this)) = Some g"
    and "inferenceRules this = createInferenceRules (typeDetails this) f"
    and "count_list (Inference s) (InferenceForDeclaration (typeDetails this) f, None) \<le> 1"
    and "count_list (inference' g) (FunctionCallInferenceRule (typeDetails this) f, None) \<le> 1"
    and "count_list (validationCollector s) (ValidationForCall (typeDetails this) f) \<le> 1"
  shows "(getType (Graph s) (getIdentifier f) = Some e \<and> e \<noteq> f \<longrightarrow>
      (\<exists>s' g'. onSwitchedToIdentifiable eq this f s =
                 Inr (this\<lparr>inferenceRules := createInferenceRules (typeDetails this) e\<rparr>, s') \<and>
         Graph s' = Graph s \<and>
         mapNameTypes s' (functionName (typeDetails this)) = Some g' \<and>
         overloadedFunctions g' = overloadedFunctions g @ [(e, inferenceRuleForCalls (typeDetails this))] \<and>
         (inferenceRuleForDeclaration (typeDetails this) \<noteq> None \<longrightarrow>
            (InferenceForDeclaration (typeDetails this) f, None) \<notin> set (Inference s') \<and>
            (InferenceForDeclaration (typeDetails this) e, Some e) \<in> set (Inference s')) \<and>
         (inferenceRuleForCalls (typeDetails this) \<noteq> None \<longrightarrow>
            (FunctionCallInferenceRule (typeDetails this) f, None) \<notin> set (inference' g') \<and>
            (FunctionCallInferenceRule (typeDetails this) e, Some e) \<in> set (inference' g')) \<and>
         (validationForCall (typeDetails this) \<noteq> None \<longrightarrow>
            ValidationForCall (typeDetails this) f \<notin> set (validationCollector s') \<and>
            ValidationForCall (typeDetails this) e \<in> set (validationCollector s')))) \<and>
    (getType (Graph s) (getIdentifier f) = None \<longrightarrow>
      (\<exists>s' g'. onSwitchedToIdentifiable eq this f s = Inr (this, s') \<and>
         nodes (Graph s') = nodes (Graph s) @ [f] \<and>
         mapNameTypes s' (functionName (typeDetails this)) = Some g' \<and>
         overloadedFunctions g' = overloadedFunctions g @ [(f, inferenceRuleForCalls (typeDetails this))] \<and>
         (inferenceRuleForDeclaration (typeDetails this) \<noteq> None \<longrightarrow>
            (InferenceForDeclaration (typeDetails this) f, None) \<notin> set (Inference s') \<and>
            (InferenceForDeclaration (typeDetails this) f, Some f) \<in> set (Inference s')) \<and>
         (inferenceRuleForCalls (typeDetails this) \<noteq> None \<longrightarrow>
            (FunctionCallInferenceRule (typeDetails this) f, None) \<notin> set (inference' g') \<and>
            (FunctionCallInferenceRule (typeDetails this) f, Some f) \<in> set (inference' g')) \<and>
         (validationForCall (typeDetails this) \<noteq> None \<longrightarrow>
            ValidationForCall (typeDetails this) f \<in> set (validationCollector s'))))"
proof (intro conjI impI)
  let ?td = "typeDetails this"
  assume dup: "getType (Graph s) (getIdentifier f) = Some e \<and> e \<noteq> f"
  then have p: "producedType f s = (e, s)"
    by (simp add: producedType_def)
  let ?this1 = "this\<lparr>inferenceRules := createInferenceRules ?td e\<rparr>"
  have t1: "?this1 = (if e \<noteq> f then this\<lparr>inferenceRules := createInferenceRules (typeDetails this) e\<rparr> else this)"
    using dup by simp
  from onSwitchedToIdentifiable_result [OF assms(1,2) p t1, of eq]
  obtain s' g' where r: "onSwitchedToIdentifiable eq this f s = Inr (?this1, s')"
      "Graph s' = Graph s" "mapNameTypes s' (functionName ?td) = Some g'"
      "overloadedFunctions g' = overloadedFunctions g @ [(e, inferenceRuleForCalls ?td)]"
    and i: "inference' g' =
        (case inferenceForCall (inferenceRules ?this1) of
           None \<Rightarrow> (case inferenceForCall (inferenceRules this) of None \<Rightarrow> inference' g
                      | Some r \<Rightarrow> remove1 (r, None) (inference' g))
         | Some r1 \<Rightarrow> (case inferenceForCall (inferenceRules this) of None \<Rightarrow> inference' g
                      | Some r \<Rightarrow> remove1 (r, None) (inference' g)) @ [(r1, Some e)])"
    and d: "Inference s' =
        (case inferenceForDeclaration (inferenceRules ?this1) of
           None \<Rightarrow> (case inferenceForDeclaration (inferenceRules this) of None \<Rightarrow> Inference s
                      | Some r \<Rightarrow> remove1 (r, None) (Inference s))
         | Some r1 \<Rightarrow> (case inferenceForDeclaration (inferenceRules this) of None \<Rightarrow> Inference s
                      | Some r \<Rightarrow> remove1 (r, None) (Inference s)) @ [(r1, Some e)])"
    and v: "validationCollector s' =
        (case validationRuleForCall (inferenceRules ?this1) of
           None \<Rightarrow> (case validationRuleForCall (inferenceRules this) of None \<Rightarrow> validationCollector s
                      | Some r \<Rightarrow> remove1 r (validationCollector s))
         | Some r1 \<Rightarrow> (case validationRuleForCall (inferenceRules this) of None \<Rightarrow> validationCollector s
                      | Some r \<Rightarrow> remove1 r (validationCollector s)) @ [r1])"
    by blast
  have a: "inferenceRuleForDeclaration ?td \<noteq> None \<longrightarrow>
            (InferenceForDeclaration ?td f, None) \<notin> set (Inference s') \<and>
            (InferenceForDeclaration ?td e, Some e) \<in> set (Inference s')"
    using d assms(3) remove1_registered_once [OF assms(4)]
    by (auto simp: createInferenceRules_def)
  have b: "inferenceRuleForCalls ?td \<noteq> None \<longrightarrow>
            (FunctionCallInferenceRule ?td f, None) \<notin> set (inference' g') \<and>
            (FunctionCallInferenceRule ?td e, Some e) \<in> set (inference' g')"
    using i assms(3) remove1_registered_once [OF assms(5)]
    by (auto simp: createInferenceRules_def)
  have c: "validationForCall ?td \<noteq> None \<longrightarrow>
            ValidationForCall ?td f \<notin> set (validationCollector s') \<and>
            ValidationForCall ?td e \<in> set (validationCollector s')"
    using v assms(3) dup remove1_registered_once [OF assms(6)]
    by (auto simp: createInferenceRules_def)
  from r a b c
  show "\<exists>s' g'. onSwitchedToIdentifiable eq this f s =
                 Inr (this\<lparr>inferenceRules := createInferenceRules (typeDetails this) e\<rparr>, s') \<and>
         Graph s' = Graph s \<and>
         mapNameTypes s' (functionName (typeDetails this)) = Some g' \<and>
         overloadedFunctions g' = overloadedFunctions g @ [(e, inferenceRuleForCalls (typeDetails this))] \<and>
         (inferenceRuleForDeclaration (typeDetails this) \<noteq> None \<longrightarrow>
            (InferenceForDeclaration (typeDetails this) f, None) \<notin> set (Inference s') \<and>
            (InferenceForDeclaration (typeDetails this) e, Some e) \<in> set (Inference s')) \<and>
         (inferenceRuleForCalls (typeDetails this) \<noteq> None \<longrightarrow>
            (FunctionCallInferenceRule (typeDetails this) f, None) \<notin> set (inference' g') \<and>
            (FunctionCallInferenceRule (typeDetails this) e, Some e) \<in> set (inference' g')) \<and>
         (validationForCall (typeDetails this) \<noteq> None \<longrightarrow>
            ValidationForCall (typeDetails this) f \<notin> set (validationCollector s') \<and>
            ValidationForCall (typeDetails this) e \<in> set (validationCollector s'))"
    by blast
next
  let ?td = "typeDetails this"
  assume new: "getType (Graph s) (getIdentifier f) = None"
  obtain s1 where p: "producedType f s = (f, s1)"
    using new by (simp add: producedType_def)
  from producedType_fields [OF p] new have n: "nodes (Graph s1) = nodes (Graph s) @ [f]"
    by simp
  have t1: "this = (if f \<noteq> f then this\<lparr>inferenceRules := createInferenceRules (typeDetails this) f\<rparr> else this)"
    by simp
  from onSwitchedToIdentifiable_result [OF assms(1,2) p t1, of eq]
  obtain s' g' where r: "onSwitchedToIdentifiable eq this f s = Inr (this, s')"
      "Graph s' = Graph s1" "mapNameTypes s' (functionName ?td) = Some g'"
      "overloadedFunctions g' = overloadedFunctions g @ [(f, inferenceRuleForCalls ?td)]"
    and i: "inference' g' =
        (case inferenceForCall (inferenceRules this) of
           None \<Rightarrow> (case inferenceForCall (inferenceRules this) of None \<Rightarrow> inference' g
                      | Some r \<Rightarrow> remove1 (r, None) (inference' g))
         | Some r1 \<Rightarrow> (case inferenceForCall (inferenceRules this) of None \<Rightarrow> inference' g
                      | Some r \<Rightarrow> remove1 (r, None) (inference' g)) @ [(r1, Some f)])"
    and d: "Inference s' =
        (case inferenceForDeclaration (inferenceRules this) of
           None \<Rightarrow> (case inferenceForDeclaration (inferenceRules this) of None \<Rightarrow> Inference s
                      | Some r \<Rightarrow> remove1 (r, None) (Inference s))
         | Some r1 \<Rightarrow> (case inferenceForDeclaration (inferenceRules this) of None \<Rightarrow> Inference s
                      | Some r \<Rightarrow> remove1 (r, None) (Inference s)) @ [(r1, Some f)])"
    and v: "validationCollector s' =
        (case validationRuleForCall (inferenceRules this) of
           None \<Rightarrow> (case validationRuleForCall (inferenceRules this) of None \<Rightarrow> validationCollector s
                      | Some r \<Rightarrow> remove1 r (validationCollector s))
         | Some r1 \<Rightarrow> (case validationRuleForCall (inferenceRules this) of None \<Rightarrow> validationCollector s
                      | Some r \<Rightarrow> remove1 r (validationCollector s)) @ [r1])"
    by blast
  have a: "inferenceRuleForDeclaration ?td \<noteq> None \<longrightarrow>
            (InferenceForDeclaration ?td f, None) \<notin> set (Inference s') \<and>
            (InferenceForDeclaration ?td f, Some f) \<in> set (Inference s')"
    using d assms(3) remove1_registered_once [OF assms(4)]
    by (auto simp: createInferenceRules_def)
  have b: "inferenceRuleForCalls ?td \<noteq> None \<longrightarrow>
            (FunctionCallInferenceRule ?td f, None) \<notin> set (inference' g') \<and>
            (FunctionCallInferenceRule ?td f, Some f) \<in> set (inference' g')"
    using i assms(3) remove1_registered_once [OF assms(5)]
    by (auto simp: createInferenceRules_def)
  have c: "validationForCall ?td \<noteq> None \<longrightarrow>
            ValidationForCall ?td f \<in> set (validationCollector s')"
    using v assms(3)
    by (auto simp: createInferenceRules_def)
  from r n a b c
  show "\<exists>s' g'. onSwitchedToIdentifiable eq this f s = Inr (this, s') \<and>
         nodes (Graph s') = nodes (Graph s) @ [f] \<and>
         mapNameTypes s' (functionName (typeDetails this)) = Some g' \<and>
         overloadedFunctions g' = overloadedFunctions g @ [(f, inferenceRuleForCalls (typeDetails this))] \<and>
         (inferenceRuleForDeclaration (typeDetails this) \<noteq> None \<longrightarrow>
            (InferenceForDeclaration (typeDetails this) f, None) \<notin> set (Inference s') \<and>
            (InferenceForDeclaration (typeDetails this) f, Some f) \<in> set (Inference s')) \<and>
         (inferenceRuleForCalls (typeDetails this) \<noteq> None \<longrightarrow>
            (FunctionCallInferenceRule (typeDetails this) f, None) \<notin> set (inference' g') \<and>
            (FunctionCallInferenceRule (typeDetails this) f, Some f) \<in> set (inference' g')) \<and>
         (validationForCall (typeDetails this) \<noteq> None \<longrightarrow>
            ValidationForCall (typeDetails this) f \<in> set (validationCollector s'))"
    by (metis (no_types, lifting))
qed

theorem canonical_function_type_gets_the_rules_witness:
  "isFunctionType (plusType 2 integerType) \<and>
   getType (Graph (servicesWithSecondInitializer integerType)) (getIdentifier (plusType 2 integerType))
     = Some (plusType 1 integerType) \<and>
   plusType 1 integerType \<noteq> plusType 2 integerType \<and>
   inferenceRuleForCalls (plusDetails integerType) \<noteq> None \<and>
   (\<exists>s' g'. onSwitchedToIdentifiable (=) (secondInitializer integerType) (plusType 2 integerType)
              (servicesWithSecondInitializer integerType)
            = Inr ((secondInitializer integerType)
                     \<lparr>inferenceRules := createInferenceRules (plusDetails integerType) (plusType 1 integerType)\<rparr>, s') \<and>
       Graph s' = Graph (servicesWithSecondInitializer integerType) \<and>
       mapNameTypes s' ''+'' = Some g' \<and>
       (FunctionCallInferenceRule (plusDetails integerType) (plusType 2 integerType), None) \<notin> set (inference' g') \<and>
       (FunctionCallInferenceRule (plusDetails integerType) (plusType 1 integerType), Some (plusType 1 integerType))
          \<in> set (inference' g')) \<and>
   getType (Graph (servicesWithSecondInitializer doubleType)) (getIdentifier (plusType 2 doubleType)) = None \<and>
   (\<exists>s' g'. onSwitchedToIdentifiable (=) (secondInitializer doubleType) (plusType 2 doubleType)
              (servicesWithSecondInitializer doubleType)
            = Inr (secondInitializer doubleType, s') \<and>
       nodes (Graph s') = nodes (Graph (servicesWithSecondInitializer doubleType)) @ [plusType 2 doubleType] \<and>
       mapNameTypes s' ''+'' = Some g' \<and>
       (FunctionCallInferenceRule (plusDetails doubleType) (plusType 2 doubleType), None) \<notin> set (inference' g') \<and>
       (FunctionCallInferenceRule (plusDetails doubleType) (plusType 2 doubleType), Some (plusType 2 doubleType))
          \<in> set (inference' g'))"
proof -
  have c: "inferenceRuleForCalls (plusDetails t) \<noteq> None" for t
    by (simp add: plusDetails_def)
  have h: "count_list (Inference (servicesWithSecondInitializer t))
             (InferenceForDeclaration (typeDetails (secondInitializer t)) (plusType 2 t), None) \<le> 1"
      "count_list (inference' \<lparr>overloadedFunctions = [(plusType 1 integerType, Some 0)],
         inference' = [(FunctionCallInferenceRule (plusDetails integerType) (plusType 1 integerType),
                        Some (plusType 1 integerType)),
                       (FunctionCallInferenceRule (plusDetails t) (plusType 2 t), None)],
         sameOutputType = Some integerType\<rparr>)
             (FunctionCallInferenceRule (typeDetails (secondInitializer t)) (plusType 2 t), None) \<le> 1"
      "count_list (validationCollector (servicesWithSecondInitializer t))
             (ValidationForCall (typeDetails (secondInitializer t)) (plusType 2 t)) \<le> 1" for t
    by (simp_all add: second_initializer_facts)
  have g: "mapNameTypes (servicesWithSecondInitializer t) (functionName (typeDetails (secondInitializer t))) = Some
        \<lparr>overloadedFunctions = [(plusType 1 integerType, Some 0)],
         inference' = [(FunctionCallInferenceRule (plusDetails integerType) (plusType 1 integerType),
                        Some (plusType 1 integerType)),
                       (FunctionCallInferenceRule (plusDetails t) (plusType 2 t), None)],
         sameOutputType = Some integerType\<rparr>" for t
    by (simp only: second_initializer_facts(2) second_initializer_facts(5))
  note dup = canonical_function_type_gets_the_rules
    [OF second_initializer_facts(1) g second_initializer_facts(4) h,
     of integerType "plusType 1 integerType" "(=)", THEN conjunct1, rule_format]
  note new = canonical_function_type_gets_the_rules
    [OF second_initializer_facts(1) g second_initializer_facts(4) h,
     of doubleType "plusType 1 integerType" "(=)", THEN conjunct2, rule_format]
  have fn: "functionName (plusDetails t) = ''+''" for t
    by (simp add: plusDetails_def)
  from dup [OF conjI [OF second_initializer_lookup(1) second_initializer_lookup(3)]]
  obtain s1 g1 where d1: "onSwitchedToIdentifiable (=) (secondInitializer integerType) (plusType 2 integerType)
              (servicesWithSecondInitializer integerType)
            = Inr ((secondInitializer integerType)
                     \<lparr>inferenceRules := createInferenceRules (typeDetails (secondInitializer integerType)) (plusType 1 integerType)\<rparr>, s1)"
      "Graph s1 = Graph (servicesWithSecondInitializer integerType)"
      "mapNameTypes s1 (functionName (typeDetails (secondInitializer integerType))) = Some g1"
      "inferenceRuleForCalls (typeDetails (secondInitializer integerType)) \<noteq> None \<longrightarrow>
         (FunctionCallInferenceRule (typeDetails (secondInitializer integerType)) (plusType 2 integerType), None) \<notin> set (inference' g1) \<and>
         (FunctionCallInferenceRule (typeDetails (secondInitializer integerType)) (plusType 1 integerType), Some (plusType 1 integerType))
          \<in> set (inference' g1)"
    by blast
  have d: "\<exists>s' g'. onSwitchedToIdentifiable (=) (secondInitializer integerType) (plusType 2 integerType)
              (servicesWithSecondInitializer integerType)
            = Inr ((secondInitializer integerType)
                     \<lparr>inferenceRules := createInferenceRules (plusDetails integerType) (plusType 1 integerType)\<rparr>, s') \<and>
       Graph s' = Graph (servicesWithSecondInitializer integerType) \<and>
       mapNameTypes s' ''+'' = Some g' \<and>
       (FunctionCallInferenceRule (plusDetails integerType) (plusType 2 integerType), None) \<notin> set (inference' g') \<and>
       (FunctionCallInferenceRule (plusDetails integerType) (plusType 1 integerType), Some (plusType 1 integerType))
          \<in> set (inference' g')"
    apply (rule exI [of _ s1])
    apply (rule exI [of _ g1])
    using d1 c [of integerType]
    by (simp add: second_initializer_facts(3) fn)
  from new [OF second_initializer_lookup(2)]
  obtain s2 g2 where n1: "onSwitchedToIdentifiable (=) (secondInitializer doubleType) (plusType 2 doubleType)
              (servicesWithSecondInitializer doubleType)
            = Inr (secondInitializer doubleType, s2)"
      "nodes (Graph s2) = nodes (Graph (servicesWithSecondInitializer doubleType)) @ [plusType 2 doubleType]"
      "mapNameTypes s2 (functionName (typeDetails (secondInitializer doubleType))) = Some g2"
      "inferenceRuleForCalls (typeDetails (secondInitializer doubleType)) \<noteq> None \<longrightarrow>
         (FunctionCallInferenceRule (typeDetails (secondInitializer doubleType)) (plusType 2 doubleType), None) \<notin> set (inference' g2) \<and>
         (FunctionCallInferenceRule (typeDetails (secondInitializer doubleType)) (plusType 2 doubleType), Some (plusType 2 doubleType))
          \<in> set (inference' g2)"
    by blast
  have n: "\<exists>s' g'. onSwitchedToIdentifiable (=) (secondInitializer doubleType) (plusType 2 doubleType)
              (servicesWithSecondInitializer doubleType)
            = Inr (secondInitializer doubleType, s') \<and>
       nodes (Graph s') = nodes (Graph (servicesWithSecondInitializer doubleType)) @ [plusType 2 doubleType] \<and>
       mapNameTypes s' ''+'' = Some g' \<and>
       (FunctionCallInferenceRule (plusDetails doubleType) (plusType 2 doubleType), None) \<notin> set (inference' g') \<and>
       (FunctionCallInferenceRule (plusDetails doubleType) (plusType 2 doubleType), Some (plusType 2 doubleType))
          \<in> set (inference' g')"
    apply (rule exI [of _ s2])
    apply (rule exI [of _ g2])
    using n1 c [of doubleType]
    by (simp add: second_initializer_facts(3) fn)
  show ?thesis
    using second_initializer_facts(1) [of integerType] second_initializer_lookup(1) [of integerType]
      second_initializer_lookup(3) second_initializer_lookup(2) [of doubleType] c [of integerType] d n
    by (intro conjI) blast+
qed

subsection \<open>The overload group remembers whether the output types are the same\<close>

text \<open>
  Claim C10. Let the equality of types be reflexive, symmetric and transitive. A
  successful \<open>onSwitchedToIdentifiable\<close> appends the produced function type to the
  overload group of its name and keeps the invariant: once functions are registered,
  \<open>sameOutputType\<close> is defined exactly when every registered function has an output type
  and these are pair-wise equal, and it is then the output type of the first function.
  When functions were registered before and the output type of the new function is
  not equal to the recorded one, or nothing is recorded any more, \<open>sameOutputType\<close> is
  undefined afterwards.
\<close>

theorem sameOutputType_tracks_equal_outputs:
  assumes "\<forall>x. eq x x" and "\<forall>x y. eq x y \<longrightarrow> eq y x" and "\<forall>x y z. eq x y \<and> eq y z \<longrightarrow> eq x z"
    and "onSwitchedToIdentifiable eq this f s = Inr (this', s')"
    and "mapNameTypes s (functionName (typeDetails this)) = Some g"
    and "sameOutputTypeInvariant eq g"
  shows "\<exists>g'. mapNameTypes s' (functionName (typeDetails this)) = Some g' \<and>
           overloadedFunctions g' =
             overloadedFunctions g @ [(fst (producedType f s), inferenceRuleForCalls (typeDetails this))] \<and>
           sameOutputTypeInvariant eq g' \<and>
           (overloadedFunctions g \<noteq> [] \<and>
            \<not> bothEqual eq (sameOutputType g) (getOutputTypeForFunctionCalls (fst (producedType f s))) \<longrightarrow>
              sameOutputType g' = None)"
proof -
  let ?ready = "fst (producedType f s)"
  let ?rule = "inferenceRuleForCalls (typeDetails this)"
  from onSwitchedToIdentifiable_group [OF assms(4,5)]
  obtain g1 where g1: "mapNameTypes s' (functionName (typeDetails this)) =
            Some (rememberFunction eq ?ready ?rule g1)"
      "overloadedFunctions g1 = overloadedFunctions g" "sameOutputType g1 = sameOutputType g"
    by blast
  have "registeredOutputs g1 = registeredOutputs g"
    by (simp add: registeredOutputs_def g1(2))
  with assms(6) g1(2,3) have "sameOutputTypeInvariant eq g1"
    by (simp only: sameOutputTypeInvariant_def)
  from rememberFunction_invariant [OF assms(1,2,3) this]
  have i: "sameOutputTypeInvariant eq (rememberFunction eq ?ready ?rule g1)" .
  have l: "overloadedFunctions (rememberFunction eq ?ready ?rule g1)
      = overloadedFunctions g @ [(?ready, ?rule)]"
    using g1(2) by (simp add: rememberFunction_fields)
  have n: "overloadedFunctions g \<noteq> [] \<and>
      \<not> bothEqual eq (sameOutputType g) (getOutputTypeForFunctionCalls ?ready) \<longrightarrow>
      sameOutputType (rememberFunction eq ?ready ?rule g1) = None"
    using rememberFunction_differs [of g1 eq ?ready ?rule] g1(2,3) by simp
  from g1(1) i l n show ?thesis by blast
qed

lemma integer_group_invariant:
  "sameOutputTypeInvariant (=)
     \<lparr>overloadedFunctions = [(plusType 1 integerType, Some (0::nat))],
      inference' = [(FunctionCallInferenceRule (plusDetails integerType) (plusType 1 integerType),
                     Some (plusType 1 integerType)),
                    (FunctionCallInferenceRule (plusDetails doubleType) (plusType 2 doubleType), None)],
      sameOutputType = Some integerType\<rparr>"
  by (simp add: sameOutputTypeInvariant_def registeredOutputs_def outputsPairwiseEqual_def plusType_def)

theorem sameOutputType_tracks_equal_outputs_witness:
  "sameOutputTypeInvariant (=)
     \<lparr>overloadedFunctions = [(plusType 1 integerType, Some (0::nat))],
      inference' = [(FunctionCallInferenceRule (plusDetails integerType) (plusType 1 integerType),
                     Some (plusType 1 integerType)),
                    (FunctionCallInferenceRule (plusDetails doubleType) (plusType 2 doubleType), None)],
      sameOutputType = Some integerType\<rparr> \<and>
   (\<exists>s' g'. onSwitchedToIdentifiable (=) (secondInitializer doubleType) (plusType 2 doubleType)
              (servicesWithSecondInitializer doubleType) = Inr (secondInitializer doubleType, s') \<and>
      mapNameTypes s' ''+'' = Some g' \<and>
      overloadedFunctions g' = [(plusType 1 integerType, Some 0), (plusType 2 doubleType, Some 0)] \<and>
      sameOutputTypeInvariant (=) g' \<and>
      sameOutputType g' = None)"
proof -
  have e: "\<forall>x::Type. x = x" "\<forall>x y::Type. x = y \<longrightarrow> y = x" "\<forall>x y z::Type. x = y \<and> y = z \<longrightarrow> x = z"
    by simp_all
  from second_initializer_switched
  obtain s' where r: "onSwitchedToIdentifiable (=) (secondInitializer doubleType) (plusType 2 doubleType)
              (servicesWithSecondInitializer doubleType) = Inr (secondInitializer doubleType, s')"
    by blast
  have d: "\<not> bothEqual (=) (Some integerType) (getOutputTypeForFunctionCalls (plusType 2 doubleType))"
    by (simp add: plusType_def integerType_def doubleType_def)
  have c: "inferenceRuleForCalls (plusDetails doubleType) = Some 0"
    by (simp add: plusDetails_def)
  from sameOutputType_tracks_equal_outputs [OF e r second_initializer_group integer_group_invariant]
  obtain g' where g': "mapNameTypes s' (functionName (typeDetails (secondInitializer doubleType))) = Some g'"
      "overloadedFunctions g' = [(plusType 1 integerType, Some 0), (plusType 2 doubleType, Some 0)]"
      "sameOutputTypeInvariant (=) g'"
      "sameOutputType g' = None"
    using d c by (auto simp: second_initializer_produced second_initializer_facts(3))
  have "\<exists>s' g'. onSwitchedToIdentifiable (=) (secondInitializer doubleType) (plusType 2 doubleType)
              (servicesWithSecondInitializer doubleType) = Inr (secondInitializer doubleType, s') \<and>
      mapNameTypes s' ''+'' = Some g' \<and>
      overloadedFunctions g' = [(plusType 1 integerType, Some 0), (plusType 2 doubleType, Some 0)] \<and>
      sameOutputTypeInvariant (=) g' \<and>
      sameOutputType g' = None"
    apply (rule exI [of _ s'])
    apply (rule exI [of _ g'])
    using r g' by (simp add: second_initializer_facts(2))
  with integer_group_invariant show ?thesis by blast
qed

subsection \<open>Overload resolution\<close>

lemma collectTypes_mono:
  assumes "\<And>x r. f x = Some r \<Longrightarrow> g x = Some r"
  shows "collectTypes (map f xs) = Some res \<Longrightarrow> collectTypes (map g xs) = Some res"
proof (induction xs arbitrary: res)
  case Nil
  then show ?case by simp
next
  case (Cons x xs)
  from Cons.prems obtain r where r: "f x = Some r"
    by (cases "f x") auto
  with Cons.prems obtain res' where res': "collectTypes (map f xs) = Some res'"
    by (cases "collectTypes (map f xs)") auto
  from Cons.IH [OF res'] assms [OF r] r res' Cons.prems show ?case
    by simp
qed

lemma inferCall_mono:
  assumes "\<And>x r. f x = Some r \<Longrightarrow> g x = Some r"
  shows "(inferCall f gr cs fs node = None \<longrightarrow> inferCall g gr cs fs node = None) \<and>
         (\<forall>a. inferCall f gr cs fs node = Some (Some a) \<longrightarrow> inferCall g gr cs fs node = Some (Some a))"
proof (induction fs)
  case Nil
  then show ?case by simp
next
  case (Cons entry fs)
  obtain fn rule where e: "entry = (fn, rule)" by (cases entry)
  show ?case
  proof (cases rule)
    case None
    with Cons e show ?thesis by simp
  next
    case (Some r)
    show ?thesis
    proof (cases "r node")
      case (Operands ops)
      have "\<And>res. collectTypes (map f ops) = Some res \<Longrightarrow> collectTypes (map g ops) = Some res"
        using collectTypes_mono [of f g] assms by blast
      then show ?thesis
        using e Some Operands
        by (cases "collectTypes (map f ops)") auto
    next
      case (Matched m)
      with Cons e Some show ?thesis by (cases m) auto
    qed
  qed
qed

lemma firstAnswer_mono:
  assumes "\<And>x r. f x = Some r \<Longrightarrow> g x = Some r"
  shows "firstAnswer f e rules node = Some a \<Longrightarrow> firstAnswer g e rules node = Some a"
proof (induction rules)
  case Nil
  then show ?case by simp
next
  case (Cons rule rules)
  show ?case
  proof (cases rule)
    case (PrimitiveRule p t)
    with Cons show ?thesis by (cases "p node") auto
  next
    case (OverloadRule name)
    let ?c = "\<lambda>h. inferCall h (engineGraph e) (map fst (overloadGroup e name)) (overloadGroup e name) node"
    note m = inferCall_mono [of f g "engineGraph e" "map fst (overloadGroup e name)" "overloadGroup e name" node,
        OF assms]
    show ?thesis
    proof (cases "?c f")
      case None
      with m have "?c g = None" by blast
      with None Cons OverloadRule show ?thesis by simp
    next
      case (Some answer)
      with Cons.prems OverloadRule have "answer = Some a" by simp
      with Some m have "?c g = Some (Some a)" by blast
      with OverloadRule show ?thesis by simp
    qed
  qed
qed

lemma inferTypeOf_Suc:
  "inferTypeOf depth e node = Some a \<Longrightarrow> inferTypeOf (Suc depth) e node = Some a"
proof (induction depth arbitrary: node a)
  case 0
  then show ?case by simp
next
  case (Suc depth)
  from Suc.prems have "firstAnswer (inferTypeOf depth e) e (engineRules e) node = Some a"
    by simp
  from firstAnswer_mono [of "inferTypeOf depth e" "inferTypeOf (Suc depth) e", OF Suc.IH this]
  show ?case by simp
qed

lemma inferTypeOf_deeper:
  "inferTypeOf depth e node = Some a \<Longrightarrow> inferTypeOf (depth + extra) e node = Some a"
  by (induction extra) (auto dest: inferTypeOf_Suc)

lemma plus_integer_string:
  "inferTypeOf 2 testEngine (BinaryExpression (IntegerLiteral 2) ''+'' (StringLiteral ''3'')) = Some (Inr stringType)"
  by code_simp

lemma plus_double_integer:
  "inferTypeOf 2 testEngine (BinaryExpression (DoubleLiteral ''2.0'') ''+'' (IntegerLiteral 3)) = Some (Inr doubleType)"
  by code_simp

lemma plus_integer_boolean:
  "inferTypeOf 2 testEngine (BinaryExpression (IntegerLiteral 2) ''+'' (BooleanLiteral True)) = Some (Inr integerType)"
  by code_simp

lemma mixedPlus_ambiguous:
  "bestMatch testGraph mixedPlus [integerType, integerType] = Inl (AmbiguousOverload mixedPlus)"
  by code_simp

lemma bestMatch_dominates:
  assumes "bestMatch g candidates arguments = Inr best"
  shows "\<exists>costs. (best, costs) \<in> set (applicableCandidates g candidates arguments) \<and>
           (\<forall>other \<in> set (applicableCandidates g candidates arguments).
              fst other \<noteq> best \<longrightarrow> dominates costs (snd other))"
proof -
  let ?app = "applicableCandidates g candidates arguments"
  let ?dom = "filter (\<lambda>f. list_all (\<lambda>g. fst g = fst f \<or> dominates (snd f) (snd g)) ?app) ?app"
  from assms obtain b where b: "?dom = [b]" "fst b = best"
    by (auto simp: bestMatch_def Let_def split: if_splits list.splits)
  then have "b \<in> set ?dom" by simp
  then have "b \<in> set ?app" "list_all (\<lambda>g. fst g = fst b \<or> dominates (snd b) (snd g)) ?app"
    by auto
  then show ?thesis
    using b(2) by (intro exI [of _ "snd b"]) (auto simp: list_all_iff)
qed

lemma bestMatch_ambiguous:
  assumes "applicableCandidates g candidates arguments \<noteq> []"
    and "\<forall>best. bestMatch g candidates arguments \<noteq> Inr best"
  shows "\<exists>tied. bestMatch g candidates arguments = Inl (AmbiguousOverload tied)"
  using assms by (auto simp: bestMatch_def Let_def split: list.splits)

lemma bestMatch_no_dominator:
  assumes "\<not> (\<exists>f \<in> set (applicableCandidates g candidates arguments).
              \<forall>other \<in> set (applicableCandidates g candidates arguments).
                fst other \<noteq> fst f \<longrightarrow> dominates (snd f) (snd other))"
  shows "\<forall>best. bestMatch g candidates arguments \<noteq> Inr best"
proof
  fix best
  show "bestMatch g candidates arguments \<noteq> Inr best"
  proof
    assume "bestMatch g candidates arguments = Inr best"
    from bestMatch_dominates [OF this] assms show False
      by fastforce
  qed
qed

text \<open>
  Claim C4. With the four overloads of \<open>+\<close> and the relations of the test, and with any
  depth of at least two, the type inferred for \<open>2 + "3"\<close> is string, for \<open>2.0 + 3\<close> it
  is double, and for \<open>2 + TRUE\<close> it is integer. A function that the resolution selects
  is applicable and dominates every other applicable candidate; when there are
  applicable candidates, the resolution either selects a function or reports
  \<open>AmbiguousOverload\<close>, and it reports \<open>AmbiguousOverload\<close> when no applicable candidate
  dominates all others, as for two integers and the overloads (integer, double) and
  (double, integer).
\<close>

theorem overload_resolution_picks_the_dominating_candidate:
  "inferTypeOf (2 + depth) testEngine (BinaryExpression (IntegerLiteral 2) ''+'' (StringLiteral ''3''))
     = Some (Inr stringType) \<and>
   inferTypeOf (2 + depth) testEngine (BinaryExpression (DoubleLiteral ''2.0'') ''+'' (IntegerLiteral 3))
     = Some (Inr doubleType) \<and>
   inferTypeOf (2 + depth) testEngine (BinaryExpression (IntegerLiteral 2) ''+'' (BooleanLiteral True))
     = Some (Inr integerType) \<and>
   (bestMatch g candidates arguments = Inr best \<longrightarrow>
      (\<exists>costs. (best, costs) \<in> set (applicableCandidates g candidates arguments) \<and>
         (\<forall>other \<in> set (applicableCandidates g candidates arguments).
            fst other \<noteq> best \<longrightarrow> dominates costs (snd other)))) \<and>
   (applicableCandidates g candidates arguments \<noteq> [] \<longrightarrow>
      (\<exists>best. bestMatch g candidates arguments = Inr best) \<or>
      (\<exists>tied. bestMatch g candidates arguments = Inl (AmbiguousOverload tied))) \<and>
   (applicableCandidates g candidates arguments \<noteq> [] \<and>
    \<not> (\<exists>f \<in> set (applicableCandidates g candidates arguments).
          \<forall>other \<in> set (applicableCandidates g candidates arguments).
            fst other \<noteq> fst f \<longrightarrow> dominates (snd f) (snd other)) \<longrightarrow>
      (\<exists>tied. bestMatch g candidates arguments = Inl (AmbiguousOverload tied))) \<and>
   bestMatch testGraph mixedPlus [integerType, integerType] = Inl (AmbiguousOverload mixedPlus)"
proof (intro conjI impI)
  show "inferTypeOf (2 + depth) testEngine (BinaryExpression (IntegerLiteral 2) ''+'' (StringLiteral ''3''))
     = Some (Inr stringType)"
    by (rule inferTypeOf_deeper [OF plus_integer_string])
  show "inferTypeOf (2 + depth) testEngine (BinaryExpression (DoubleLiteral ''2.0'') ''+'' (IntegerLiteral 3))
     = Some (Inr doubleType)"
    by (rule inferTypeOf_deeper [OF plus_double_integer])
  show "inferTypeOf (2 + depth) testEngine (BinaryExpression (IntegerLiteral 2) ''+'' (BooleanLiteral True))
     = Some (Inr integerType)"
    by (rule inferTypeOf_deeper [OF plus_integer_boolean])
  show "bestMatch testGraph mixedPlus [integerType, integerType] = Inl (AmbiguousOverload mixedPlus)"
    by (rule mixedPlus_ambiguous)
next
  assume "bestMatch g candidates arguments = Inr best"
  then show "\<exists>costs. (best, costs) \<in> set (applicableCandidates g candidates arguments) \<and>
         (\<forall>other \<in> set (applicableCandidates g candidates arguments).
            fst other \<noteq> best \<longrightarrow> dominates costs (snd other))"
    by (rule bestMatch_dominates)
next
  assume "applicableCandidates g candidates arguments \<noteq> []"
  then show "(\<exists>best. bestMatch g candidates arguments = Inr best) \<or>
      (\<exists>tied. bestMatch g candidates arguments = Inl (AmbiguousOverload tied))"
    using bestMatch_ambiguous [of g candidates arguments] by blast
next
  assume "applicableCandidates g candidates arguments \<noteq> [] \<and>
    \<not> (\<exists>f \<in> set (applicableCandidates g candidates arguments).
          \<forall>other \<in> set (applicableCandidates g candidates arguments).
            fst other \<noteq> fst f \<longrightarrow> dominates (snd f) (snd other))"
  then show "\<exists>tied. bestMatch g candidates arguments = Inl (AmbiguousOverload tied)"
    using bestMatch_ambiguous [of g candidates arguments] bestMatch_no_dominator [of g candidates arguments]
    by blast
qed

lemma test_overloads:
  "map fst (overloadGroup testEngine ''+'') =
     [plusType 0 integerType, plusType 1 doubleType, plusType 2 stringType, plusType 3 booleanType]"
  by code_simp

lemma test_engine_graph: "engineGraph testEngine = testGraph\<lparr>nodes :=
     nodes testGraph @ [plusType 0 integerType, plusType 1 doubleType, plusType 2 stringType, plusType 3 booleanType]\<rparr>"
  by code_simp

lemma test_best_match:
  "bestMatch (engineGraph testEngine) (map fst (overloadGroup testEngine ''+'')) [integerType, booleanType]
     = Inr (plusType 0 integerType)"
  by code_simp

lemma mixedPlus_applicable:
  "applicableCandidates testGraph mixedPlus [integerType, integerType] \<noteq> [] \<and>
   \<not> (\<exists>f \<in> set (applicableCandidates testGraph mixedPlus [integerType, integerType]).
         \<forall>other \<in> set (applicableCandidates testGraph mixedPlus [integerType, integerType]).
           fst other \<noteq> fst f \<longrightarrow> dominates (snd f) (snd other))"
  by code_simp

theorem overload_resolution_picks_the_dominating_candidate_witness:
  "bestMatch (engineGraph testEngine) (map fst (overloadGroup testEngine ''+'')) [integerType, booleanType]
     = Inr (plusType 0 integerType) \<and>
   (\<exists>costs. (plusType 0 integerType, costs)
        \<in> set (applicableCandidates (engineGraph testEngine) (map fst (overloadGroup testEngine ''+''))
                 [integerType, booleanType]) \<and>
      (\<forall>other \<in> set (applicableCandidates (engineGraph testEngine) (map fst (overloadGroup testEngine ''+''))
                 [integerType, booleanType]).
         fst other \<noteq> plusType 0 integerType \<longrightarrow> dominates costs (snd other))) \<and>
   applicableCandidates testGraph mixedPlus [integerType, integerType] \<noteq> [] \<and>
   \<not> (\<exists>f \<in> set (applicableCandidates testGraph mixedPlus [integerType, integerType]).
         \<forall>other \<in> set (applicableCandidates testGraph mixedPlus [integerType, integerType]).
           fst other \<noteq> fst f \<longrightarrow> dominates (snd f) (snd other)) \<and>
   (\<exists>tied. bestMatch testGraph mixedPlus [integerType, integerType] = Inl (AmbiguousOverload tied))"
proof -
  note a = overload_resolution_picks_the_dominating_candidate
    [where g = "engineGraph testEngine" and candidates = "map fst (overloadGroup testEngine ''+'')"
       and arguments = "[integerType, booleanType]" and best = "plusType 0 integerType"]
  note b = overload_resolution_picks_the_dominating_candidate
    [where g = testGraph and candidates = mixedPlus and arguments = "[integerType, integerType]"]
  from a test_best_match
  have 1: "\<exists>costs. (plusType 0 integerType, costs)
        \<in> set (applicableCandidates (engineGraph testEngine) (map fst (overloadGroup testEngine ''+''))
                 [integerType, booleanType]) \<and>
      (\<forall>other \<in> set (applicableCandidates (engineGraph testEngine) (map fst (overloadGroup testEngine ''+''))
                 [integerType, booleanType]).
         fst other \<noteq> plusType 0 integerType \<longrightarrow> dominates costs (snd other))"
    by blast
  from b mixedPlus_applicable
  have 2: "\<exists>tied. bestMatch testGraph mixedPlus [integerType, integerType] = Inl (AmbiguousOverload tied)"
    by blast
  from 1 2 test_best_match mixedPlus_applicable show ?thesis
    by blast
qed


end
